theory Spec2Isabelle
  imports Main
begin

section \<open>Python values, exceptions and strings\<close>

text \<open>
  The services are written in Python. Every exception the code can meet is an instance of
  \<^verbatim>\<open>Exception\<close>; the three classes the code catches by name have a constructor of their
  own, every other class is \<open>Other\<close> with its class. Signals that are not instances of
  \<^verbatim>\<open>Exception\<close> (KeyboardInterrupt, SystemExit) are not failures of an operation and are
  not part of the model.

  \<open>CalledProcessError m err\<close>: \<open>m\<close> is \<^verbatim>\<open>str(e)\<close>; \<open>err\<close> is what \<^verbatim>\<open>e.stderr.decode()\<close>
  gives: \<open>Inr text\<close>, or \<open>Inl m'\<close> when the captured bytes are not UTF-8 and decoding
  raises a UnicodeDecodeError with message \<open>m'\<close>.
\<close>

datatype other_class =
    Exception | FileNotFoundError | TypeError | AttributeError | KeyError | IndexError
  | ValueError | UnicodeDecodeError | OSError | OverflowError | RuntimeError

datatype exn =
    CalledProcessError string "string + string"
  | ClientError string
  | NoCredentialsError string
  | Other other_class string

fun exn_str :: "exn \<Rightarrow> string" where
  "exn_str (CalledProcessError m err) = m"
| "exn_str (ClientError m) = m"
| "exn_str (NoCredentialsError m) = m"
| "exn_str (Other c m) = m"

text \<open>
  Parameter values are JSON-like Python objects. A float is carried by its \<^verbatim>\<open>repr\<close> (which
  identifies the float; the services pass floats on and never compute with them).
  A dict keeps its items in insertion order, keys are strings.
\<close>

datatype pyval =
    PNone
  | PBool bool
  | PInt int
  | PFloat string
  | PStr string
  | PList "pyval list"
  | PDict "(string \<times> pyval) list"

type_synonym params = "string \<rightharpoonup> pyval"

text \<open>The decimal digit for a number below ten, and \<^verbatim>\<open>str(n)\<close> for a natural number.\<close>

definition digit_char :: "nat \<Rightarrow> char" where
  "digit_char n = ''0123456789'' ! n"

function str_nat :: "nat \<Rightarrow> string" where
  "str_nat n = (if n < 10 then [digit_char n] else str_nat (n div 10) @ [digit_char (n mod 10)])"
  by pat_completeness auto
termination
  by (relation "measure id") auto

declare str_nat.simps [simp del]

definition str_int :: "int \<Rightarrow> string" where
  "str_int i = (if i < 0 then CHR ''-'' # str_nat (nat (- i)) else str_nat (nat i))"

fun join_strs :: "string \<Rightarrow> string list \<Rightarrow> string" where
  "join_strs sep [] = []"
| "join_strs sep [x] = x"
| "join_strs sep (x # y # ys) = x @ sep @ join_strs sep (y # ys)"

definition hex_char :: "nat \<Rightarrow> char" where
  "hex_char n = ''0123456789abcdef'' ! n"

text \<open>
  \<^verbatim>\<open>repr\<close> of a string of ASCII characters: double quotes when the string holds a single
  quote and no double quote, single quotes otherwise; the backslash, the chosen quote and
  the control characters are escaped.
\<close>

definition repr_char :: "char \<Rightarrow> char \<Rightarrow> string" where
  "repr_char q c =
     (if c = CHR 0x5C then [CHR 0x5C, CHR 0x5C]
      else if c = q then [CHR 0x5C, q]
      else if c = CHR 0x0A then [CHR 0x5C, CHR ''n'']
      else if c = CHR 0x0D then [CHR 0x5C, CHR ''r'']
      else if c = CHR 0x09 then [CHR 0x5C, CHR ''t'']
      else if of_char c < (32::nat) \<or> of_char c = (127::nat)
        then [CHR 0x5C, CHR ''x'', hex_char (of_char c div 16), hex_char (of_char c mod 16)]
      else [c])"

definition repr_str :: "string \<Rightarrow> string" where
  "repr_str s =
     (let q = (if CHR 0x27 \<in> set s \<and> CHR 0x22 \<notin> set s then CHR 0x22 else CHR 0x27)
      in q # concat (map (repr_char q) s) @ [q])"

fun py_repr :: "pyval \<Rightarrow> string" where
  "py_repr PNone = ''None''"
| "py_repr (PBool b) = (if b then ''True'' else ''False'')"
| "py_repr (PInt i) = str_int i"
| "py_repr (PFloat r) = r"
| "py_repr (PStr s) = repr_str s"
| "py_repr (PList xs) = ''['' @ join_strs '', '' (map py_repr xs) @ '']''"
| "py_repr (PDict kvs) =
     ''{'' @ join_strs '', '' (map (\<lambda>kv. repr_str (fst kv) @ '': '' @ py_repr (snd kv)) kvs) @ ''}''"

text \<open>\<^verbatim>\<open>str(v)\<close>, also what an f-string writes for \<^verbatim>\<open>{v}\<close>.\<close>

definition py_str :: "pyval \<Rightarrow> string" where
  "py_str v = (case v of PStr s \<Rightarrow> s | _ \<Rightarrow> py_repr v)"

fun truthy :: "pyval \<Rightarrow> bool" where
  "truthy PNone = False"
| "truthy (PBool b) = b"
| "truthy (PInt i) = (i \<noteq> 0)"
| "truthy (PFloat r) = (r \<noteq> ''0.0'' \<and> r \<noteq> ''-0.0'')"
| "truthy (PStr s) = (s \<noteq> [])"
| "truthy (PList xs) = (xs \<noteq> [])"
| "truthy (PDict kvs) = (kvs \<noteq> [])"

fun type_name :: "pyval \<Rightarrow> string" where
  "type_name PNone = ''NoneType''"
| "type_name (PBool b) = ''bool''"
| "type_name (PInt i) = ''int''"
| "type_name (PFloat r) = ''float''"
| "type_name (PStr s) = ''str''"
| "type_name (PList xs) = ''list''"
| "type_name (PDict kvs) = ''dict''"

text \<open>\<^verbatim>\<open>params.get(key, default)\<close> on the parameter dict.\<close>

definition get_default :: "params \<Rightarrow> string \<Rightarrow> pyval \<Rightarrow> pyval" where
  "get_default ps k d = (case ps k of None \<Rightarrow> d | Some v \<Rightarrow> v)"

text \<open>\<^verbatim>\<open>len(v)\<close>, \<^verbatim>\<open>v[0]\<close> for a \<open>v\<close> of length one, iteration over \<open>v\<close>, and \<^verbatim>\<open>v.get(key, default)\<close>
  on an arbitrary value, with the exceptions Python raises on the wrong type.\<close>

fun py_len :: "pyval \<Rightarrow> exn + nat" where
  "py_len (PStr s) = Inr (length s)"
| "py_len (PList xs) = Inr (length xs)"
| "py_len (PDict kvs) = Inr (length kvs)"
| "py_len v = Inl (Other TypeError (''object of type '' @ [CHR 0x27] @ type_name v @ [CHR 0x27] @ '' has no len()''))"

fun py_first :: "pyval \<Rightarrow> exn + pyval" where
  "py_first (PList (x # xs)) = Inr x"
| "py_first (PStr (c # cs)) = Inr (PStr [c])"
| "py_first (PDict kvs) = Inl (Other KeyError ''0'')"
| "py_first (PList []) = Inl (Other IndexError ''list index out of range'')"
| "py_first (PStr []) = Inl (Other IndexError ''string index out of range'')"
| "py_first v = Inl (Other TypeError ([CHR 0x27] @ type_name v @ [CHR 0x27] @ '' object is not subscriptable''))"

fun py_iter :: "pyval \<Rightarrow> exn + pyval list" where
  "py_iter (PList xs) = Inr xs"
| "py_iter (PStr s) = Inr (map (\<lambda>c. PStr [c]) s)"
| "py_iter (PDict kvs) = Inr (map (\<lambda>kv. PStr (fst kv)) kvs)"
| "py_iter v = Inl (Other TypeError ([CHR 0x27] @ type_name v @ [CHR 0x27] @ '' object is not iterable''))"

fun py_get :: "pyval \<Rightarrow> string \<Rightarrow> pyval \<Rightarrow> exn + pyval" where
  "py_get (PDict kvs) k d = Inr (case map_of kvs k of None \<Rightarrow> d | Some v \<Rightarrow> v)"
| "py_get v k d =
     Inl (Other AttributeError ([CHR 0x27] @ type_name v @ [CHR 0x27] @ '' object has no attribute ''
            @ [CHR 0x27] @ ''get'' @ [CHR 0x27]))"

text \<open>\<^verbatim>\<open>s.startswith(p)\<close>, \<^verbatim>\<open>s.replace(old, new)\<close> (every occurrence, left to right; with an
  empty \<open>old\<close> Python writes \<open>new\<close> before every character and at the end) and
  \<^verbatim>\<open>os.path.join(a, b)\<close> on POSIX.\<close>

definition startswith :: "string \<Rightarrow> string \<Rightarrow> bool" where
  "startswith s p = (take (length p) s = p)"

function replace :: "string \<Rightarrow> string \<Rightarrow> string \<Rightarrow> string" where
  "replace old new s =
     (if old = [] then concat (map (\<lambda>c. new @ [c]) s) @ new
      else if s = [] then []
      else if startswith s old then new @ replace old new (drop (length old) s)
      else hd s # replace old new (tl s))"
  by pat_completeness auto
termination
  by (relation "measure (\<lambda>(old, new, s). length s)") auto

declare replace.simps [simp del]

definition path_join :: "string \<Rightarrow> string \<Rightarrow> string" where
  "path_join a b =
     (if startswith b ''/'' then b
      else if a = [] \<or> last a = CHR ''/'' then a @ b
      else a @ ''/'' @ b)"

text \<open>
  \<^verbatim>\<open>str(Path(p).with_suffix(suffix))\<close> on POSIX, as \<^verbatim>\<open>pathlib\<close> of Python 3.11 computes
  it. A path is parsed into its root and its parts (empty components and \<^verbatim>\<open>.\<close> are dropped; two
  leading slashes, and only two, are a root of their own); the suffix of the last part is
  what follows its last dot, when that dot is neither its first nor its last character.
\<close>

fun split_sep :: "string \<Rightarrow> string list" where
  "split_sep [] = [[]]"
| "split_sep (c # cs) =
     (if c = CHR ''/'' then [] # split_sep cs
      else (case split_sep cs of [] \<Rightarrow> [[c]] | x # xs \<Rightarrow> (c # x) # xs))"

definition path_parts :: "string \<Rightarrow> string list" where
  "path_parts p = filter (\<lambda>x. x \<noteq> [] \<and> x \<noteq> ''.'') (split_sep p)"

definition path_root :: "string \<Rightarrow> string" where
  "path_root p =
     (if startswith p ''//'' \<and> \<not> startswith p ''///'' then ''//''
      else if startswith p ''/'' then ''/''
      else [])"

definition path_str :: "string \<Rightarrow> string list \<Rightarrow> string" where
  "path_str root parts = (if root = [] \<and> parts = [] then ''.'' else root @ join_strs ''/'' parts)"

definition name_suffix :: "string \<Rightarrow> string" where
  "name_suffix name =
     (let up_to_dot = rev (dropWhile (\<lambda>c. c \<noteq> CHR ''.'') (rev name))
      in if 1 < length up_to_dot \<and> length up_to_dot < length name
         then drop (length up_to_dot - 1) name else [])"

definition posix_with_suffix :: "string \<Rightarrow> string \<Rightarrow> exn + string" where
  "posix_with_suffix p suffix =
     (let root = path_root p; parts = path_parts p
      in if CHR ''/'' \<in> set suffix \<or> (suffix \<noteq> [] \<and> \<not> startswith suffix ''.'') \<or> suffix = ''.''
           then Inl (Other ValueError (''Invalid suffix '' @ repr_str suffix))
         else if parts = []
           then Inl (Other ValueError (''PosixPath('' @ repr_str (path_str root parts)
                                         @ '') has an empty name''))
         else (let name = last parts
               in Inr (path_str root
                         (butlast parts
                            @ [take (length name - length (name_suffix name)) name @ suffix]))))"

text \<open>
  \<^verbatim>\<open>os.path.normpath(p)\<close> and \<^verbatim>\<open>os.path.relpath(path, start)\<close> on POSIX, for a process whose
  working directory is \<open>cwd\<close>.
\<close>

definition normpath :: "string \<Rightarrow> string" where
  "normpath p =
     (let initial = path_root p;
          comps = fold (\<lambda>comp new.
                          if comp = [] \<or> comp = ''.'' then new
                          else if comp \<noteq> ''..'' \<or> (initial = [] \<and> new = []) \<or> (new \<noteq> [] \<and> last new = ''..'')
                            then new @ [comp]
                          else butlast new)
                    (split_sep p) [];
          r = initial @ join_strs ''/'' comps
      in if r = [] then ''.'' else r)"

definition posix_relpath :: "string \<Rightarrow> string \<Rightarrow> string \<Rightarrow> exn + string" where
  "posix_relpath cwd path start =
     (if path = [] then Inl (Other ValueError ''no path specified'')
      else
        (let start_list = filter (\<lambda>x. x \<noteq> []) (split_sep (normpath (path_join cwd start)));
             path_list = filter (\<lambda>x. x \<noteq> []) (split_sep (normpath (path_join cwd path)));
             i = length (takeWhile (\<lambda>xy. fst xy = snd xy) (zip start_list path_list));
             rel_list = replicate (length start_list - i) ''..'' @ drop i path_list
         in Inr (if rel_list = [] then ''.'' else join_strs ''/'' rel_list)))"

section \<open>External tools, the log and the state\<close>

text \<open>
  An ffmpeg-python graph: \<^verbatim>\<open>ffmpeg.input(path, **kw)\<close>, \<^verbatim>\<open>.filter(name, *args, **kw)\<close>,
  \<^verbatim>\<open>ffmpeg.concat(*streams, **kw)\<close>, closed by \<^verbatim>\<open>.output(path, **kw).overwrite_output()\<close> and
  executed by \<^verbatim>\<open>.run(quiet=True)\<close>.
\<close>

datatype ffstream =
    Input string "(string \<times> pyval) list"
  | Filter ffstream string "pyval list" "(string \<times> pyval) list"
  | Concat "ffstream list" "(string \<times> pyval) list"

datatype ffmpeg_cmd = Output ffstream string "(string \<times> pyval) list"

type_synonym info = "(string \<times> pyval) list"

text \<open>The calls that leave the process, in the order they are made.\<close>

datatype call =
    Subprocess "string list"
  | Ffmpeg ffmpeg_cmd
  | Remove string
  | Probe string
  | WhisperLoad string
  | WhisperTranscribe string string "string option"
  | GoogleTranslate string string "string option"
  | GoogleTTS string string "string option"
  | PollyTTS string string
  | Mktemp string
  | WriteFile string
  | Library string "string list"

text \<open>
  One invocation of an operation by a pipeline executor: the operation's name, the
  current input and the output path it was given, and what it returned (a path) or raised.
\<close>

datatype invocation =
  Invocation (inv_name: string) (inv_input: string) (inv_output: string) (inv_result: "exn + string")

text \<open>The stages of the AI workflow.\<close>

datatype stage = Transcribe | Translate | Synthesize

datatype level = INFO | WARNING | ERROR

text \<open>
  The state threaded through the services: the world outside the process (file system,
  tools, remote services; left abstract), the records written to the logger, and three
  histories: the calls made to external tools and libraries, the operations invoked by a
  pipeline executor, and the stages started by the AI workflow.
\<close>

record 'w state =
  world :: 'w
  log :: "(level \<times> string) list"
  calls :: "call list"
  invoked :: "invocation list"
  stages :: "stage list"

text \<open>
  The external capabilities of the processors. Each takes the world and returns what the
  Python call returns or raises, with the world after the call.
  \<open>path_exists\<close> is \<^verbatim>\<open>os.path.exists\<close> on a string; \<open>exists_other\<close> is \<^verbatim>\<open>os.path.exists\<close> on a
  value that is not a string (a file descriptor, or a TypeError);
  \<open>audio_probe_info\<close> and \<open>video_probe_info\<close> are \<^verbatim>\<open>ffmpeg.probe\<close> followed by the
  construction of the info dict from the probe (number conversions included);
  \<open>with_suffix\<close> is \<^verbatim>\<open>Path(p).with_suffix(s)\<close>, the path it gives carried by its \<^verbatim>\<open>str\<close>.
\<close>

record 'w media_tools =
  path_exists :: "string \<Rightarrow> 'w \<Rightarrow> bool"
  exists_other :: "pyval \<Rightarrow> 'w \<Rightarrow> exn + bool"
  subprocess_run :: "string list \<Rightarrow> 'w \<Rightarrow> (exn + unit) \<times> 'w"
  os_remove :: "string \<Rightarrow> 'w \<Rightarrow> (exn + unit) \<times> 'w"
  ffmpeg_run :: "ffmpeg_cmd \<Rightarrow> 'w \<Rightarrow> (exn + unit) \<times> 'w"
  audio_probe_info :: "string \<Rightarrow> 'w \<Rightarrow> (exn + info) \<times> 'w"
  video_probe_info :: "string \<Rightarrow> 'w \<Rightarrow> (exn + info) \<times> 'w"
  with_suffix :: "string \<Rightarrow> string \<Rightarrow> exn + string"

type_synonym ('w, 'a) run = "'w state \<Rightarrow> (exn + 'a) \<times> 'w state"

definition logger :: "level \<Rightarrow> string \<Rightarrow> 'w state \<Rightarrow> 'w state" where
  "logger lvl msg s = s\<lparr>log := log s @ [(lvl, msg)]\<rparr>"

definition external :: "call \<Rightarrow> ('w \<Rightarrow> (exn + 'a) \<times> 'w) \<Rightarrow> ('w, 'a) run" where
  "external c f s = (case f (world s) of (r, w) \<Rightarrow> (r, s\<lparr>world := w, calls := calls s @ [c]\<rparr>))"

definition run_subprocess :: "'w media_tools \<Rightarrow> string list \<Rightarrow> ('w, unit) run" where
  "run_subprocess T cmd = external (Subprocess cmd) (subprocess_run T cmd)"

definition run_ffmpeg :: "'w media_tools \<Rightarrow> ffmpeg_cmd \<Rightarrow> ('w, unit) run" where
  "run_ffmpeg T c = external (Ffmpeg c) (ffmpeg_run T c)"

definition remove_file :: "'w media_tools \<Rightarrow> string \<Rightarrow> ('w, unit) run" where
  "remove_file T p = external (Remove p) (os_remove T p)"

text \<open>Sequencing: an exception of the first part skips the second.\<close>

definition and_then :: "('w, 'a) run \<Rightarrow> ('a \<Rightarrow> ('w, 'b) run) \<Rightarrow> ('w, 'b) run" where
  "and_then m f s = (case m s of (Inl e, s1) \<Rightarrow> (Inl e, s1) | (Inr x, s1) \<Rightarrow> f x s1)"

definition raise :: "exn \<Rightarrow> ('w, 'a) run" where
  "raise e s = (Inl e, s)"

definition return :: "'a \<Rightarrow> ('w, 'a) run" where
  "return x s = (Inr x, s)"

text \<open>\<^verbatim>\<open>if os.path.exists(p): os.remove(p)\<close>\<close>

definition remove_if_exists :: "'w media_tools \<Rightarrow> string \<Rightarrow> ('w, unit) run" where
  "remove_if_exists T p s = (if path_exists T p (world s) then remove_file T p s else (Inr (), s))"

text \<open>\<^verbatim>\<open>except Exception as e: logger.error(f"<what>: {str(e)}"); raise\<close>\<close>

definition log_and_reraise :: "string \<Rightarrow> ('w, 'a) run \<Rightarrow> ('w, 'a) run" where
  "log_and_reraise what m s =
     (case m s of
        (Inl e, s1) \<Rightarrow> (Inl e, logger ERROR (what @ '': '' @ exn_str e) s1)
      | (Inr x, s1) \<Rightarrow> (Inr x, s1))"

section \<open>The audio processor\<close>

text \<open>\<^verbatim>\<open>AudioProcessor._fallback_noise_reduction\<close>\<close>

definition fallback_noise_reduction :: "'w media_tools \<Rightarrow> string \<Rightarrow> string \<Rightarrow> ('w, string) run" where
  "fallback_noise_reduction T input_path output_path =
     log_and_reraise ''Fallback noise reduction failed''
       (and_then
          (run_ffmpeg T
             (Output (Filter (Filter (Input input_path []) ''highpass'' [] [(''f'', PInt 200)])
                         ''lowpass'' [] [(''f'', PInt 8000)])
                     output_path []))
          (\<lambda>_ s. (Inr output_path, logger INFO (''Fallback noise reduction applied: '' @ output_path) s)))"

text \<open>The \<^verbatim>\<open>try\<close> block of \<^verbatim>\<open>AudioProcessor._noise_reduction\<close>.\<close>

definition noise_reduction_primary ::
  "'w media_tools \<Rightarrow> string \<Rightarrow> string \<Rightarrow> params \<Rightarrow> ('w, string) run" where
  "noise_reduction_primary T input_path output_path ps =
     (let noise_factor = get_default ps ''noise_factor'' (PFloat ''0.21'');
          noise_profile = replace ''.wav'' ''_noise.prof'' output_path
      in and_then
           (run_subprocess T [''sox'', input_path, ''-n'', ''trim'', ''0'', ''0.5'', ''noiseprof'', noise_profile])
           (\<lambda>_. and_then
              (run_subprocess T [''sox'', input_path, output_path, ''noisered'', noise_profile, py_str noise_factor])
              (\<lambda>_. and_then (remove_if_exists T noise_profile)
                 (\<lambda>_ s. (Inr output_path, logger INFO (''Noise reduction applied: '' @ output_path) s)))))"

text \<open>
  \<^verbatim>\<open>AudioProcessor._noise_reduction\<close>: a CalledProcessError of the \<^verbatim>\<open>try\<close> block is logged with
  its decoded stderr (decoding may itself raise) and handed to the fallback; any other
  exception is logged and raised again.
\<close>

definition noise_reduction :: "'w media_tools \<Rightarrow> string \<Rightarrow> string \<Rightarrow> params \<Rightarrow> ('w, string) run" where
  "noise_reduction T input_path output_path ps s =
     (case noise_reduction_primary T input_path output_path ps s of
        (Inr p, s1) \<Rightarrow> (Inr p, s1)
      | (Inl (CalledProcessError m err), s1) \<Rightarrow>
          (case err of
             Inl m' \<Rightarrow> (Inl (Other UnicodeDecodeError m'), s1)
           | Inr text \<Rightarrow>
               fallback_noise_reduction T input_path output_path
                 (logger ERROR (''SoX noise reduction failed: '' @ text) s1))
      | (Inl e, s1) \<Rightarrow> (Inl e, logger ERROR (''Noise reduction failed: '' @ exn_str e) s1))"

text \<open>\<^verbatim>\<open>AudioProcessor._fallback_normalize\<close>\<close>

definition fallback_normalize :: "'w media_tools \<Rightarrow> string \<Rightarrow> string \<Rightarrow> params \<Rightarrow> ('w, string) run" where
  "fallback_normalize T input_path output_path ps =
     log_and_reraise ''Fallback normalization failed''
       (let volume_level = get_default ps ''volume_level'' (PFloat ''1.5'')
        in and_then
             (run_ffmpeg T (Output (Filter (Input input_path []) ''volume'' [volume_level] []) output_path []))
             (\<lambda>_ s. (Inr output_path, logger INFO (''Fallback normalization applied: '' @ output_path) s)))"

text \<open>\<^verbatim>\<open>AudioProcessor._normalize_audio\<close>: every exception of the primary method is logged and
  handed to the fallback.\<close>

definition normalize_audio :: "'w media_tools \<Rightarrow> string \<Rightarrow> string \<Rightarrow> params \<Rightarrow> ('w, string) run" where
  "normalize_audio T input_path output_path ps s =
     (case and_then
             (run_ffmpeg T
                (Output (Filter (Input input_path []) ''loudnorm'' []
                           [(''I'', PInt (- 16)), (''LRA'', PInt 11), (''TP'', PFloat ''-1.5'')])
                        output_path []))
             (\<lambda>_ s1. (Inr output_path, logger INFO (''Audio normalized: '' @ output_path) s1)) s of
        (Inr p, s1) \<Rightarrow> (Inr p, s1)
      | (Inl e, s1) \<Rightarrow>
          fallback_normalize T input_path output_path ps
            (logger ERROR (''Audio normalization failed: '' @ exn_str e) s1))"

text \<open>\<^verbatim>\<open>AudioProcessor._change_speed\<close>\<close>

definition change_speed :: "'w media_tools \<Rightarrow> string \<Rightarrow> string \<Rightarrow> params \<Rightarrow> ('w, string) run" where
  "change_speed T input_path output_path ps =
     log_and_reraise ''Speed change failed''
       (let speed_factor = get_default ps ''speed_factor'' (PFloat ''1.0'');
            preserve_pitch = get_default ps ''preserve_pitch'' (PBool True)
        in and_then
             (if truthy preserve_pitch
              then run_ffmpeg T (Output (Filter (Input input_path []) ''atempo'' [speed_factor] []) output_path [])
              else run_ffmpeg T
                     (Output (Filter (Filter (Input input_path []) ''asetrate''
                                        [PStr (''44100*'' @ py_str speed_factor)] [])
                                ''aresample'' [PInt 44100] [])
                             output_path []))
             (\<lambda>_ s. (Inr output_path,
                      logger INFO (''Speed changed by factor '' @ py_str speed_factor @ '': '' @ output_path) s)))"

text \<open>The loop of \<^verbatim>\<open>_extract_segments\<close> that cuts each segment into a file of its own.\<close>

fun cut_segments ::
  "'w media_tools \<Rightarrow> string \<Rightarrow> string \<Rightarrow> nat \<Rightarrow> pyval list \<Rightarrow> string list \<Rightarrow> ('w, string list) run" where
  "cut_segments T input_path output_path i [] segment_files s = (Inr segment_files, s)"
| "cut_segments T input_path output_path i (segment # segments) segment_files s =
     (let segment_path = replace ''.wav'' (''_segment_'' @ str_nat i @ ''.wav'') output_path
      in case py_get segment ''start'' (PInt 0) of
           Inl e \<Rightarrow> (Inl e, s)
         | Inr start_time \<Rightarrow>
             (case py_get segment ''duration'' (PInt 30) of
                Inl e \<Rightarrow> (Inl e, s)
              | Inr duration \<Rightarrow>
                  (case run_ffmpeg T
                          (Output (Input input_path [(''ss'', start_time), (''t'', duration)]) segment_path []) s of
                     (Inl e, s1) \<Rightarrow> (Inl e, s1)
                   | (Inr _, s1) \<Rightarrow>
                       cut_segments T input_path output_path (Suc i) segments
                         (segment_files @ [segment_path]) s1)))"

text \<open>The loop that removes the segment files.\<close>

fun remove_files :: "'w media_tools \<Rightarrow> string list \<Rightarrow> ('w, unit) run" where
  "remove_files T [] s = (Inr (), s)"
| "remove_files T (f # fs) s =
     (case remove_if_exists T f s of
        (Inl e, s1) \<Rightarrow> (Inl e, s1)
      | (Inr _, s1) \<Rightarrow> remove_files T fs s1)"

text \<open>
  \<^verbatim>\<open>AudioProcessor._extract_segments\<close>. With no segment at all the list of inputs is empty
  and \<^verbatim>\<open>ffmpeg.concat\<close> raises a ValueError while the graph is built, before any command is
  run; \<^verbatim>\<open>concat\<close> enters the number of its inputs in the filter as \<open>n\<close>.
\<close>

definition extract_segments :: "'w media_tools \<Rightarrow> string \<Rightarrow> string \<Rightarrow> params \<Rightarrow> ('w, string) run" where
  "extract_segments T input_path output_path ps =
     log_and_reraise ''Segment extraction failed''
       (let segments = get_default ps ''segments'' (PList [PDict [(''start'', PInt 0), (''duration'', PInt 30)]])
        in case py_len segments of
             Inl e \<Rightarrow> raise e
           | Inr n \<Rightarrow>
               if n = 1 then
                 (case py_first segments of
                    Inl e \<Rightarrow> raise e
                  | Inr segment \<Rightarrow>
                      (case py_get segment ''start'' (PInt 0) of
                         Inl e \<Rightarrow> raise e
                       | Inr start_time \<Rightarrow>
                           (case py_get segment ''duration'' (PInt 30) of
                              Inl e \<Rightarrow> raise e
                            | Inr duration \<Rightarrow>
                                and_then
                                  (run_ffmpeg T
                                     (Output (Input input_path [(''ss'', start_time), (''t'', duration)])
                                        output_path []))
                                  (\<lambda>_ s. (Inr output_path,
                                           logger INFO (''Audio segment extracted: '' @ output_path) s)))))
               else
                 (case py_iter segments of
                    Inl e \<Rightarrow> raise e
                  | Inr segs \<Rightarrow>
                      and_then (cut_segments T input_path output_path 0 segs [])
                        (\<lambda>segment_files.
                           if segment_files = [] then
                             raise (Other ValueError ''Expected at least 1 input stream(s); got 0'')
                           else
                             and_then
                               (run_ffmpeg T
                                  (Output (Concat (map (\<lambda>f. Input f []) segment_files)
                                             [(''v'', PInt 0), (''a'', PInt 1),
                                              (''n'', PInt (int (length segment_files)))])
                                          output_path []))
                               (\<lambda>_. and_then (remove_files T segment_files)
                                  (\<lambda>_ s. (Inr output_path,
                                           logger INFO
                                             (''Multiple audio segments extracted and concatenated: ''
                                                @ output_path)
                                             s))))))"

text \<open>\<^verbatim>\<open>AudioProcessor._get_output_path\<close>, with the processor's \<^verbatim>\<open>output_dir\<close>.\<close>

definition audio_get_output_path :: "string \<Rightarrow> string \<Rightarrow> string \<Rightarrow> nat \<Rightarrow> string" where
  "audio_get_output_path output_dir task_id operation step =
     path_join output_dir (task_id @ ''_'' @ operation @ ''_'' @ str_nat step @ ''.wav'')"

text \<open>\<^verbatim>\<open>AudioProcessor._get_audio_info\<close>: a failing probe is logged and gives an info dict
  with the single key \<^verbatim>\<open>error\<close>; nothing is raised.\<close>

definition get_audio_info :: "'w media_tools \<Rightarrow> string \<Rightarrow> 'w state \<Rightarrow> info \<times> 'w state" where
  "get_audio_info T file_path s =
     (case external (Probe file_path) (audio_probe_info T file_path) s of
        (Inl e, s1) \<Rightarrow> ([(''error'', PStr (exn_str e))],
                        logger ERROR (''Error getting audio info: '' @ exn_str e) s1)
      | (Inr i, s1) \<Rightarrow> (i, s1))"

text \<open>\<^verbatim>\<open>AudioProcessor.get_supported_operations\<close>\<close>

definition audio_supported_operations :: "string list" where
  "audio_supported_operations =
     [''noise_reduction'', ''normalize_audio'', ''change_speed'', ''extract_segments'']"

text \<open>The \<^verbatim>\<open>if\<close>/\<^verbatim>\<open>elif\<close> chain of the loop body of \<^verbatim>\<open>process_audio\<close>: the method an
  operation name selects, \<open>None\<close> for the \<^verbatim>\<open>else\<close> branch.\<close>

definition audio_dispatch ::
  "'w media_tools \<Rightarrow> string \<Rightarrow> (string \<Rightarrow> string \<Rightarrow> params \<Rightarrow> ('w, string) run) option" where
  "audio_dispatch T operation =
     (if operation = ''noise_reduction'' then Some (noise_reduction T)
      else if operation = ''normalize_audio'' then Some (normalize_audio T)
      else if operation = ''change_speed'' then Some (change_speed T)
      else if operation = ''extract_segments'' then Some (extract_segments T)
      else None)"

text \<open>Calling an operation's method, entered in the history of invocations.\<close>

definition invoke ::
  "string \<Rightarrow> string \<Rightarrow> string \<Rightarrow> ('w, string) run \<Rightarrow> ('w, string) run" where
  "invoke operation current_input output_path m s =
     (case m s of
        (r, s1) \<Rightarrow> (r, s1\<lparr>invoked := invoked s1 @ [Invocation operation current_input output_path r]\<rparr>))"

text \<open>The \<^verbatim>\<open>for i, operation in enumerate(operations)\<close> loop of \<^verbatim>\<open>process_audio\<close>, from
  step \<open>i\<close> on, with the current input.\<close>

fun audio_loop ::
  "'w media_tools \<Rightarrow> string \<Rightarrow> string \<Rightarrow> params \<Rightarrow> nat \<Rightarrow> string list \<Rightarrow> string \<Rightarrow> ('w, string) run" where
  "audio_loop T output_dir task_id ps i [] current_input s = (Inr current_input, s)"
| "audio_loop T output_dir task_id ps i (operation # operations) current_input s =
     (let output_path = audio_get_output_path output_dir task_id operation i
      in case audio_dispatch T operation of
           None \<Rightarrow>
             audio_loop T output_dir task_id ps (Suc i) operations current_input
               (logger WARNING (''Unknown operation: '' @ operation) s)
         | Some method \<Rightarrow>
             (case invoke operation current_input output_path (method current_input output_path ps) s of
                (Inl e, s1) \<Rightarrow> (Inl e, s1)
              | (Inr p, s1) \<Rightarrow> audio_loop T output_dir task_id ps (Suc i) operations p s1))"

text \<open>The result dict of an executor: \<^verbatim>\<open>status\<close> is \<^verbatim>\<open>completed\<close> or \<^verbatim>\<open>failed\<close>.\<close>

datatype job_result =
    Completed (r_task_id: string) (r_output_path: string) (r_operations_performed: "string list")
      (r_file_info: info)
  | Failed (r_task_id: string) (r_error: string)

text \<open>\<^verbatim>\<open>AudioProcessor.process_audio\<close>\<close>

definition process_audio ::
  "'w media_tools \<Rightarrow> string \<Rightarrow> string \<Rightarrow> string \<Rightarrow> string list \<Rightarrow> params option \<Rightarrow>
     'w state \<Rightarrow> job_result \<times> 'w state" where
  "process_audio T output_dir input_path task_id operations parameters s =
     (if \<not> path_exists T input_path (world s) then
        (Failed task_id (''Input file not found: '' @ input_path),
         logger ERROR (''Audio processing failed for task '' @ task_id @ '': ''
                         @ ''Input file not found: '' @ input_path) s)
      else
        (let s0 = logger INFO (''Starting audio processing for task '' @ task_id) s;
             ps = (case parameters of None \<Rightarrow> Map.empty | Some p \<Rightarrow> p)
         in case audio_loop T output_dir task_id ps 0 operations input_path s0 of
              (Inl e, s1) \<Rightarrow>
                (Failed task_id (exn_str e),
                 logger ERROR (''Audio processing failed for task '' @ task_id @ '': '' @ exn_str e) s1)
            | (Inr current_input, s1) \<Rightarrow>
                (case get_audio_info T current_input s1 of
                   (i, s2) \<Rightarrow>
                     (Completed task_id current_input operations i,
                      logger INFO (''Audio processing completed for task '' @ task_id) s2))))"

section \<open>The video processor\<close>

text \<open>\<^verbatim>\<open>os.path.exists(v)\<close> on a parameter value.\<close>

definition os_path_exists :: "'w media_tools \<Rightarrow> pyval \<Rightarrow> 'w \<Rightarrow> exn + bool" where
  "os_path_exists T v w = (case v of PStr p \<Rightarrow> Inr (path_exists T p w) | _ \<Rightarrow> exists_other T v w)"

text \<open>\<^verbatim>\<open>VideoProcessor._extract_audio\<close>\<close>

definition extract_audio :: "'w media_tools \<Rightarrow> string \<Rightarrow> string \<Rightarrow> params \<Rightarrow> ('w, string) run" where
  "extract_audio T input_path output_path ps =
     log_and_reraise ''Audio extraction failed''
       (let audio_format = get_default ps ''audio_format'' (PStr ''mp3'');
            audio_quality = get_default ps ''audio_quality'' (PStr ''192k'');
            output_path' = replace ''.mp4'' (''.'' @ py_str audio_format) output_path
        in and_then
             (run_ffmpeg T
                (Output (Input input_path []) output_path'
                   [(''acodec'', PStr (if audio_format = PStr ''mp3'' then ''libmp3lame'' else ''aac'')),
                    (''audio_bitrate'', audio_quality)]))
             (\<lambda>_ s. (Inr output_path', logger INFO (''Audio extracted to: '' @ output_path') s)))"

text \<open>\<^verbatim>\<open>VideoProcessor._convert_format\<close>\<close>

definition convert_format :: "'w media_tools \<Rightarrow> string \<Rightarrow> string \<Rightarrow> params \<Rightarrow> ('w, string) run" where
  "convert_format T input_path output_path ps =
     log_and_reraise ''Format conversion failed''
       (let target_format = get_default ps ''target_format'' (PStr ''mp4'');
            video_codec = get_default ps ''video_codec'' (PStr ''libx264'');
            audio_codec = get_default ps ''audio_codec'' (PStr ''aac'')
        in case with_suffix T output_path (''.'' @ py_str target_format) of
             Inl e \<Rightarrow> raise e
           | Inr output_path' \<Rightarrow>
               and_then
                 (run_ffmpeg T
                    (Output (Input input_path []) output_path'
                       [(''vcodec'', video_codec), (''acodec'', audio_codec)]))
                 (\<lambda>_ s. (Inr output_path', logger INFO (''Format converted to: '' @ output_path') s)))"

text \<open>\<^verbatim>\<open>VideoProcessor._resize_video\<close>\<close>

definition resize_video :: "'w media_tools \<Rightarrow> string \<Rightarrow> string \<Rightarrow> params \<Rightarrow> ('w, string) run" where
  "resize_video T input_path output_path ps =
     log_and_reraise ''Video resize failed''
       (let width = get_default ps ''width'' (PInt 1280);
            height = get_default ps ''height'' (PInt 720)
        in and_then
             (run_ffmpeg T (Output (Filter (Input input_path []) ''scale'' [width, height] []) output_path []))
             (\<lambda>_ s. (Inr output_path,
                      logger INFO (''Video resized to '' @ py_str width @ ''x'' @ py_str height @ '': ''
                                     @ output_path) s)))"

text \<open>\<^verbatim>\<open>VideoProcessor._trim_video\<close>\<close>

definition trim_video :: "'w media_tools \<Rightarrow> string \<Rightarrow> string \<Rightarrow> params \<Rightarrow> ('w, string) run" where
  "trim_video T input_path output_path ps =
     log_and_reraise ''Video trim failed''
       (let start_time = get_default ps ''start_time'' (PInt 0);
            duration = get_default ps ''duration'' (PInt 30)
        in and_then
             (run_ffmpeg T
                (Output (Input input_path [(''ss'', start_time), (''t'', duration)]) output_path []))
             (\<lambda>_ s. (Inr output_path,
                      logger INFO (''Video trimmed from '' @ py_str start_time @ ''s for ''
                                     @ py_str duration @ ''s: '' @ output_path) s)))"

text \<open>\<^verbatim>\<open>VideoProcessor._add_subtitles\<close>: without a subtitle file the step is skipped with a
  warning and returns its input.\<close>

definition add_subtitles :: "'w media_tools \<Rightarrow> string \<Rightarrow> string \<Rightarrow> params \<Rightarrow> ('w, string) run" where
  "add_subtitles T input_path output_path ps =
     log_and_reraise ''Subtitle addition failed''
       (\<lambda>s. let subtitle_path = get_default ps ''subtitle_path'' PNone
             in case (if \<not> truthy subtitle_path then Inr False
                      else os_path_exists T subtitle_path (world s)) of
                  Inl e \<Rightarrow> (Inl e, s)
                | Inr False \<Rightarrow>
                    (Inr input_path, logger WARNING ''Subtitle file not found, skipping subtitle addition'' s)
                | Inr True \<Rightarrow>
                    and_then
                      (run_ffmpeg T
                         (Output (Input input_path []) output_path
                            [(''vf'', PStr (''subtitles='' @ py_str subtitle_path))]))
                      (\<lambda>_ s1. (Inr output_path, logger INFO (''Subtitles added: '' @ output_path) s1)) s)"

text \<open>\<^verbatim>\<open>VideoProcessor._get_output_path\<close>\<close>

definition video_get_output_path :: "string \<Rightarrow> string \<Rightarrow> string \<Rightarrow> nat \<Rightarrow> string" where
  "video_get_output_path output_dir task_id operation step =
     path_join output_dir (task_id @ ''_'' @ operation @ ''_'' @ str_nat step @ ''.mp4'')"

text \<open>\<^verbatim>\<open>VideoProcessor._get_file_info\<close>\<close>

definition get_file_info :: "'w media_tools \<Rightarrow> string \<Rightarrow> 'w state \<Rightarrow> info \<times> 'w state" where
  "get_file_info T file_path s =
     (case external (Probe file_path) (video_probe_info T file_path) s of
        (Inl e, s1) \<Rightarrow> ([(''error'', PStr (exn_str e))],
                        logger ERROR (''Error getting file info: '' @ exn_str e) s1)
      | (Inr i, s1) \<Rightarrow> (i, s1))"

text \<open>\<^verbatim>\<open>VideoProcessor.get_supported_operations\<close>\<close>

definition video_supported_operations :: "string list" where
  "video_supported_operations =
     [''extract_audio'', ''convert_format'', ''resize_video'', ''trim_video'', ''add_subtitles'']"

text \<open>The \<^verbatim>\<open>if\<close>/\<^verbatim>\<open>elif\<close> chain of the loop body of \<^verbatim>\<open>process_video\<close>.\<close>

definition video_dispatch ::
  "'w media_tools \<Rightarrow> string \<Rightarrow> (string \<Rightarrow> string \<Rightarrow> params \<Rightarrow> ('w, string) run) option" where
  "video_dispatch T operation =
     (if operation = ''extract_audio'' then Some (extract_audio T)
      else if operation = ''convert_format'' then Some (convert_format T)
      else if operation = ''resize_video'' then Some (resize_video T)
      else if operation = ''trim_video'' then Some (trim_video T)
      else if operation = ''add_subtitles'' then Some (add_subtitles T)
      else None)"

text \<open>The \<^verbatim>\<open>for i, operation in enumerate(operations)\<close> loop of \<^verbatim>\<open>process_video\<close>.\<close>

fun video_loop ::
  "'w media_tools \<Rightarrow> string \<Rightarrow> string \<Rightarrow> params \<Rightarrow> nat \<Rightarrow> string list \<Rightarrow> string \<Rightarrow> ('w, string) run" where
  "video_loop T output_dir task_id ps i [] current_input s = (Inr current_input, s)"
| "video_loop T output_dir task_id ps i (operation # operations) current_input s =
     (let output_path = video_get_output_path output_dir task_id operation i
      in case video_dispatch T operation of
           None \<Rightarrow>
             video_loop T output_dir task_id ps (Suc i) operations current_input
               (logger WARNING (''Unknown operation: '' @ operation) s)
         | Some method \<Rightarrow>
             (case invoke operation current_input output_path (method current_input output_path ps) s of
                (Inl e, s1) \<Rightarrow> (Inl e, s1)
              | (Inr p, s1) \<Rightarrow> video_loop T output_dir task_id ps (Suc i) operations p s1))"

text \<open>\<^verbatim>\<open>VideoProcessor.process_video\<close>\<close>

definition process_video ::
  "'w media_tools \<Rightarrow> string \<Rightarrow> string \<Rightarrow> string \<Rightarrow> string list \<Rightarrow> params option \<Rightarrow>
     'w state \<Rightarrow> job_result \<times> 'w state" where
  "process_video T output_dir input_path task_id operations parameters s =
     (if \<not> path_exists T input_path (world s) then
        (Failed task_id (''Input file not found: '' @ input_path),
         logger ERROR (''Video processing failed for task '' @ task_id @ '': ''
                         @ ''Input file not found: '' @ input_path) s)
      else
        (let s0 = logger INFO (''Starting video processing for task '' @ task_id) s;
             ps = (case parameters of None \<Rightarrow> Map.empty | Some p \<Rightarrow> p)
         in case video_loop T output_dir task_id ps 0 operations input_path s0 of
              (Inl e, s1) \<Rightarrow>
                (Failed task_id (exn_str e),
                 logger ERROR (''Video processing failed for task '' @ task_id @ '': '' @ exn_str e) s1)
            | (Inr current_input, s1) \<Rightarrow>
                (case get_file_info T current_input s1 of
                   (i, s2) \<Rightarrow>
                     (Completed task_id current_input operations i,
                      logger INFO (''Video processing completed for task '' @ task_id) s2))))"

section \<open>Histories of a pipeline run\<close>

text \<open>A run that leaves the history of invocations as it found it: every operation's
  method is one, only the executors enter invocations.\<close>

definition keeps_invoked :: "('w, 'a) run \<Rightarrow> bool" where
  "keeps_invoked m = (\<forall>s. invoked (snd (m s)) = invoked s)"


text \<open>The loop both executors run, for a dispatch and an output-path function: the
  two loops of the source differ in nothing else.\<close>

fun pipeline_loop ::
  "(string \<Rightarrow> (string \<Rightarrow> string \<Rightarrow> params \<Rightarrow> ('w, string) run) option) \<Rightarrow> (string \<Rightarrow> nat \<Rightarrow> string) \<Rightarrow>
     params \<Rightarrow> nat \<Rightarrow> string list \<Rightarrow> string \<Rightarrow> ('w, string) run" where
  "pipeline_loop dispatch path ps i [] current_input s = (Inr current_input, s)"
| "pipeline_loop dispatch path ps i (operation # operations) current_input s =
     (case dispatch operation of
        None \<Rightarrow>
          pipeline_loop dispatch path ps (Suc i) operations current_input
            (logger WARNING (''Unknown operation: '' @ operation) s)
      | Some method \<Rightarrow>
          (case invoke operation current_input (path operation i)
                  (method current_input (path operation i) ps) s of
             (Inl e, s1) \<Rightarrow> (Inl e, s1)
           | (Inr p, s1) \<Rightarrow> pipeline_loop dispatch path ps (Suc i) operations p s1))"


text \<open>A list of invocations is chained from an input when the first was given that input,
  each returned a path, and each next one was given the path the one before returned;
  the value is the path the last returned.\<close>

fun chained :: "string \<Rightarrow> invocation list \<Rightarrow> string option" where
  "chained current_input [] = Some current_input"
| "chained current_input (v # vs) =
     (if inv_input v = current_input
      then (case inv_result v of Inl e \<Rightarrow> None | Inr p \<Rightarrow> chained p vs)
      else None)"

text \<open>The name and the output path of an invocation.\<close>

definition step_of :: "invocation \<Rightarrow> string \<times> string" where
  "step_of v = (inv_name v, inv_output v)"

text \<open>What a run of an executor leaves, for the three ways it ends: it returns completed,
  an operation raised, or the input file is missing.\<close>

definition job_history ::
  "bool \<Rightarrow> string \<Rightarrow> string \<Rightarrow> string list \<Rightarrow> (string \<times> string) list \<Rightarrow> job_result \<Rightarrow>
     invocation list \<Rightarrow> bool" where
  "job_history input_exists input_path task_id operations plan r vs =
     ((\<exists>p i. r = Completed task_id p operations i \<and> map step_of vs = plan \<and> chained input_path vs = Some p)
      \<or> (\<exists>e pre op c out rest. r = Failed task_id (exn_str e)
            \<and> vs = pre @ [Invocation op c out (Inl e)]
            \<and> chained input_path pre = Some c
            \<and> map step_of pre @ [(op, out)] @ rest = plan)
      \<or> (\<not> input_exists \<and> r = Failed task_id (''Input file not found: '' @ input_path) \<and> vs = []))"

section \<open>A simulated world for concrete runs\<close>

text \<open>
  The world is the list of paths that exist. \<open>sox_fails\<close> and \<open>ffmpeg_fails\<close> choose the
  commands that fail and the exception they raise; a command that succeeds creates its
  output file. A probe succeeds on an existing file and raises the \<^verbatim>\<open>ffmpeg.Error\<close> of
  ffprobe on a missing one. \<^verbatim>\<open>os.path.exists\<close> on an integer asks
  for a file descriptor: the three standard descriptors are the open ones (\<^verbatim>\<open>True\<close> is the
  descriptor 1), an integer that is not a C \<^verbatim>\<open>int\<close> raises an OverflowError, and a value of
  any other type raises a TypeError.
\<close>

text \<open>The exception of a file system call on a path that does not exist.\<close>

definition no_such_file :: "string \<Rightarrow> exn" where
  "no_such_file path = Other FileNotFoundError (''[Errno 2] No such file or directory: '' @ repr_str path)"

definition sim_exists_other :: "pyval \<Rightarrow> exn + bool" where
  "sim_exists_other v =
     (case v of
        PBool b \<Rightarrow> Inr True
      | PInt i \<Rightarrow>
          if 2147483647 < i then Inl (Other OverflowError ''fd is greater than maximum'')
          else if i < - 2147483648 then Inl (Other OverflowError ''fd is less than minimum'')
          else Inr (0 \<le> i \<and> i \<le> 2)
      | _ \<Rightarrow> Inl (Other TypeError (''stat: path should be string, bytes, os.PathLike or integer, not ''
                                   @ type_name v)))"


definition sim_tools ::
  "(string list \<Rightarrow> exn option) \<Rightarrow> (ffmpeg_cmd \<Rightarrow> exn option) \<Rightarrow> string list media_tools" where
  "sim_tools sox_fails ffmpeg_fails =
     \<lparr> path_exists = (\<lambda>p w. p \<in> set w),
       exists_other = (\<lambda>v w. sim_exists_other v),
       subprocess_run = (\<lambda>cmd w. case sox_fails cmd of Some e \<Rightarrow> (Inl e, w) | None \<Rightarrow> (Inr (), w)),
       os_remove = (\<lambda>p w. if p \<in> set w then (Inr (), removeAll p w) else (Inl (no_such_file p), w)),
       ffmpeg_run = (\<lambda>c w. case ffmpeg_fails c of
                              Some e \<Rightarrow> (Inl e, w)
                            | None \<Rightarrow> (case c of Output g out kw \<Rightarrow> (Inr (), out # w))),
       audio_probe_info = (\<lambda>p w. if p \<in> set w then (Inr [(''format'', PStr ''wav'')], w)
                                  else (Inl (Other Exception ''ffprobe error (see stderr output for detail)''), w)),
       video_probe_info = (\<lambda>p w. if p \<in> set w then (Inr [(''format'', PStr ''mp4'')], w)
                                  else (Inl (Other Exception ''ffprobe error (see stderr output for detail)''), w)),
       with_suffix = posix_with_suffix \<rparr>"

definition sim_state :: "string list \<Rightarrow> string list state" where
  "sim_state files = \<lparr> world = files, log = [], calls = [], invoked = [], stages = [] \<rparr>"

section \<open>The AI services\<close>

text \<open>\<^verbatim>\<open>s.strip()\<close>: the whitespace characters of ASCII are removed at both ends.\<close>

definition is_space :: "char \<Rightarrow> bool" where
  "is_space c = (c \<in> set [CHR 0x20, CHR 0x09, CHR 0x0A, CHR 0x0B, CHR 0x0C, CHR 0x0D,
                            CHR 0x1C, CHR 0x1D, CHR 0x1E, CHR 0x1F])"

definition strip :: "string \<Rightarrow> string" where
  "strip s = rev (dropWhile is_space (rev (dropWhile is_space s)))"

text \<open>
  What the libraries return. A Whisper result is a dict with the key \<^verbatim>\<open>text\<close> and,
  possibly, \<^verbatim>\<open>language\<close> and \<^verbatim>\<open>segments\<close>; a segment has \<^verbatim>\<open>start\<close>, \<^verbatim>\<open>end\<close> and \<^verbatim>\<open>text\<close>
  (timestamps are floats, carried as Python values). A translation has \<^verbatim>\<open>translatedText\<close>
  and, when the source language was detected, \<^verbatim>\<open>detectedSourceLanguage\<close>.
\<close>

record segment =
  seg_start :: pyval
  seg_end :: pyval
  seg_text :: string

record whisper_result =
  w_text :: string
  w_language :: "string option"
  w_segments :: "segment list option"

record translate_response =
  translatedText :: string
  detectedSourceLanguage :: "string option"

text \<open>
  The external capabilities of the AI services: \<^verbatim>\<open>os.path.exists\<close>, \<^verbatim>\<open>whisper.load_model(name)\<close>
  (the loaded model is known by its name), \<^verbatim>\<open>model.transcribe(path, language=...)\<close>,
  \<^verbatim>\<open>client.translate(text, target_language, source_language)\<close>, the two speech
  synthesis clients (text, language or voice id, voice name; the value is the audio as
  bytes), \<^verbatim>\<open>tempfile.mktemp(suffix)\<close> and writing bytes to a file.
\<close>

record 'w ai_tools =
  audio_exists :: "string \<Rightarrow> 'w \<Rightarrow> bool"
  whisper_load_model :: "string \<Rightarrow> 'w \<Rightarrow> (exn + unit) \<times> 'w"
  model_transcribe :: "string \<Rightarrow> string \<Rightarrow> string option \<Rightarrow> 'w \<Rightarrow> (exn + whisper_result) \<times> 'w"
  client_translate :: "string \<Rightarrow> string \<Rightarrow> string option \<Rightarrow> 'w \<Rightarrow> (exn + translate_response) \<times> 'w"
  google_synthesize_speech :: "string \<Rightarrow> string \<Rightarrow> string option \<Rightarrow> 'w \<Rightarrow> (exn + string) \<times> 'w"
  polly_synthesize_speech :: "string \<Rightarrow> string \<Rightarrow> 'w \<Rightarrow> (exn + string) \<times> 'w"
  tempfile_mktemp :: "string \<Rightarrow> 'w \<Rightarrow> string \<times> 'w"
  write_bytes :: "string \<Rightarrow> string \<Rightarrow> 'w \<Rightarrow> (exn + unit) \<times> 'w"

text \<open>What a service method returns: the dict \<^verbatim>\<open>{"error": message}\<close>, or a dict of results
  (which has no key \<^verbatim>\<open>error\<close>).\<close>

datatype 'a reply = Error string | Ok 'a

text \<open>\<^verbatim>\<open>SpeechToTextService\<close>: the loaded model (\<open>None\<close> at first) and its name.\<close>

record stt_service =
  stt_model :: "string option"
  stt_model_name :: string

definition new_stt_service :: stt_service where
  "new_stt_service = \<lparr> stt_model = None, stt_model_name = ''base'' \<rparr>"

text \<open>\<^verbatim>\<open>SpeechToTextService.load_model\<close>: returns whether a model is loaded.\<close>

definition load_model ::
  "'w ai_tools \<Rightarrow> stt_service \<Rightarrow> string \<Rightarrow> 'w state \<Rightarrow> (bool \<times> stt_service) \<times> 'w state" where
  "load_model A svc name s =
     (if stt_model svc = None \<or> stt_model_name svc \<noteq> name then
        (case external (WhisperLoad name) (whisper_load_model A name)
                (logger INFO (''Loading Whisper model: '' @ name) s) of
           (Inl e, s1) \<Rightarrow>
             ((False, svc), logger ERROR (''Failed to load Whisper model: '' @ exn_str e) s1)
         | (Inr _, s1) \<Rightarrow> ((True, svc\<lparr>stt_model := Some name, stt_model_name := name\<rparr>), s1))
      else ((True, svc), s))"

text \<open>The dict a transcription returns.\<close>

record transcription =
  tr_text :: string
  tr_language :: string
  tr_segments :: "segment list"
  tr_duration :: pyval

text \<open>The \<^verbatim>\<open>try\<close> block of \<^verbatim>\<open>SpeechToTextService.transcribe_audio\<close>.\<close>

definition transcribe_audio_try ::
  "'w ai_tools \<Rightarrow> stt_service \<Rightarrow> string \<Rightarrow> string option \<Rightarrow> string \<Rightarrow> 'w state \<Rightarrow>
     ((exn + transcription) \<times> stt_service) \<times> 'w state" where
  "transcribe_audio_try A svc audio_path language name s =
     (if \<not> audio_exists A audio_path (world s) then
        ((Inl (Other FileNotFoundError (''Audio file not found: '' @ audio_path)), svc), s)
      else
        (case load_model A svc name s of
           ((False, svc1), s1) \<Rightarrow> ((Inl (Other Exception ''Failed to load Whisper model''), svc1), s1)
         | ((True, svc1), s1) \<Rightarrow>
             (let s2 = logger INFO (''Transcribing audio: '' @ audio_path) s1;
                  options = (case language of
                               None \<Rightarrow> None
                             | Some l \<Rightarrow> if l \<noteq> [] \<and> l \<noteq> ''auto'' then Some l else None)
              in case stt_model svc1 of
                   None \<Rightarrow>
                     ((Inl (Other AttributeError
                              ([CHR 0x27] @ ''NoneType'' @ [CHR 0x27] @ '' object has no attribute ''
                                 @ [CHR 0x27] @ ''transcribe'' @ [CHR 0x27])), svc1), s2)
                 | Some m \<Rightarrow>
                     (case external (WhisperTranscribe m audio_path options)
                             (model_transcribe A m audio_path options) s2 of
                        (Inl e, s3) \<Rightarrow> ((Inl e, svc1), s3)
                      | (Inr result, s3) \<Rightarrow>
                          (let segments =
                                 map (\<lambda>seg. \<lparr> seg_start = seg_start seg, seg_end = seg_end seg,
                                              seg_text = strip (seg_text seg) \<rparr>)
                                   (case w_segments result of None \<Rightarrow> [] | Some segs \<Rightarrow> segs)
                           in ((Inr \<lparr> tr_text = strip (w_text result),
                                      tr_language = (case w_language result of
                                                       None \<Rightarrow> ''unknown'' | Some l \<Rightarrow> l),
                                      tr_segments = segments,
                                      tr_duration = (if segments \<noteq> [] then seg_end (last segments)
                                                     else PInt 0) \<rparr>,
                                svc1), s3))))))"

text \<open>\<^verbatim>\<open>SpeechToTextService.transcribe_audio\<close>: every exception of the \<^verbatim>\<open>try\<close> block is
  logged and returned as \<^verbatim>\<open>{"error": str(e)}\<close>.\<close>

definition transcribe_audio ::
  "'w ai_tools \<Rightarrow> stt_service \<Rightarrow> string \<Rightarrow> string option \<Rightarrow> string \<Rightarrow> 'w state \<Rightarrow>
     (transcription reply \<times> stt_service) \<times> 'w state" where
  "transcribe_audio A svc audio_path language name s =
     (case transcribe_audio_try A svc audio_path language name s of
        ((Inl e, svc1), s1) \<Rightarrow>
          ((Error (exn_str e), svc1), logger ERROR (''Transcription failed: '' @ exn_str e) s1)
      | ((Inr r, svc1), s1) \<Rightarrow> ((Ok r, svc1), s1))"

text \<open>The dict a translation returns.\<close>

record translation =
  tl_translated_text :: string
  tl_source_language :: "string option"
  tl_target_language :: string
  tl_original_text :: string

text \<open>\<^verbatim>\<open>TranslationService.translate_text\<close>; \<open>client\<close> says whether \<^verbatim>\<open>self.client\<close> is set.\<close>

definition translate_text ::
  "'w ai_tools \<Rightarrow> bool \<Rightarrow> string \<Rightarrow> string \<Rightarrow> string option \<Rightarrow> 'w state \<Rightarrow> translation reply \<times> 'w state" where
  "translate_text A client text target_language source_language s =
     (if \<not> client then (Error ''Google Translate client not available'', s)
      else
        (case external (GoogleTranslate text target_language source_language)
                (client_translate A text target_language source_language)
                (logger INFO (''Translating text to '' @ target_language) s) of
           (Inl e, s1) \<Rightarrow> (Error (exn_str e), logger ERROR (''Translation failed: '' @ exn_str e) s1)
         | (Inr result, s1) \<Rightarrow>
             (Ok \<lparr> tl_translated_text = translatedText result,
                   tl_source_language = (case detectedSourceLanguage result of
                                           None \<Rightarrow> source_language | Some l \<Rightarrow> Some l),
                   tl_target_language = target_language,
                   tl_original_text = text \<rparr>, s1)))"

text \<open>\<^verbatim>\<open>TextToSpeechService\<close>: which of its two clients are set.\<close>

record tts_service =
  google_client :: bool
  aws_client :: bool

text \<open>The dict a synthesis returns.\<close>

record synthesis =
  sy_audio_path :: string
  sy_provider :: string
  sy_language :: string
  sy_voice :: "string option"
  sy_text :: string

text \<open>\<^verbatim>\<open>if not output_path: output_path = tempfile.mktemp(suffix=".mp3")\<close>\<close>

definition choose_output_path :: "'w ai_tools \<Rightarrow> string option \<Rightarrow> ('w, string) run" where
  "choose_output_path A output_path s =
     (case output_path of
        Some p \<Rightarrow>
          if p \<noteq> [] then (Inr p, s)
          else external (Mktemp ''.mp3'')
                 (\<lambda>w. case tempfile_mktemp A ''.mp3'' w of (q, w1) \<Rightarrow> (Inr q, w1)) s
      | None \<Rightarrow>
          external (Mktemp ''.mp3'')
            (\<lambda>w. case tempfile_mktemp A ''.mp3'' w of (q, w1) \<Rightarrow> (Inr q, w1)) s)"

text \<open>\<^verbatim>\<open>TextToSpeechService._google_tts\<close>\<close>

definition google_tts ::
  "'w ai_tools \<Rightarrow> string \<Rightarrow> string \<Rightarrow> string option \<Rightarrow> string option \<Rightarrow> ('w, synthesis) run" where
  "google_tts A text language voice output_path =
     log_and_reraise ''Google TTS failed''
       (and_then
          (external (GoogleTTS text language (if voice = Some [] then None else voice))
             (google_synthesize_speech A text language (if voice = Some [] then None else voice)))
          (\<lambda>audio_content.
             and_then (choose_output_path A output_path)
               (\<lambda>path.
                  and_then (external (WriteFile path) (write_bytes A path audio_content))
                    (\<lambda>_. return \<lparr> sy_audio_path = path, sy_provider = ''google'',
                                     sy_language = language, sy_voice = voice, sy_text = text \<rparr>))))"

text \<open>\<^verbatim>\<open>voice or d\<close> for a default \<open>d\<close>.\<close>

definition voice_or :: "string option \<Rightarrow> string \<Rightarrow> string" where
  "voice_or voice d = (case voice of None \<Rightarrow> d | Some v \<Rightarrow> if v = [] then d else v)"

text \<open>\<^verbatim>\<open>TextToSpeechService._aws_polly_tts\<close>\<close>

definition aws_polly_tts ::
  "'w ai_tools \<Rightarrow> string \<Rightarrow> string \<Rightarrow> string option \<Rightarrow> string option \<Rightarrow> ('w, synthesis) run" where
  "aws_polly_tts A text language voice output_path =
     log_and_reraise ''AWS Polly TTS failed''
       (let polly_voices =
              [(''en'', voice_or voice ''Joanna''), (''hi'', voice_or voice ''Aditi''),
               (''es'', voice_or voice ''Penelope''), (''fr'', voice_or voice ''Celine''),
               (''de'', voice_or voice ''Marlene'')];
            voice_id = (case map_of polly_voices language of None \<Rightarrow> ''Joanna'' | Some v \<Rightarrow> v)
        in and_then
             (external (PollyTTS text voice_id) (polly_synthesize_speech A text voice_id))
             (\<lambda>audio.
                and_then (choose_output_path A output_path)
                  (\<lambda>path.
                     and_then (external (WriteFile path) (write_bytes A path audio))
                       (\<lambda>_. return \<lparr> sy_audio_path = path, sy_provider = ''aws'',
                                        sy_language = language, sy_voice = Some voice_id,
                                        sy_text = text \<rparr>))))"

text \<open>\<^verbatim>\<open>TextToSpeechService.synthesize_speech\<close>\<close>

definition synthesize_speech ::
  "'w ai_tools \<Rightarrow> tts_service \<Rightarrow> string \<Rightarrow> string \<Rightarrow> string option \<Rightarrow> string \<Rightarrow> string option \<Rightarrow>
     'w state \<Rightarrow> synthesis reply \<times> 'w state" where
  "synthesize_speech A tts text language voice provider output_path s =
     (if provider = ''google'' \<and> google_client tts then
        (case google_tts A text language voice output_path s of
           (Inl e, s1) \<Rightarrow> (Error (exn_str e), logger ERROR (''Speech synthesis failed: '' @ exn_str e) s1)
         | (Inr r, s1) \<Rightarrow> (Ok r, s1))
      else if provider = ''aws'' \<and> aws_client tts then
        (case aws_polly_tts A text language voice output_path s of
           (Inl e, s1) \<Rightarrow> (Error (exn_str e), logger ERROR (''Speech synthesis failed: '' @ exn_str e) s1)
         | (Inr r, s1) \<Rightarrow> (Ok r, s1))
      else (Error (''TTS provider '' @ [CHR 0x27] @ provider @ [CHR 0x27] @ '' not available''), s))"

text \<open>\<^verbatim>\<open>AIWorkflowService\<close>: its three services.\<close>

record ai_workflow_service =
  stt_service :: stt_service
  translation_client :: bool
  tts_service :: tts_service

text \<open>The dict a completed workflow returns (\<^verbatim>\<open>status\<close> is \<^verbatim>\<open>completed\<close>).\<close>

record workflow_result =
  wf_task_id :: "string option"
  wf_original_text :: string
  wf_translated_text :: string
  wf_source_language :: string
  wf_target_language :: string
  wf_output_audio :: string
  wf_segments :: "segment list"

text \<open>Starting a stage, entered in the history of stages.\<close>

definition begin_stage :: "stage \<Rightarrow> 'w state \<Rightarrow> 'w state" where
  "begin_stage st s = s\<lparr>stages := stages s @ [st]\<rparr>"

text \<open>
  \<^verbatim>\<open>AIWorkflowService.process_audio_workflow\<close>. The three service methods return a dict
  and never raise, so the outer \<^verbatim>\<open>except\<close> clause of the method has nothing to catch.
\<close>

definition process_audio_workflow ::
  "'w ai_tools \<Rightarrow> ai_workflow_service \<Rightarrow> string \<Rightarrow> string \<Rightarrow> string option \<Rightarrow> 'w state \<Rightarrow>
     (workflow_result reply \<times> ai_workflow_service) \<times> 'w state" where
  "process_audio_workflow A svc audio_path target_language task_id s =
     (let s0 = logger INFO (''Starting AI workflow for task ''
                              @ (case task_id of None \<Rightarrow> ''None'' | Some t \<Rightarrow> t)) s
      in case transcribe_audio A (stt_service svc) audio_path None ''base'' (begin_stage Transcribe s0) of
           ((Error m, stt), s1) \<Rightarrow>
             ((Error (''Transcription failed: '' @ m), svc\<lparr>stt_service := stt\<rparr>), s1)
         | ((Ok transcription, stt), s1) \<Rightarrow>
             (case translate_text A (translation_client svc) (tr_text transcription) target_language None
                     (begin_stage Translate s1) of
                (Error m, s2) \<Rightarrow>
                  ((Error (''Translation failed: '' @ m), svc\<lparr>stt_service := stt\<rparr>), s2)
              | (Ok translation, s2) \<Rightarrow>
                  (let output_path =
                         (case task_id of
                            None \<Rightarrow> None
                          | Some t \<Rightarrow> if t \<noteq> [] then Some (''./processed/'' @ t @ ''_translated_audio.mp3'')
                                      else None)
                   in case synthesize_speech A (tts_service svc) (tl_translated_text translation)
                             target_language None ''google'' output_path (begin_stage Synthesize s2) of
                        (Error m, s3) \<Rightarrow>
                          ((Error (''Speech synthesis failed: '' @ m), svc\<lparr>stt_service := stt\<rparr>), s3)
                      | (Ok synthesis, s3) \<Rightarrow>
                          ((Ok \<lparr> wf_task_id = task_id,
                                 wf_original_text = tr_text transcription,
                                 wf_translated_text = tl_translated_text translation,
                                 wf_source_language = tr_language transcription,
                                 wf_target_language = target_language,
                                 wf_output_audio = sy_audio_path synthesis,
                                 wf_segments = tr_segments transcription \<rparr>,
                            svc\<lparr>stt_service := stt\<rparr>), s3))))"

text \<open>
  A simulated world for the AI services: the world is the list of paths that exist, the
  model loads, and the three remote calls answer as given.
\<close>

definition sim_ai ::
  "(exn + whisper_result) \<Rightarrow> (exn + translate_response) \<Rightarrow> (exn + string) \<Rightarrow> string list ai_tools" where
  "sim_ai heard translated spoken =
     \<lparr> audio_exists = (\<lambda>p w. p \<in> set w),
       whisper_load_model = (\<lambda>name w. (Inr (), w)),
       model_transcribe = (\<lambda>m p l w. (heard, w)),
       client_translate = (\<lambda>t tl sl w. (translated, w)),
       google_synthesize_speech = (\<lambda>t l v w. (spoken, w)),
       polly_synthesize_speech = (\<lambda>t v w. (spoken, w)),
       tempfile_mktemp = (\<lambda>suffix w. (''/tmp/tmp0'' @ suffix, w)),
       write_bytes = (\<lambda>p b w. (Inr (), p # w)) \<rparr>"

section \<open>The storage services\<close>

text \<open>
  A storage method returns a dict: \<^verbatim>\<open>{"error": message}\<close>, or a dict with
  \<^verbatim>\<open>"success": True\<close> and the results.
\<close>

type_synonym pydict = "(string \<times> pyval) list"

definition error_record :: "string \<Rightarrow> pydict" where
  "error_record m = [(''error'', PStr m)]"

definition is_error_record :: "pydict \<Rightarrow> bool" where
  "is_error_record d = (case d of [(k, PStr m)] \<Rightarrow> k = ''error'' | _ \<Rightarrow> False)"

definition is_success_record :: "pydict \<Rightarrow> bool" where
  "is_success_record d = (map_of d ''success'' = Some (PBool True) \<and> map_of d ''error'' = None)"

text \<open>An object of a bucket listing; \<open>obj_last_modified\<close> is the \<^verbatim>\<open>isoformat()\<close> of its
  \<^verbatim>\<open>LastModified\<close>.\<close>

record s3_object =
  obj_key :: string
  obj_size :: int
  obj_last_modified :: string
  obj_etag :: string

text \<open>
  The external capabilities of the storage services: the process environment, the S3
  client of boto3 (its construction and its methods; \<open>upload_fileobj\<close> includes opening the
  local file, the listing gives \<^verbatim>\<open>response.get('Contents')\<close>), \<open>expires_at\<close> for
  \<^verbatim>\<open>(datetime.now() + timedelta(seconds=n)).isoformat()\<close>, \<^verbatim>\<open>mimetypes.guess_type\<close>, and the
  file system calls of the local service (\<open>walk_files\<close> gives the pairs \<open>(root, filename)\<close>
  of \<^verbatim>\<open>os.walk\<close> in its order; \<open>stat_file\<close> gives the size and the \<^verbatim>\<open>isoformat()\<close> of the
  modification time).
\<close>

record 'w storage_tools =
  environ :: "string \<Rightarrow> 'w \<Rightarrow> string option"
  boto3_client :: "string \<Rightarrow> string \<Rightarrow> string \<Rightarrow> 'w \<Rightarrow> (exn + unit) \<times> 'w"
  head_bucket :: "string option \<Rightarrow> 'w \<Rightarrow> (exn + unit) \<times> 'w"
  upload_fileobj ::
    "string \<Rightarrow> string option \<Rightarrow> string \<Rightarrow> string \<Rightarrow> (string \<times> string) list option \<Rightarrow> 'w \<Rightarrow> (exn + unit) \<times> 'w"
  generate_presigned_url :: "string option \<Rightarrow> string \<Rightarrow> int \<Rightarrow> 'w \<Rightarrow> (exn + string) \<times> 'w"
  expires_at :: "int \<Rightarrow> 'w \<Rightarrow> (exn + string) \<times> 'w"
  delete_object :: "string option \<Rightarrow> string \<Rightarrow> 'w \<Rightarrow> (exn + unit) \<times> 'w"
  list_objects_v2 :: "string option \<Rightarrow> string \<Rightarrow> 'w \<Rightarrow> (exn + s3_object list option) \<times> 'w"
  guess_type :: "string \<Rightarrow> string option"
  local_exists :: "string \<Rightarrow> 'w \<Rightarrow> bool"
  getsize :: "string \<Rightarrow> 'w \<Rightarrow> (exn + nat) \<times> 'w"
  makedirs :: "string \<Rightarrow> 'w \<Rightarrow> (exn + unit) \<times> 'w"
  copy2 :: "string \<Rightarrow> string \<Rightarrow> 'w \<Rightarrow> (exn + unit) \<times> 'w"
  unlink :: "string \<Rightarrow> 'w \<Rightarrow> (exn + unit) \<times> 'w"
  walk_files :: "string \<Rightarrow> 'w \<Rightarrow> (exn + (string \<times> string) list) \<times> 'w"
  relpath :: "string \<Rightarrow> string \<Rightarrow> 'w \<Rightarrow> exn + string"
  stat_file :: "string \<Rightarrow> 'w \<Rightarrow> (exn + nat \<times> string) \<times> 'w"

text \<open>\<^verbatim>\<open>CloudflareR2Service\<close>: whether \<^verbatim>\<open>self.client\<close> is set, and \<^verbatim>\<open>self.bucket_name\<close>.\<close>

record r2_service =
  r2_client :: bool
  bucket_name :: "string option"

text \<open>An environment variable counts in \<^verbatim>\<open>all([...])\<close> when it is set and not empty.\<close>

definition is_set :: "string option \<Rightarrow> bool" where
  "is_set v = (case v of None \<Rightarrow> False | Some x \<Rightarrow> x \<noteq> [])"

definition or_none :: "string option \<Rightarrow> string" where
  "or_none v = (case v of None \<Rightarrow> ''None'' | Some x \<Rightarrow> x)"

text \<open>The three \<^verbatim>\<open>except\<close> clauses of \<^verbatim>\<open>_initialize_client\<close>: each only logs.\<close>

definition initialize_failed :: "exn \<Rightarrow> 'w state \<Rightarrow> 'w state" where
  "initialize_failed e s =
     (case e of
        NoCredentialsError m \<Rightarrow> logger WARNING ''R2 credentials not found'' s
      | ClientError m \<Rightarrow> logger ERROR (''Failed to initialize R2 client: '' @ m) s
      | _ \<Rightarrow> logger ERROR (''Unexpected error initializing R2: '' @ exn_str e) s)"

text \<open>
  \<^verbatim>\<open>CloudflareR2Service.__init__\<close> with \<^verbatim>\<open>_initialize_client\<close>. \<^verbatim>\<open>self.client\<close> is assigned when
  \<^verbatim>\<open>boto3.client\<close> returns, before the connection is tested with \<^verbatim>\<open>head_bucket\<close>; an
  exception of \<^verbatim>\<open>head_bucket\<close> is logged and the assignment stays.
\<close>

definition r2_initialize_client :: "'w storage_tools \<Rightarrow> 'w state \<Rightarrow> r2_service \<times> 'w state" where
  "r2_initialize_client S s =
     (let account_id = environ S ''CLOUDFLARE_ACCOUNT_ID'' (world s);
          access_key = environ S ''CLOUDFLARE_R2_ACCESS_KEY_ID'' (world s);
          secret_key = environ S ''CLOUDFLARE_R2_SECRET_ACCESS_KEY'' (world s);
          bucket = environ S ''CLOUDFLARE_R2_BUCKET_NAME'' (world s)
      in if is_set account_id \<and> is_set access_key \<and> is_set secret_key \<and> is_set bucket then
           (let endpoint_url = ''https://'' @ or_none account_id @ ''.r2.cloudflarestorage.com''
            in case external (Library ''boto3.client'' [endpoint_url, or_none access_key, or_none secret_key])
                      (boto3_client S endpoint_url (or_none access_key) (or_none secret_key)) s of
                 (Inl e, s1) \<Rightarrow> (\<lparr> r2_client = False, bucket_name = bucket \<rparr>, initialize_failed e s1)
               | (Inr _, s1) \<Rightarrow>
                   (case external (Library ''head_bucket'' [or_none bucket]) (head_bucket S bucket) s1 of
                      (Inl e, s2) \<Rightarrow> (\<lparr> r2_client = True, bucket_name = bucket \<rparr>, initialize_failed e s2)
                    | (Inr _, s2) \<Rightarrow>
                        (\<lparr> r2_client = True, bucket_name = bucket \<rparr>,
                         logger INFO ''Cloudflare R2 client initialized successfully'' s2)))
         else (\<lparr> r2_client = False, bucket_name = bucket \<rparr>,
               logger WARNING ''Cloudflare R2 credentials not found, using local storage'' s))"

text \<open>\<^verbatim>\<open>CloudflareR2Service.is_available\<close>\<close>

definition is_available :: "r2_service \<Rightarrow> bool" where
  "is_available svc = r2_client svc"

text \<open>
  The two \<^verbatim>\<open>except\<close> clauses every method of the R2 service ends with: a ClientError is
  logged and returned with a prefix, any other exception is logged and returned as it is.
  \<open>r2_message\<close> is the message of the returned dict.
\<close>

definition r2_message :: "string \<Rightarrow> exn \<Rightarrow> string" where
  "r2_message prefix e = (case e of ClientError msg \<Rightarrow> prefix @ '': '' @ msg | _ \<Rightarrow> exn_str e)"

definition r2_handlers :: "string \<Rightarrow> string \<Rightarrow> string \<Rightarrow> ('w, pydict) run \<Rightarrow> ('w, pydict) run" where
  "r2_handlers client_log prefix other_log m s =
     (case m s of
        (Inr d, s1) \<Rightarrow> (Inr d, s1)
      | (Inl e, s1) \<Rightarrow>
          (Inr (error_record (r2_message prefix e)),
           logger ERROR ((case e of ClientError msg \<Rightarrow> client_log | _ \<Rightarrow> other_log) @ '': '' @ exn_str e) s1))"

text \<open>The single \<^verbatim>\<open>except Exception\<close> clause every method of the local service ends with.\<close>

definition local_handler :: "string \<Rightarrow> ('w, pydict) run \<Rightarrow> ('w, pydict) run" where
  "local_handler what m s =
     (case m s of
        (Inr d, s1) \<Rightarrow> (Inr d, s1)
      | (Inl e, s1) \<Rightarrow> (Inr (error_record (exn_str e)), logger ERROR (what @ '': '' @ exn_str e) s1))"

definition bucket_value :: "r2_service \<Rightarrow> pyval" where
  "bucket_value svc = (case bucket_name svc of None \<Rightarrow> PNone | Some b \<Rightarrow> PStr b)"

text \<open>The \<^verbatim>\<open>try\<close> block of \<^verbatim>\<open>CloudflareR2Service.upload_file\<close>.\<close>

definition r2_upload_file_try ::
  "'w storage_tools \<Rightarrow> r2_service \<Rightarrow> string \<Rightarrow> string \<Rightarrow> (string \<times> string) list option \<Rightarrow> ('w, pydict) run" where
  "r2_upload_file_try S svc local_path remote_key metadata s =
     (if \<not> r2_client svc then (Inr (error_record ''R2 client not available''), s)
      else if \<not> local_exists S local_path (world s)
        then (Inr (error_record (''Local file not found: '' @ local_path)), s)
      else
        (let content_type = (case guess_type S local_path of
                               None \<Rightarrow> ''application/octet-stream''
                             | Some c \<Rightarrow> if c = [] then ''application/octet-stream'' else c);
             meta = (case metadata of None \<Rightarrow> None | Some m \<Rightarrow> if m = [] then None else Some m)
         in and_then
              (external (Library ''upload_fileobj'' [local_path, or_none (bucket_name svc), remote_key])
                 (upload_fileobj S local_path (bucket_name svc) remote_key content_type meta))
              (\<lambda>_. and_then (external (Library ''getsize'' [local_path]) (getsize S local_path))
                 (\<lambda>file_size.
                    return [(''success'', PBool True), (''remote_key'', PStr remote_key),
                            (''bucket'', bucket_value svc), (''size'', PInt (int file_size)),
                            (''content_type'', PStr content_type),
                            (''url'', PStr (''https://'' @ or_none (bucket_name svc) @ ''.r2.dev/''
                                             @ remote_key))]))
              (logger INFO (''Uploading '' @ local_path @ '' to R2 as '' @ remote_key) s)))"

text \<open>\<^verbatim>\<open>CloudflareR2Service.upload_file\<close>\<close>

definition r2_upload_file ::
  "'w storage_tools \<Rightarrow> r2_service \<Rightarrow> string \<Rightarrow> string \<Rightarrow> (string \<times> string) list option \<Rightarrow> ('w, pydict) run" where
  "r2_upload_file S svc local_path remote_key metadata =
     r2_handlers ''R2 upload failed'' ''Upload failed'' ''Unexpected upload error''
       (r2_upload_file_try S svc local_path remote_key metadata)"

text \<open>The \<^verbatim>\<open>try\<close> block of \<^verbatim>\<open>CloudflareR2Service.generate_signed_url\<close>.\<close>

definition r2_generate_signed_url_try ::
  "'w storage_tools \<Rightarrow> r2_service \<Rightarrow> string \<Rightarrow> int \<Rightarrow> ('w, pydict) run" where
  "r2_generate_signed_url_try S svc remote_key expiration s =
     (if \<not> r2_client svc then (Inr (error_record ''R2 client not available''), s)
      else
        and_then
          (external (Library ''generate_presigned_url'' [or_none (bucket_name svc), remote_key])
             (generate_presigned_url S (bucket_name svc) remote_key expiration))
          (\<lambda>url. and_then (external (Library ''datetime.now'' []) (expires_at S expiration))
             (\<lambda>at. return [(''success'', PBool True), (''signed_url'', PStr url),
                            (''expires_in'', PInt expiration), (''expires_at'', PStr at)]))
          (logger INFO (''Generating signed URL for '' @ remote_key) s))"

text \<open>\<^verbatim>\<open>CloudflareR2Service.generate_signed_url\<close>\<close>

definition r2_generate_signed_url ::
  "'w storage_tools \<Rightarrow> r2_service \<Rightarrow> string \<Rightarrow> int \<Rightarrow> ('w, pydict) run" where
  "r2_generate_signed_url S svc remote_key expiration =
     r2_handlers ''Failed to generate signed URL'' ''Signed URL generation failed''
       ''Unexpected error generating signed URL''
       (r2_generate_signed_url_try S svc remote_key expiration)"

text \<open>The \<^verbatim>\<open>try\<close> block of \<^verbatim>\<open>CloudflareR2Service.delete_file\<close>.\<close>

definition r2_delete_file_try :: "'w storage_tools \<Rightarrow> r2_service \<Rightarrow> string \<Rightarrow> ('w, pydict) run" where
  "r2_delete_file_try S svc remote_key s =
     (if \<not> r2_client svc then (Inr (error_record ''R2 client not available''), s)
      else
        and_then
          (external (Library ''delete_object'' [or_none (bucket_name svc), remote_key])
             (delete_object S (bucket_name svc) remote_key))
          (\<lambda>_. return [(''success'', PBool True), (''deleted_key'', PStr remote_key)])
          (logger INFO (''Deleting '' @ remote_key @ '' from R2'') s))"

text \<open>\<^verbatim>\<open>CloudflareR2Service.delete_file\<close>\<close>

definition r2_delete_file :: "'w storage_tools \<Rightarrow> r2_service \<Rightarrow> string \<Rightarrow> ('w, pydict) run" where
  "r2_delete_file S svc remote_key =
     r2_handlers ''R2 delete failed'' ''Delete failed'' ''Unexpected delete error''
       (r2_delete_file_try S svc remote_key)"

text \<open>\<^verbatim>\<open>s.strip(chars)\<close>\<close>

definition strip_chars :: "string \<Rightarrow> string \<Rightarrow> string" where
  "strip_chars chars s =
     rev (dropWhile (\<lambda>c. c \<in> set chars) (rev (dropWhile (\<lambda>c. c \<in> set chars) s)))"

text \<open>The \<^verbatim>\<open>try\<close> block of \<^verbatim>\<open>CloudflareR2Service.list_files\<close>.\<close>

definition r2_list_files_try :: "'w storage_tools \<Rightarrow> r2_service \<Rightarrow> string \<Rightarrow> ('w, pydict) run" where
  "r2_list_files_try S svc prefix s =
     (if \<not> r2_client svc then (Inr (error_record ''R2 client not available''), s)
      else
        and_then
          (external (Library ''list_objects_v2'' [or_none (bucket_name svc), prefix])
             (list_objects_v2 S (bucket_name svc) prefix))
          (\<lambda>contents.
             let files = map (\<lambda>obj. PDict [(''key'', PStr (obj_key obj)), (''size'', PInt (obj_size obj)),
                                            (''last_modified'', PStr (obj_last_modified obj)),
                                            (''etag'', PStr (strip_chars [CHR 0x22] (obj_etag obj)))])
                           (case contents of None \<Rightarrow> [] | Some objs \<Rightarrow> objs)
             in return [(''success'', PBool True), (''files'', PList files),
                        (''count'', PInt (int (length files)))])
          (logger INFO (''Listing files with prefix: '' @ prefix) s))"

text \<open>\<^verbatim>\<open>CloudflareR2Service.list_files\<close>\<close>

definition r2_list_files :: "'w storage_tools \<Rightarrow> r2_service \<Rightarrow> string \<Rightarrow> ('w, pydict) run" where
  "r2_list_files S svc prefix =
     r2_handlers ''R2 list failed'' ''List failed'' ''Unexpected list error''
       (r2_list_files_try S svc prefix)"

text \<open>\<^verbatim>\<open>LocalStorageService\<close>: its \<^verbatim>\<open>storage_dir\<close>.\<close>

record local_service =
  storage_dir :: string

text \<open>\<^verbatim>\<open>os.path.dirname\<close> on POSIX.\<close>

definition dirname :: "string \<Rightarrow> string" where
  "dirname p =
     (let h = rev (dropWhile (\<lambda>c. c \<noteq> CHR ''/'') (rev p))
      in if h \<noteq> [] \<and> set h \<noteq> {CHR ''/''} then rev (dropWhile (\<lambda>c. c = CHR ''/'') (rev h)) else h)"

text \<open>The \<^verbatim>\<open>try\<close> block of \<^verbatim>\<open>LocalStorageService.upload_file\<close>.\<close>

definition local_upload_file_try ::
  "'w storage_tools \<Rightarrow> local_service \<Rightarrow> string \<Rightarrow> string \<Rightarrow> (string \<times> string) list option \<Rightarrow> ('w, pydict) run" where
  "local_upload_file_try S svc local_path remote_key metadata s =
     (if \<not> local_exists S local_path (world s)
        then (Inr (error_record (''Local file not found: '' @ local_path)), s)
      else
        (let dest_path = path_join (storage_dir svc) remote_key;
             dest_dir = dirname dest_path
         in and_then (external (Library ''makedirs'' [dest_dir]) (makedirs S dest_dir))
              (\<lambda>_. and_then (external (Library ''copy2'' [local_path, dest_path]) (copy2 S local_path dest_path))
                 (\<lambda>_. and_then (external (Library ''getsize'' [dest_path]) (getsize S dest_path))
                    (\<lambda>file_size.
                       return [(''success'', PBool True), (''remote_key'', PStr remote_key),
                               (''local_path'', PStr dest_path), (''size'', PInt (int file_size)),
                               (''url'', PStr (''/storage/'' @ remote_key))]))) s))"

text \<open>\<^verbatim>\<open>LocalStorageService.upload_file\<close>\<close>

definition local_upload_file ::
  "'w storage_tools \<Rightarrow> local_service \<Rightarrow> string \<Rightarrow> string \<Rightarrow> (string \<times> string) list option \<Rightarrow> ('w, pydict) run" where
  "local_upload_file S svc local_path remote_key metadata =
     local_handler ''Local storage upload failed'' (local_upload_file_try S svc local_path remote_key metadata)"

text \<open>The \<^verbatim>\<open>try\<close> block of \<^verbatim>\<open>LocalStorageService.generate_signed_url\<close>.\<close>

definition local_generate_signed_url_try ::
  "'w storage_tools \<Rightarrow> local_service \<Rightarrow> string \<Rightarrow> int \<Rightarrow> ('w, pydict) run" where
  "local_generate_signed_url_try S svc remote_key expiration s =
     (let file_path = path_join (storage_dir svc) remote_key
      in if \<not> local_exists S file_path (world s) then (Inr (error_record ''File not found''), s)
         else (Inr [(''success'', PBool True), (''signed_url'', PStr (''/storage/'' @ remote_key)),
                    (''expires_in'', PInt expiration), (''local_path'', PStr file_path)], s))"

text \<open>\<^verbatim>\<open>LocalStorageService.generate_signed_url\<close>\<close>

definition local_generate_signed_url ::
  "'w storage_tools \<Rightarrow> local_service \<Rightarrow> string \<Rightarrow> int \<Rightarrow> ('w, pydict) run" where
  "local_generate_signed_url S svc remote_key expiration =
     local_handler ''Local URL generation failed'' (local_generate_signed_url_try S svc remote_key expiration)"

text \<open>The \<^verbatim>\<open>try\<close> block of \<^verbatim>\<open>LocalStorageService.delete_file\<close>.\<close>

definition local_delete_file_try :: "'w storage_tools \<Rightarrow> local_service \<Rightarrow> string \<Rightarrow> ('w, pydict) run" where
  "local_delete_file_try S svc remote_key s =
     (let file_path = path_join (storage_dir svc) remote_key
      in and_then
           (\<lambda>s. if local_exists S file_path (world s)
                 then external (Library ''remove'' [file_path]) (unlink S file_path) s
                 else (Inr (), s))
           (\<lambda>_. return [(''success'', PBool True), (''deleted_key'', PStr remote_key)]) s)"

text \<open>\<^verbatim>\<open>LocalStorageService.delete_file\<close>\<close>

definition local_delete_file :: "'w storage_tools \<Rightarrow> local_service \<Rightarrow> string \<Rightarrow> ('w, pydict) run" where
  "local_delete_file S svc remote_key =
     local_handler ''Local delete failed'' (local_delete_file_try S svc remote_key)"

text \<open>The two nested loops of \<^verbatim>\<open>LocalStorageService.list_files\<close> over the files of the walk.\<close>

fun list_walk ::
  "'w storage_tools \<Rightarrow> string \<Rightarrow> string \<Rightarrow> (string \<times> string) list \<Rightarrow> pyval list \<Rightarrow> ('w, pyval list) run" where
  "list_walk S dir prefix [] files s = (Inr files, s)"
| "list_walk S dir prefix ((root, filename) # rest) files s =
     (let file_path = path_join root filename
      in case relpath S file_path dir (world s) of
           Inl e \<Rightarrow> (Inl e, s)
         | Inr relative_path \<Rightarrow>
             if startswith relative_path prefix then
               (case external (Library ''stat'' [file_path]) (stat_file S file_path) s of
                  (Inl e, s1) \<Rightarrow> (Inl e, s1)
                | (Inr (file_size, modified), s1) \<Rightarrow>
                    list_walk S dir prefix rest
                      (files @ [PDict [(''key'', PStr (replace ''/'' ''/'' relative_path)),
                                       (''size'', PInt (int file_size)),
                                       (''last_modified'', PStr modified),
                                       (''local_path'', PStr file_path)]]) s1)
             else list_walk S dir prefix rest files s)"

text \<open>The \<^verbatim>\<open>try\<close> block of \<^verbatim>\<open>LocalStorageService.list_files\<close>.\<close>

definition local_list_files_try :: "'w storage_tools \<Rightarrow> local_service \<Rightarrow> string \<Rightarrow> ('w, pydict) run" where
  "local_list_files_try S svc prefix =
     and_then (external (Library ''walk'' [storage_dir svc]) (walk_files S (storage_dir svc)))
       (\<lambda>found. and_then (list_walk S (storage_dir svc) prefix found [])
          (\<lambda>files. return [(''success'', PBool True), (''files'', PList files),
                           (''count'', PInt (int (length files)))]))"

text \<open>\<^verbatim>\<open>LocalStorageService.list_files\<close>\<close>

definition local_list_files :: "'w storage_tools \<Rightarrow> local_service \<Rightarrow> string \<Rightarrow> ('w, pydict) run" where
  "local_list_files S svc prefix =
     local_handler ''Local list failed'' (local_list_files_try S svc prefix)"

text \<open>
  \<^verbatim>\<open>StorageManager\<close>: the two services and the primary one, chosen when the manager is built.
\<close>

datatype backend = Remote | Local

record storage_manager =
  r2_service :: r2_service
  local_service :: local_service
  primary_service :: backend

text \<open>\<^verbatim>\<open>StorageManager.__init__\<close>; the local service is built with its default directory,
  which it creates (this may raise).\<close>

definition new_storage_manager :: "'w storage_tools \<Rightarrow> ('w, storage_manager) run" where
  "new_storage_manager S s =
     (case r2_initialize_client S s of
        (r2, s1) \<Rightarrow>
          (case external (Library ''makedirs'' [''./storage'']) (makedirs S ''./storage'') s1 of
             (Inl e, s2) \<Rightarrow> (Inl e, s2)
           | (Inr _, s2) \<Rightarrow>
               (Inr \<lparr> r2_service = r2, local_service = \<lparr> storage_dir = ''./storage'' \<rparr>,
                      primary_service = (if is_available r2 then Remote else Local) \<rparr>,
                logger INFO (''Using '' @ (if is_available r2 then ''Cloudflare R2'' else ''local'')
                               @ '' storage'') s2)))"

text \<open>The methods of \<^verbatim>\<open>StorageManager\<close>: each hands over to the primary service.\<close>

definition manager_upload_file ::
  "'w storage_tools \<Rightarrow> storage_manager \<Rightarrow> string \<Rightarrow> string \<Rightarrow> (string \<times> string) list option \<Rightarrow> ('w, pydict) run" where
  "manager_upload_file S mgr local_path remote_key metadata =
     (case primary_service mgr of
        Remote \<Rightarrow> r2_upload_file S (r2_service mgr) local_path remote_key metadata
      | Local \<Rightarrow> local_upload_file S (local_service mgr) local_path remote_key metadata)"

definition manager_generate_signed_url ::
  "'w storage_tools \<Rightarrow> storage_manager \<Rightarrow> string \<Rightarrow> int \<Rightarrow> ('w, pydict) run" where
  "manager_generate_signed_url S mgr remote_key expiration =
     (case primary_service mgr of
        Remote \<Rightarrow> r2_generate_signed_url S (r2_service mgr) remote_key expiration
      | Local \<Rightarrow> local_generate_signed_url S (local_service mgr) remote_key expiration)"

definition manager_delete_file :: "'w storage_tools \<Rightarrow> storage_manager \<Rightarrow> string \<Rightarrow> ('w, pydict) run" where
  "manager_delete_file S mgr remote_key =
     (case primary_service mgr of
        Remote \<Rightarrow> r2_delete_file S (r2_service mgr) remote_key
      | Local \<Rightarrow> local_delete_file S (local_service mgr) remote_key)"

definition manager_list_files :: "'w storage_tools \<Rightarrow> storage_manager \<Rightarrow> string \<Rightarrow> ('w, pydict) run" where
  "manager_list_files S mgr prefix =
     (case primary_service mgr of
        Remote \<Rightarrow> r2_list_files S (r2_service mgr) prefix
      | Local \<Rightarrow> local_list_files S (local_service mgr) prefix)"

text \<open>\<^verbatim>\<open>StorageManager.get_storage_type\<close>\<close>

definition get_storage_type :: "storage_manager \<Rightarrow> string" where
  "get_storage_type mgr = (if is_available (r2_service mgr) then ''cloudflare_r2'' else ''local'')"

text \<open>The test of \<^verbatim>\<open>_initialize_client\<close> on the four environment variables.\<close>

definition all_credentials :: "'w storage_tools \<Rightarrow> 'w \<Rightarrow> bool" where
  "all_credentials S w =
     (is_set (environ S ''CLOUDFLARE_ACCOUNT_ID'' w) \<and> is_set (environ S ''CLOUDFLARE_R2_ACCESS_KEY_ID'' w)
      \<and> is_set (environ S ''CLOUDFLARE_R2_SECRET_ACCESS_KEY'' w)
      \<and> is_set (environ S ''CLOUDFLARE_R2_BUCKET_NAME'' w))"

text \<open>What a run of a storage method is expected to be: it returns, and what it returns
  is a success record or an error record.\<close>

definition returns_record :: "('w, pydict) run \<Rightarrow> 'w state \<Rightarrow> bool" where
  "returns_record m s =
     (case m s of
        (Inr d, s') \<Rightarrow> is_success_record d \<or> is_error_record d
      | (Inl e, s') \<Rightarrow> False)"

text \<open>A method reports its \<^verbatim>\<open>try\<close> block: what the block returns is returned, and an
  exception the block raises is returned as the error record with the given message.\<close>

definition reports :: "(exn \<Rightarrow> string) \<Rightarrow> ('w, pydict) run \<Rightarrow> ('w, pydict) run \<Rightarrow> 'w state \<Rightarrow> bool" where
  "reports message block method s =
     (case block s of
        (Inr d, s1) \<Rightarrow> method s = (Inr d, s1)
      | (Inl e, s1) \<Rightarrow> fst (method s) = Inr (error_record (message e)) \<and> calls (snd (method s)) = calls s1)"

text \<open>
  A simulated world for the storage services. The world is the list of the files that
  exist, each of ten bytes; directories are made as they are needed. What the machine
  and the remote service answer is given: the environment variables, the type guessed
  for a file name, the outcome of building the client, of the connection test, of every
  later call of the client (\<open>answered\<close>) and of every call that changes or walks the local
  disk (\<open>disk\<close>), and the files a walk finds. The working directory is \<^verbatim>\<open>/app\<close>.
\<close>

record storage_answers =
  env_of :: "string \<Rightarrow> string option"
  mime_of :: "string \<Rightarrow> string option"
  built :: "exn + unit"
  probed :: "exn + unit"
  answered :: "exn + unit"
  disk :: "exn + unit"
  found :: "(string \<times> string) list"

definition sim_storage :: "storage_answers \<Rightarrow> string list storage_tools" where
  "sim_storage a =
     \<lparr> environ = (\<lambda>name w. env_of a name),
       boto3_client = (\<lambda>endpoint access secret w. (built a, w)),
       head_bucket = (\<lambda>bucket w. (probed a, w)),
       upload_fileobj = (\<lambda>path bucket key ctype meta w. (answered a, w)),
       generate_presigned_url =
         (\<lambda>bucket key expiration w.
            (case answered a of Inl e \<Rightarrow> Inl e | Inr _ \<Rightarrow> Inr (''https://signed.example/'' @ key), w)),
       expires_at = (\<lambda>expiration w. (Inr ''2030-01-01T00:00:00'', w)),
       delete_object = (\<lambda>bucket key w. (answered a, w)),
       list_objects_v2 = (\<lambda>bucket prefix w. (case answered a of Inl e \<Rightarrow> Inl e | Inr _ \<Rightarrow> Inr None, w)),
       guess_type = mime_of a,
       local_exists = (\<lambda>path w. path \<in> set w),
       getsize = (\<lambda>path w. (if path \<in> set w then Inr 10 else Inl (no_such_file path), w)),
       makedirs = (\<lambda>path w. (disk a, w)),
       copy2 = (\<lambda>src dst w. case disk a of
                                Inl e \<Rightarrow> (Inl e, w)
                              | Inr _ \<Rightarrow> if src \<in> set w then (Inr (), dst # removeAll dst w)
                                         else (Inl (no_such_file src), w)),
       unlink = (\<lambda>path w. case disk a of
                             Inl e \<Rightarrow> (Inl e, w)
                           | Inr _ \<Rightarrow> if path \<in> set w then (Inr (), removeAll path w)
                                      else (Inl (no_such_file path), w)),
       walk_files = (\<lambda>dir w. (case disk a of Inl e \<Rightarrow> Inl e | Inr _ \<Rightarrow> Inr (found a), w)),
       relpath = (\<lambda>path start w. posix_relpath ''/app'' path start),
       stat_file = (\<lambda>path w. (if path \<in> set w then Inr (10, ''2030-01-01T00:00:00'')
                                else Inl (no_such_file path), w)) \<rparr>"

text \<open>An environment with the four credentials, and one without the bucket name.\<close>

definition full_credentials :: "string \<Rightarrow> string option" where
  "full_credentials name =
     (if name = ''CLOUDFLARE_ACCOUNT_ID'' then Some ''acct''
      else if name = ''CLOUDFLARE_R2_ACCESS_KEY_ID'' then Some ''key''
      else if name = ''CLOUDFLARE_R2_SECRET_ACCESS_KEY'' then Some ''secret''
      else if name = ''CLOUDFLARE_R2_BUCKET_NAME'' then Some ''media''
      else None)"

definition no_bucket_name :: "string \<Rightarrow> string option" where
  "no_bucket_name name =
     (if name = ''CLOUDFLARE_R2_BUCKET_NAME'' then None else full_credentials name)"

text \<open>
  The answers of a machine with the given environment, connection test, client calls and
  disk calls: the client is built, the only file name with a known type is \<^verbatim>\<open>clip.mp4\<close>,
  and the storage directory holds the one file \<^verbatim>\<open>./storage/old.mp4\<close>.
\<close>

definition answers ::
  "(string \<Rightarrow> string option) \<Rightarrow> (exn + unit) \<Rightarrow> (exn + unit) \<Rightarrow> (exn + unit) \<Rightarrow> storage_answers" where
  "answers env p a d =
     \<lparr> env_of = env,
       mime_of = (\<lambda>path. if path = ''clip.mp4'' then Some ''video/mp4'' else None),
       built = Inr (), probed = p, answered = a, disk = d,
       found = [(''./storage'', ''old.mp4'')] \<rparr>"

section \<open>Operations leave the history of invocations alone\<close>

lemma keeps_invokedD: "keeps_invoked m \<Longrightarrow> m s = (r, s') \<Longrightarrow> invoked s' = invoked s"
  by (metis keeps_invoked_def snd_conv)

lemma keeps_invokedI:
  assumes "\<And>s r s'. m s = (r, s') \<Longrightarrow> invoked s' = invoked s"
  shows "keeps_invoked m"
  unfolding keeps_invoked_def
proof
  fix s
  show "invoked (snd (m s)) = invoked s"
    using assms [of s "fst (m s)" "snd (m s)"] by simp
qed

lemma invoked_logger [simp]: "invoked (logger l m s) = invoked s"
  by (simp add: logger_def)

lemma keeps_external [simp]: "keeps_invoked (external c f)"
  by (simp add: keeps_invoked_def external_def split: prod.splits)

lemma keeps_and_then:
  assumes "keeps_invoked m" and "\<And>x. keeps_invoked (f x)"
  shows "keeps_invoked (and_then m f)"
proof (rule keeps_invokedI)
  fix s r s'
  assume eq: "and_then m f s = (r, s')"
  obtain r1 s1 where m: "m s = (r1, s1)" by (cases "m s")
  have i1: "invoked s1 = invoked s" by (rule keeps_invokedD [OF assms(1) m])
  show "invoked s' = invoked s"
  proof (cases r1)
    case (Inl e)
    with eq m i1 show ?thesis by (simp add: and_then_def)
  next
    case (Inr x)
    with eq m have "f x s1 = (r, s')" by (simp add: and_then_def)
    from keeps_invokedD [OF assms(2) this] i1 show ?thesis by simp
  qed
qed

text \<open>A handler applied to the exception of the first part.\<close>

lemma keeps_handled:
  assumes "keeps_invoked m" and "\<And>e. keeps_invoked (h e)"
  shows "keeps_invoked (\<lambda>s. case m s of (Inl e, s1) \<Rightarrow> h e s1 | (Inr x, s1) \<Rightarrow> (Inr x, s1))"
proof (rule keeps_invokedI)
  fix s r s'
  assume eq: "(case m s of (Inl e, s1) \<Rightarrow> h e s1 | (Inr x, s1) \<Rightarrow> (Inr x, s1)) = (r, s')"
  obtain r1 s1 where m: "m s = (r1, s1)" by (cases "m s")
  have i1: "invoked s1 = invoked s" by (rule keeps_invokedD [OF assms(1) m])
  show "invoked s' = invoked s"
  proof (cases r1)
    case (Inr x)
    with eq m i1 show ?thesis by simp
  next
    case (Inl e)
    with eq m have "h e s1 = (r, s')" by simp
    from keeps_invokedD [OF assms(2) this] i1 show ?thesis by simp
  qed
qed

lemma keeps_after_log:
  assumes "keeps_invoked m"
  shows "keeps_invoked (\<lambda>s. m (logger l msg s))"
  using assms by (simp add: keeps_invoked_def)

lemma keeps_log_and_reraise:
  assumes "keeps_invoked m"
  shows "keeps_invoked (log_and_reraise what m)"
proof (rule keeps_invokedI)
  fix s r s'
  assume eq: "log_and_reraise what m s = (r, s')"
  obtain r1 s1 where m: "m s = (r1, s1)" by (cases "m s")
  have i1: "invoked s1 = invoked s" by (rule keeps_invokedD [OF assms m])
  from eq m i1 show "invoked s' = invoked s"
    by (cases r1) (auto simp: log_and_reraise_def)
qed

lemma keeps_raise [simp]: "keeps_invoked (raise e)"
  by (simp add: keeps_invoked_def raise_def)

lemma keeps_result [simp]: "keeps_invoked (\<lambda>s. (r, s))"
  by (simp add: keeps_invoked_def)

lemma keeps_result_logged [simp]: "keeps_invoked (\<lambda>s. (r, logger l m s))"
  by (simp add: keeps_invoked_def)

lemma keeps_tools [simp]:
  "keeps_invoked (run_subprocess T cmd)" "keeps_invoked (run_ffmpeg T c)" "keeps_invoked (remove_file T p)"
  by (simp_all add: run_subprocess_def run_ffmpeg_def remove_file_def)

lemma keeps_remove_if_exists [simp]: "keeps_invoked (remove_if_exists T p)"
  using keeps_tools(3) [of T p] by (simp add: keeps_invoked_def remove_if_exists_def)

lemma keeps_ffmpeg_logged [simp]:
  "keeps_invoked (and_then (run_ffmpeg T c) (\<lambda>_ s. (r, logger l msg s)))"
  by (rule keeps_and_then) simp_all


lemma keeps_cut_segments [simp]: "keeps_invoked (cut_segments T inp out i segs files)"
proof (induction segs arbitrary: i files)
  case Nil
  show ?case by (simp add: keeps_invoked_def)
next
  case (Cons seg segs)
  show ?case
  proof (rule keeps_invokedI)
    fix s r s'
    assume eq: "cut_segments T inp out i (seg # segs) files s = (r, s')"
    show "invoked s' = invoked s"
      using eq keeps_invokedD [OF keeps_tools(2)] keeps_invokedD [OF Cons.IH]
      by (fastforce simp: Let_def split: sum.splits prod.splits)
  qed
qed

lemma keeps_remove_files [simp]: "keeps_invoked (remove_files T fs)"
proof (induction fs)
  case Nil
  show ?case by (simp add: keeps_invoked_def)
next
  case (Cons f fs)
  show ?case
  proof (rule keeps_invokedI)
    fix s r s'
    assume eq: "remove_files T (f # fs) s = (r, s')"
    show "invoked s' = invoked s"
      using eq keeps_invokedD [OF keeps_remove_if_exists] keeps_invokedD [OF Cons.IH]
      by (fastforce split: sum.splits prod.splits)
  qed
qed






lemma keeps_change_speed [simp]: "keeps_invoked (change_speed T inp out ps)"
  by (simp add: change_speed_def Let_def keeps_log_and_reraise keeps_and_then)

lemma keeps_extract_segments [simp]: "keeps_invoked (extract_segments T inp out ps)"
  unfolding extract_segments_def Let_def
  by (rule keeps_log_and_reraise) (simp add: keeps_and_then split: sum.splits)

lemma keeps_extract_audio [simp]: "keeps_invoked (extract_audio T inp out ps)"
  by (simp add: extract_audio_def Let_def keeps_log_and_reraise)

lemma keeps_convert_format [simp]: "keeps_invoked (convert_format T inp out ps)"
  unfolding convert_format_def Let_def
  by (rule keeps_log_and_reraise) (simp split: sum.splits)

lemma keeps_resize_video [simp]: "keeps_invoked (resize_video T inp out ps)"
  by (simp add: resize_video_def Let_def keeps_log_and_reraise)

lemma keeps_trim_video [simp]: "keeps_invoked (trim_video T inp out ps)"
  by (simp add: trim_video_def Let_def keeps_log_and_reraise)

lemma keeps_add_subtitles [simp]: "keeps_invoked (add_subtitles T inp out ps)"
  unfolding add_subtitles_def
proof (rule keeps_log_and_reraise, rule keeps_invokedI)
  fix s r s'
  assume "(let subtitle_path = get_default ps ''subtitle_path'' PNone
             in case (if \<not> truthy subtitle_path then Inr False
                      else os_path_exists T subtitle_path (world s)) of
                  Inl e \<Rightarrow> (Inl e, s)
                | Inr False \<Rightarrow>
                    (Inr inp, logger WARNING ''Subtitle file not found, skipping subtitle addition'' s)
                | Inr True \<Rightarrow>
                    and_then
                      (run_ffmpeg T
                         (Output (Input inp []) out
                            [(''vf'', PStr (''subtitles='' @ py_str subtitle_path))]))
                      (\<lambda>_ s1. (Inr out, logger INFO (''Subtitles added: '' @ out) s1)) s) = (r, s')"
  then show "invoked s' = invoked s"
    using keeps_invokedD [OF keeps_ffmpeg_logged]
    by (fastforce simp: Let_def split: sum.splits bool.splits if_splits)
qed




lemma audio_dispatch_known: "audio_dispatch T op = None \<longleftrightarrow> op \<notin> set audio_supported_operations"
  by (simp add: audio_dispatch_def audio_supported_operations_def)

lemma video_dispatch_known: "video_dispatch T op = None \<longleftrightarrow> op \<notin> set video_supported_operations"
  by (simp add: video_dispatch_def video_supported_operations_def)


section \<open>The loop and its history\<close>

lemma audio_loop_pipeline:
  "audio_loop T output_dir task_id ps i ops cur s
     = pipeline_loop (audio_dispatch T) (audio_get_output_path output_dir task_id) ps i ops cur s"
  by (induction ops arbitrary: i cur s) (auto simp: Let_def split: option.splits prod.splits sum.splits)

lemma video_loop_pipeline:
  "video_loop T output_dir task_id ps i ops cur s
     = pipeline_loop (video_dispatch T) (video_get_output_path output_dir task_id) ps i ops cur s"
  by (induction ops arbitrary: i cur s) (auto simp: Let_def split: option.splits prod.splits sum.splits)

lemma pipeline_loop_append:
  "pipeline_loop D P ps i (pre @ post) cur s
     = (case pipeline_loop D P ps i pre cur s of
          (Inl e, s1) \<Rightarrow> (Inl e, s1)
        | (Inr c, s1) \<Rightarrow> pipeline_loop D P ps (i + length pre) post c s1)"
  by (induction pre arbitrary: i cur s) (auto split: option.splits prod.splits sum.splits)


lemma chained_append:
  "chained cur (vs @ ws) = (case chained cur vs of None \<Rightarrow> None | Some c \<Rightarrow> chained c ws)"
  by (induction vs arbitrary: cur) (auto split: sum.splits)




lemma calls_logger [simp]: "calls (logger l m s) = calls s"
  by (simp add: logger_def)





section \<open>Evaluation on concrete inputs\<close>

lemmas run_defs =
  process_audio_def process_video_def audio_dispatch_def video_dispatch_def
  noise_reduction_def noise_reduction_primary_def fallback_noise_reduction_def
  normalize_audio_def fallback_normalize_def change_speed_def extract_segments_def
  extract_audio_def convert_format_def resize_video_def trim_video_def add_subtitles_def
  and_then_def log_and_reraise_def raise_def run_ffmpeg_def run_subprocess_def remove_file_def
  remove_if_exists_def external_def logger_def invoke_def get_audio_info_def get_file_info_def
  audio_get_output_path_def video_get_output_path_def path_join_def startswith_def
  get_default_def py_str_def os_path_exists_def sim_tools_def sim_state_def Let_def digit_char_def
  no_such_file_def sim_exists_other_def

lemma str_nat_digit [simp]: "n < 10 \<Longrightarrow> str_nat n = [digit_char n]"
  by (simp add: str_nat.simps)

section \<open>The empty pipeline\<close>

text \<open>
  Claim C10. For every existing input path, a pipeline executor run with an empty
  operations list returns a completed result whose output path is the input path. No
  operation is invoked and the only external call is the probe of the input file.
  This holds for the audio and for the video executor.
\<close>

theorem empty_pipeline_is_identity:
  assumes "path_exists T input_path (world s)"
  shows "(case process_audio T output_dir input_path task_id [] parameters s of
            (r, s') \<Rightarrow> r = Completed task_id input_path [] (r_file_info r)
                       \<and> invoked s' = invoked s \<and> calls s' = calls s @ [Probe input_path])
       \<and> (case process_video T output_dir input_path task_id [] parameters s of
            (r, s') \<Rightarrow> r = Completed task_id input_path [] (r_file_info r)
                       \<and> invoked s' = invoked s \<and> calls s' = calls s @ [Probe input_path])"
  using assms
  by (simp add: process_audio_def process_video_def get_audio_info_def get_file_info_def
        external_def logger_def split: prod.splits sum.splits)

theorem empty_pipeline_is_identity_witness:
  "path_exists (sim_tools (\<lambda>c. None) (\<lambda>c. None)) ''in.wav'' (world (sim_state [''in.wav'']))
   \<and> fst (process_audio (sim_tools (\<lambda>c. None) (\<lambda>c. None)) ''./processed'' ''in.wav'' ''t1'' [] None
            (sim_state [''in.wav'']))
       = Completed ''t1'' ''in.wav'' [] [(''format'', PStr ''wav'')]
   \<and> fst (process_video (sim_tools (\<lambda>c. None) (\<lambda>c. None)) ''./processed'' ''in.wav'' ''t1'' [] None
            (sim_state [''in.wav'']))
       = Completed ''t1'' ''in.wav'' [] [(''format'', PStr ''mp4'')]"
  using empty_pipeline_is_identity [of "sim_tools (\<lambda>c. None) (\<lambda>c. None)" "''in.wav''"
      "sim_state [''in.wav'']" "''./processed''" "''t1''" None]
  by (simp add: sim_tools_def sim_state_def process_audio_def process_video_def get_audio_info_def
        get_file_info_def external_def logger_def)

section \<open>Unknown operation names\<close>

text \<open>
  Claim C2. An entry of the operations list whose name is not a defined operation is
  skipped with a logged warning and the current input is not altered: when the entries
  before it have run and left the current input \<open>c\<close>, the loop goes on with the entries
  after it, from the next step index, with the same \<open>c\<close>, in the state the entries before
  left, to which only the warning has been added. The entries after it still run. This
  holds for the loop of the audio and of the video executor.
\<close>

theorem unknown_operation_is_skipped:
  "(u \<notin> set audio_supported_operations \<longrightarrow>
      audio_loop T output_dir task_id ps i (pre @ u # post) current_input s
        = (case audio_loop T output_dir task_id ps i pre current_input s of
             (Inl e, s1) \<Rightarrow> (Inl e, s1)
           | (Inr c, s1) \<Rightarrow>
               audio_loop T output_dir task_id ps (Suc (i + length pre)) post c
                 (logger WARNING (''Unknown operation: '' @ u) s1)))
   \<and> (u \<notin> set video_supported_operations \<longrightarrow>
      video_loop T output_dir task_id ps i (pre @ u # post) current_input s
        = (case video_loop T output_dir task_id ps i pre current_input s of
             (Inl e, s1) \<Rightarrow> (Inl e, s1)
           | (Inr c, s1) \<Rightarrow>
               video_loop T output_dir task_id ps (Suc (i + length pre)) post c
                 (logger WARNING (''Unknown operation: '' @ u) s1)))"
proof (intro conjI impI)
  assume "u \<notin> set audio_supported_operations"
  then have d: "audio_dispatch T u = None"
    by (simp add: audio_dispatch_known)
  show "audio_loop T output_dir task_id ps i (pre @ u # post) current_input s
        = (case audio_loop T output_dir task_id ps i pre current_input s of
             (Inl e, s1) \<Rightarrow> (Inl e, s1)
           | (Inr c, s1) \<Rightarrow>
               audio_loop T output_dir task_id ps (Suc (i + length pre)) post c
                 (logger WARNING (''Unknown operation: '' @ u) s1))"
    unfolding audio_loop_pipeline pipeline_loop_append
    by (simp add: d split: prod.splits sum.splits)
next
  assume "u \<notin> set video_supported_operations"
  then have d: "video_dispatch T u = None"
    by (simp add: video_dispatch_known)
  show "video_loop T output_dir task_id ps i (pre @ u # post) current_input s
        = (case video_loop T output_dir task_id ps i pre current_input s of
             (Inl e, s1) \<Rightarrow> (Inl e, s1)
           | (Inr c, s1) \<Rightarrow>
               video_loop T output_dir task_id ps (Suc (i + length pre)) post c
                 (logger WARNING (''Unknown operation: '' @ u) s1))"
    unfolding video_loop_pipeline pipeline_loop_append
    by (simp add: d split: prod.splits sum.splits)
qed

text \<open>A run with an unknown name between two defined operations, and one with only
  the unknown name.\<close>

theorem unknown_operation_is_skipped_witness:
  "''bogus'' \<notin> set audio_supported_operations \<and> ''bogus'' \<notin> set video_supported_operations
   \<and> fst (audio_loop (sim_tools (\<lambda>c. None) (\<lambda>c. None)) ''./processed'' ''t1'' Map.empty 0
        ([''change_speed''] @ ''bogus'' # [''normalize_audio'']) ''in.wav'' (sim_state [''in.wav'']))
      = Inr ''./processed/t1_normalize_audio_2.wav''
   \<and> map inv_input (invoked (snd (audio_loop (sim_tools (\<lambda>c. None) (\<lambda>c. None)) ''./processed'' ''t1''
        Map.empty 0 ([''change_speed''] @ ''bogus'' # [''normalize_audio'']) ''in.wav''
        (sim_state [''in.wav'']))))
      = [''in.wav'', ''./processed/t1_change_speed_0.wav'']
   \<and> fst (video_loop (sim_tools (\<lambda>c. None) (\<lambda>c. None)) ''./processed'' ''t1'' Map.empty 0
        ([] @ ''bogus'' # [''trim_video'']) ''in.mp4'' (sim_state [''in.mp4'']))
      = Inr ''./processed/t1_trim_video_1.mp4''
   \<and> log (snd (video_loop (sim_tools (\<lambda>c. None) (\<lambda>c. None)) ''./processed'' ''t1'' Map.empty 0
        ([] @ ''bogus'' # []) ''in.mp4'' (sim_state [''in.mp4''])))
      = [(WARNING, ''Unknown operation: bogus'')]"
  using unknown_operation_is_skipped
      [of "''bogus''" "sim_tools (\<lambda>c. None) (\<lambda>c. None)" "''./processed''" "''t1''" Map.empty 0
          "[''change_speed'']" "[''normalize_audio'']" "''in.wav''" "sim_state [''in.wav'']"]
  by (simp add: run_defs audio_supported_operations_def video_supported_operations_def)

section \<open>What a history says of the result\<close>




lemma job_history_failed:
  assumes "job_history ex inp task ops plan (Failed t m) vs" and "vs \<noteq> []"
  shows "\<exists>e pre op c out rest. m = exn_str e \<and> vs = pre @ [Invocation op c out (Inl e)]
            \<and> chained inp pre = Some c \<and> map step_of pre @ [(op, out)] @ rest = plan"
  using assms by (auto simp: job_history_def)



section \<open>The executor runs the operations in order\<close>



section \<open>A failing step aborts the pipeline\<close>



section \<open>Fallbacks of noise reduction and normalization\<close>

lemma fallback_noise_reduction_run:
  shows fallback_noise_reduction_calls: "calls (snd (fallback_noise_reduction T inp out s))
     = calls s @ [Ffmpeg (Output (Filter (Filter (Input inp []) ''highpass'' [] [(''f'', PInt 200)])
                                    ''lowpass'' [] [(''f'', PInt 8000)]) out [])]"
  and fallback_noise_reduction_result: "fst (fallback_noise_reduction T inp out s)
     = (case fst (ffmpeg_run T (Output (Filter (Filter (Input inp []) ''highpass'' [] [(''f'', PInt 200)])
                                    ''lowpass'' [] [(''f'', PInt 8000)]) out []) (world s)) of
          Inl e \<Rightarrow> Inl e | Inr u \<Rightarrow> Inr out)"
  by (simp_all add: fallback_noise_reduction_def log_and_reraise_def and_then_def run_ffmpeg_def
        external_def split: prod.splits sum.splits)

lemma world_logger [simp]: "world (logger l m s) = world s"
  by (simp add: logger_def)

lemma fallback_normalize_run:
  shows fallback_normalize_calls: "calls (snd (fallback_normalize T inp out ps s))
     = calls s @ [Ffmpeg (Output (Filter (Input inp []) ''volume''
                                    [get_default ps ''volume_level'' (PFloat ''1.5'')] []) out [])]"
  and fallback_normalize_result: "fst (fallback_normalize T inp out ps s)
     = (case fst (ffmpeg_run T (Output (Filter (Input inp []) ''volume''
                                    [get_default ps ''volume_level'' (PFloat ''1.5'')] []) out []) (world s)) of
          Inl e \<Rightarrow> Inl e | Inr u \<Rightarrow> Inr out)"
  by (simp_all add: fallback_normalize_def log_and_reraise_def and_then_def run_ffmpeg_def
        external_def Let_def split: prod.splits sum.splits)






section \<open>The services leave the history of stages alone\<close>

lemma stages_logger [simp]: "stages (logger l m s) = stages s"
  by (simp add: logger_def)

lemma stages_external [simp]: "stages (snd (external c f s)) = stages s"
  by (simp add: external_def split: prod.splits)

lemma stages_externalD: "external c f s = (r, s') \<Longrightarrow> stages s' = stages s"
  using stages_external [of c f s] by simp

lemma stages_load_model: "load_model A svc name s = (r, s') \<Longrightarrow> stages s' = stages s"
  by (auto simp: load_model_def split: if_splits prod.splits sum.splits dest: stages_externalD)

lemma stages_transcribe_audio_try:
  assumes run: "transcribe_audio_try A svc audio_path language name s = (r, s')"
  shows "stages s' = stages s"
proof (cases "audio_exists A audio_path (world s)")
  case False
  with run show ?thesis by (auto simp: transcribe_audio_try_def)
next
  case True
  obtain b svc1 s1 where lm: "load_model A svc name s = ((b, svc1), s1)"
    by (metis surj_pair)
  have st1: "stages s1 = stages s" by (rule stages_load_model [OF lm])
  show ?thesis
  proof (cases b)
    case False
    with run True lm st1 show ?thesis by (auto simp: transcribe_audio_try_def Let_def)
  next
    case loaded: True
    show ?thesis
    proof (cases "stt_model svc1")
      case None
      with run True lm st1 loaded show ?thesis by (auto simp: transcribe_audio_try_def Let_def)
    next
      case (Some m)
      define options where "options = (case language of
                               None \<Rightarrow> None
                             | Some l \<Rightarrow> if l \<noteq> [] \<and> l \<noteq> ''auto'' then Some l else None)"
      obtain r2 s3 where ext: "external (WhisperTranscribe m audio_path options)
           (model_transcribe A m audio_path options)
           (logger INFO (''Transcribing audio: '' @ audio_path) s1) = (r2, s3)"
        by (metis surj_pair)
      have st3: "stages s3 = stages s1" using stages_externalD [OF ext] by simp
      from run True lm loaded Some ext st1 st3 show ?thesis
        by (cases r2) (auto simp: transcribe_audio_try_def Let_def options_def)
    qed
  qed
qed

lemma stages_transcribe_audio:
  assumes "transcribe_audio A svc audio_path language name s = (r, s')"
  shows "stages s' = stages s"
proof -
  obtain r1 svc1 s1 where t: "transcribe_audio_try A svc audio_path language name s = ((r1, svc1), s1)"
    by (metis surj_pair)
  from stages_transcribe_audio_try [OF t] assms t show ?thesis
    by (cases r1) (auto simp: transcribe_audio_def)
qed

lemma stages_translate_text:
  "translate_text A client text target source s = (r, s') \<Longrightarrow> stages s' = stages s"
  by (auto simp: translate_text_def split: if_splits prod.splits sum.splits dest: stages_externalD)

lemma stages_choose_output_path:
  "choose_output_path A output_path s = (r, s') \<Longrightarrow> stages s' = stages s"
  by (auto simp: choose_output_path_def split: if_splits option.splits dest: stages_externalD)

lemma stages_google_tts:
  "google_tts A text language voice output_path s = (r, s') \<Longrightarrow> stages s' = stages s"
  by (auto simp: google_tts_def log_and_reraise_def and_then_def return_def
      split: prod.splits sum.splits dest!: stages_externalD stages_choose_output_path)

lemma stages_aws_polly_tts:
  "aws_polly_tts A text language voice output_path s = (r, s') \<Longrightarrow> stages s' = stages s"
  by (auto simp: aws_polly_tts_def log_and_reraise_def and_then_def return_def Let_def
      split: prod.splits sum.splits dest!: stages_externalD stages_choose_output_path)

lemma stages_synthesize_speech:
  "synthesize_speech A tts text language voice provider output_path s = (r, s')
     \<Longrightarrow> stages s' = stages s"
  by (auto simp: synthesize_speech_def split: if_splits prod.splits sum.splits
      dest: stages_google_tts stages_aws_polly_tts)

section \<open>How the workflow ends\<close>

lemma workflow_transcription_error:
  assumes "transcribe_audio A (stt_service svc) audio_path None ''base''
             (begin_stage Transcribe
                (logger INFO (''Starting AI workflow for task ''
                                @ (case task_id of None \<Rightarrow> ''None'' | Some t \<Rightarrow> t)) s))
             = ((Error m, stt), s1)"
  shows "process_audio_workflow A svc audio_path target_language task_id s
           = ((Error (''Transcription failed: '' @ m), svc\<lparr>stt_service := stt\<rparr>), s1)"
  using assms by (simp add: process_audio_workflow_def Let_def)

lemma workflow_translation_error:
  assumes "transcribe_audio A (stt_service svc) audio_path None ''base''
             (begin_stage Transcribe
                (logger INFO (''Starting AI workflow for task ''
                                @ (case task_id of None \<Rightarrow> ''None'' | Some t \<Rightarrow> t)) s))
             = ((Ok heard, stt), s1)"
    and "translate_text A (translation_client svc) (tr_text heard) target_language None
               (begin_stage Translate s1) = (Error m, s2)"
  shows "process_audio_workflow A svc audio_path target_language task_id s
           = ((Error (''Translation failed: '' @ m), svc\<lparr>stt_service := stt\<rparr>), s2)"
  using assms by (simp add: process_audio_workflow_def Let_def)

lemma workflow_synthesis:
  assumes "transcribe_audio A (stt_service svc) audio_path None ''base''
             (begin_stage Transcribe
                (logger INFO (''Starting AI workflow for task ''
                                @ (case task_id of None \<Rightarrow> ''None'' | Some t \<Rightarrow> t)) s))
             = ((Ok heard, stt), s1)"
    and "translate_text A (translation_client svc) (tr_text heard) target_language None
               (begin_stage Translate s1) = (Ok translated, s2)"
    and "synthesize_speech A (tts_service svc) (tl_translated_text translated) target_language None
           ''google''
           (case task_id of
              None \<Rightarrow> None
            | Some t \<Rightarrow> if t \<noteq> [] then Some (''./processed/'' @ t @ ''_translated_audio.mp3'') else None)
           (begin_stage Synthesize s2) = (r3, s3)"
  shows "snd (process_audio_workflow A svc audio_path target_language task_id s) = s3
       \<and> fst (fst (process_audio_workflow A svc audio_path target_language task_id s))
           = (case r3 of
                Error m \<Rightarrow> Error (''Speech synthesis failed: '' @ m)
              | Ok spoken \<Rightarrow>
                  Ok \<lparr> wf_task_id = task_id,
                       wf_original_text = tr_text heard,
                       wf_translated_text = tl_translated_text translated,
                       wf_source_language = tr_language heard,
                       wf_target_language = target_language,
                       wf_output_audio = sy_audio_path spoken,
                       wf_segments = tr_segments heard \<rparr>)"
  using assms by (cases r3) (simp_all add: process_audio_workflow_def Let_def)

section \<open>Transcription\<close>

lemmas ai_defs =
  process_audio_workflow_def transcribe_audio_def transcribe_audio_try_def load_model_def
  translate_text_def synthesize_speech_def google_tts_def aws_polly_tts_def choose_output_path_def
  voice_or_def begin_stage_def new_stt_service_def sim_ai_def strip_def is_space_def
  and_then_def log_and_reraise_def return_def external_def logger_def sim_state_def Let_def

text \<open>
  Claim C8. For every transcription result, the returned duration is the end timestamp
  of the last segment when the list of segments is not empty, and 0 when there are no
  segments.
\<close>

theorem duration_is_end_of_last_segment:
  assumes "transcribe_audio A svc audio_path language name s = ((Ok r, svc'), s')"
  shows "tr_duration r = (if tr_segments r = [] then PInt 0 else seg_end (last (tr_segments r)))"
  using assms
  by (auto simp: transcribe_audio_def transcribe_audio_try_def Let_def
      split: if_splits prod.splits sum.splits bool.splits option.splits)

text \<open>A transcription of two segments, whose duration is the end of the second.\<close>

theorem duration_is_end_of_last_segment_witness:
  "transcribe_audio
      (sim_ai (Inr \<lparr> w_text = '' hello world'', w_language = Some ''en'',
                     w_segments = Some [\<lparr> seg_start = PFloat ''0.0'', seg_end = PFloat ''2.5'', seg_text = '' hello'' \<rparr>,
                                       \<lparr> seg_start = PFloat ''2.5'', seg_end = PFloat ''4.0'', seg_text = '' world'' \<rparr>] \<rparr>)
         (Inl (ClientError ''unused'')) (Inl (ClientError ''unused'')))
      new_stt_service ''a.wav'' None ''base'' (sim_state [''a.wav''])
    = ((Ok \<lparr> tr_text = ''hello world'', tr_language = ''en'',
             tr_segments = [\<lparr> seg_start = PFloat ''0.0'', seg_end = PFloat ''2.5'', seg_text = ''hello'' \<rparr>,
                            \<lparr> seg_start = PFloat ''2.5'', seg_end = PFloat ''4.0'', seg_text = ''world'' \<rparr>],
             tr_duration = PFloat ''4.0'' \<rparr>,
        \<lparr> stt_model = Some ''base'', stt_model_name = ''base'' \<rparr>),
       \<lparr> world = [''a.wav''],
         log = [(INFO, ''Loading Whisper model: base''), (INFO, ''Transcribing audio: a.wav'')],
         calls = [WhisperLoad ''base'', WhisperTranscribe ''base'' ''a.wav'' None],
         invoked = [], stages = [] \<rparr>)
   \<and> tr_duration \<lparr> tr_text = ''hello world'', tr_language = ''en'',
             tr_segments = [\<lparr> seg_start = PFloat ''0.0'', seg_end = PFloat ''2.5'', seg_text = ''hello'' \<rparr>,
                            \<lparr> seg_start = PFloat ''2.5'', seg_end = PFloat ''4.0'', seg_text = ''world'' \<rparr>],
             tr_duration = PFloat ''4.0'' \<rparr> = PFloat ''4.0''"
proof -
  have run: "transcribe_audio
      (sim_ai (Inr \<lparr> w_text = '' hello world'', w_language = Some ''en'',
                     w_segments = Some [\<lparr> seg_start = PFloat ''0.0'', seg_end = PFloat ''2.5'', seg_text = '' hello'' \<rparr>,
                                       \<lparr> seg_start = PFloat ''2.5'', seg_end = PFloat ''4.0'', seg_text = '' world'' \<rparr>] \<rparr>)
         (Inl (ClientError ''unused'')) (Inl (ClientError ''unused'')))
      new_stt_service ''a.wav'' None ''base'' (sim_state [''a.wav''])
    = ((Ok \<lparr> tr_text = ''hello world'', tr_language = ''en'',
             tr_segments = [\<lparr> seg_start = PFloat ''0.0'', seg_end = PFloat ''2.5'', seg_text = ''hello'' \<rparr>,
                            \<lparr> seg_start = PFloat ''2.5'', seg_end = PFloat ''4.0'', seg_text = ''world'' \<rparr>],
             tr_duration = PFloat ''4.0'' \<rparr>,
        \<lparr> stt_model = Some ''base'', stt_model_name = ''base'' \<rparr>),
       \<lparr> world = [''a.wav''],
         log = [(INFO, ''Loading Whisper model: base''), (INFO, ''Transcribing audio: a.wav'')],
         calls = [WhisperLoad ''base'', WhisperTranscribe ''base'' ''a.wav'' None],
         invoked = [], stages = [] \<rparr>)"
    by (simp add: ai_defs)
  from duration_is_end_of_last_segment [OF run] run show ?thesis by simp
qed

lemma load_model_cases:
  assumes "load_model A svc name s = ((b, svc1), s1)"
  shows "(b \<longrightarrow> stt_model svc1 \<noteq> None) \<and> (\<not> b \<longrightarrow> calls s1 = calls s @ [WhisperLoad name])"
  using assms
  by (auto simp: load_model_def external_def logger_def split: if_splits prod.splits sum.splits)

text \<open>The errors of a transcription on an existing file.\<close>

lemma transcription_error_cases:
  assumes ex: "audio_exists A audio_path (world s)"
    and run: "transcribe_audio A svc audio_path language name s = ((Error m, svc'), s')"
  shows "(m = ''Failed to load Whisper model'' \<and> calls s' = calls s @ [WhisperLoad name])
       \<or> (\<exists>e model options w. fst (model_transcribe A model audio_path options w) = Inl e
             \<and> m = exn_str e \<and> calls s' \<noteq> []
             \<and> last (calls s') = WhisperTranscribe model audio_path options)"
proof -
  obtain p s1 where lm0: "load_model A svc name s = (p, s1)"
    by (rule prod.exhaust)
  obtain b svc1 where p: "p = (b, svc1)"
    by (rule prod.exhaust)
  have lm: "load_model A svc name s = ((b, svc1), s1)"
    using lm0 unfolding p .
  show ?thesis
  proof (cases b)
    case False
    with ex run lm have "m = ''Failed to load Whisper model''" and "calls s' = calls s1"
      by (auto simp: transcribe_audio_def transcribe_audio_try_def logger_def)
    moreover from load_model_cases [OF lm] False have "calls s1 = calls s @ [WhisperLoad name]"
      by simp
    ultimately show ?thesis by simp
  next
    case True
    with load_model_cases [OF lm] obtain mo where mo: "stt_model svc1 = Some mo"
      by auto
    define options where "options = (case language of
                               None \<Rightarrow> None
                             | Some l \<Rightarrow> if l \<noteq> [] \<and> l \<noteq> ''auto'' then Some l else None)"
    obtain r2 w3 where call: "model_transcribe A mo audio_path options (world s1) = (r2, w3)"
      by (rule prod.exhaust)
    from ex run lm True mo call obtain e where r2: "r2 = Inl e" and m: "m = exn_str e"
      and c: "calls s' = calls s1 @ [WhisperTranscribe mo audio_path options]"
      by (cases r2)
         (auto simp: transcribe_audio_def transcribe_audio_try_def Let_def options_def external_def
            logger_def)
    have "fst (model_transcribe A mo audio_path options (world s1)) = Inl e"
      using call r2 by simp
    with m c have "fst (model_transcribe A mo audio_path options (world s1)) = Inl e
             \<and> m = exn_str e \<and> calls s' \<noteq> []
             \<and> last (calls s') = WhisperTranscribe mo audio_path options"
      by simp
    then show ?thesis by blast
  qed
qed

text \<open>
  Claim C9. For every path that does not exist, the method returns the missing-file
  error, the dict whose message is \<^verbatim>\<open>Audio file not found: \<close> followed by the path, and
  logs it, without loading a model and without attempting the transcription: no external
  call is made. An error arising from a transcription failure is another one: on an
  existing path, an error the method returns is the failure to load the model, or the
  \<^verbatim>\<open>str(e)\<close> of an exception \<open>e\<close> that \<^verbatim>\<open>model.transcribe\<close> raised on that path, and then the
  transcription was attempted (it is the last external call). The dict carries the
  message and nothing else, so the two are told apart by the message: on an existing path
  the method never returns the missing-file error, unless the library itself raises an
  exception that reads \<^verbatim>\<open>Audio file not found: \<close> followed by the path.
\<close>

theorem missing_audio_file_is_reported:
  "(\<not> audio_exists A audio_path (world s) \<longrightarrow>
      transcribe_audio A svc audio_path language name s
        = ((Error (''Audio file not found: '' @ audio_path), svc),
           logger ERROR (''Transcription failed: Audio file not found: '' @ audio_path) s)
      \<and> calls (snd (transcribe_audio A svc audio_path language name s)) = calls s)
   \<and> (audio_exists A audio_path (world s)
        \<and> transcribe_audio A svc audio_path language name s = ((Error m, svc'), s') \<longrightarrow>
      (m = ''Failed to load Whisper model'' \<and> calls s' = calls s @ [WhisperLoad name])
      \<or> (\<exists>e model options w. fst (model_transcribe A model audio_path options w) = Inl e
            \<and> m = exn_str e \<and> calls s' \<noteq> []
            \<and> last (calls s') = WhisperTranscribe model audio_path options))
   \<and> (audio_exists A audio_path (world s)
        \<and> (\<forall>model options w e. fst (model_transcribe A model audio_path options w) = Inl e
              \<longrightarrow> exn_str e \<noteq> ''Audio file not found: '' @ audio_path) \<longrightarrow>
      fst (fst (transcribe_audio A svc audio_path language name s))
        \<noteq> Error (''Audio file not found: '' @ audio_path))"
proof (intro conjI impI)
  assume "\<not> audio_exists A audio_path (world s)"
  then show eq: "transcribe_audio A svc audio_path language name s
        = ((Error (''Audio file not found: '' @ audio_path), svc),
           logger ERROR (''Transcription failed: Audio file not found: '' @ audio_path) s)"
    by (simp add: transcribe_audio_def transcribe_audio_try_def)
  show "calls (snd (transcribe_audio A svc audio_path language name s)) = calls s"
    unfolding eq by simp
next
  assume "audio_exists A audio_path (world s)
        \<and> transcribe_audio A svc audio_path language name s = ((Error m, svc'), s')"
  then show "(m = ''Failed to load Whisper model'' \<and> calls s' = calls s @ [WhisperLoad name])
      \<or> (\<exists>e model options w. fst (model_transcribe A model audio_path options w) = Inl e
            \<and> m = exn_str e \<and> calls s' \<noteq> []
            \<and> last (calls s') = WhisperTranscribe model audio_path options)"
    using transcription_error_cases [of A audio_path s svc language name m svc' s'] by blast
next
  assume a: "audio_exists A audio_path (world s)
        \<and> (\<forall>model options w e. fst (model_transcribe A model audio_path options w) = Inl e
              \<longrightarrow> exn_str e \<noteq> ''Audio file not found: '' @ audio_path)"
  show "fst (fst (transcribe_audio A svc audio_path language name s))
        \<noteq> Error (''Audio file not found: '' @ audio_path)"
  proof
    assume r: "fst (fst (transcribe_audio A svc audio_path language name s))
        = Error (''Audio file not found: '' @ audio_path)"
    have run: "transcribe_audio A svc audio_path language name s
        = ((Error (''Audio file not found: '' @ audio_path),
            snd (fst (transcribe_audio A svc audio_path language name s))),
           snd (transcribe_audio A svc audio_path language name s))"
      using r by (metis prod.collapse)
    from a have ex: "audio_exists A audio_path (world s)"
      by (rule conjunct1)
    from a have distinct: "\<forall>model options w e. fst (model_transcribe A model audio_path options w) = Inl e
              \<longrightarrow> exn_str e \<noteq> ''Audio file not found: '' @ audio_path"
      by (rule conjunct2)
    from transcription_error_cases [OF ex run] show False
    proof
      assume "''Audio file not found: '' @ audio_path = ''Failed to load Whisper model''
                \<and> calls (snd (transcribe_audio A svc audio_path language name s)) = calls s @ [WhisperLoad name]"
      then show False by simp
    next
      assume "\<exists>e model options w. fst (model_transcribe A model audio_path options w) = Inl e
             \<and> ''Audio file not found: '' @ audio_path = exn_str e
             \<and> calls (snd (transcribe_audio A svc audio_path language name s)) \<noteq> []
             \<and> last (calls (snd (transcribe_audio A svc audio_path language name s)))
                 = WhisperTranscribe model audio_path options"
      then obtain e model options w where
        e: "fst (model_transcribe A model audio_path options w) = Inl e"
        and m: "''Audio file not found: '' @ audio_path = exn_str e"
        by blast
      from distinct e have "exn_str e \<noteq> ''Audio file not found: '' @ audio_path"
        by blast
      with m show False by simp
    qed
  qed
qed

text \<open>A missing file, and an existing file on which the transcription fails.\<close>

theorem missing_audio_file_is_reported_witness:
  "transcribe_audio
      (sim_ai (Inl (Other RuntimeError ''Failed to load audio: a.wav: Invalid data''))
         (Inl (ClientError ''unused'')) (Inl (ClientError ''unused'')))
      new_stt_service ''a.wav'' None ''base'' (sim_state [])
     = ((Error ''Audio file not found: a.wav'', new_stt_service),
        \<lparr> world = [], log = [(ERROR, ''Transcription failed: Audio file not found: a.wav'')],
          calls = [], invoked = [], stages = [] \<rparr>)
   \<and> transcribe_audio
      (sim_ai (Inl (Other RuntimeError ''Failed to load audio: a.wav: Invalid data''))
         (Inl (ClientError ''unused'')) (Inl (ClientError ''unused'')))
      new_stt_service ''a.wav'' None ''base'' (sim_state [''a.wav''])
     = ((Error ''Failed to load audio: a.wav: Invalid data'',
         \<lparr> stt_model = Some ''base'', stt_model_name = ''base'' \<rparr>),
        \<lparr> world = [''a.wav''],
          log = [(INFO, ''Loading Whisper model: base''), (INFO, ''Transcribing audio: a.wav''),
                 (ERROR, ''Transcription failed: Failed to load audio: a.wav: Invalid data'')],
          calls = [WhisperLoad ''base'', WhisperTranscribe ''base'' ''a.wav'' None],
          invoked = [], stages = [] \<rparr>)"
  using missing_audio_file_is_reported
    [where A = "sim_ai (Inl (Other RuntimeError ''Failed to load audio: a.wav: Invalid data''))
         (Inl (ClientError ''unused'')) (Inl (ClientError ''unused''))"
       and audio_path = "''a.wav''" and s = "sim_state []" and svc = new_stt_service
       and language = None and name = "''base''"]
    missing_audio_file_is_reported
    [where A = "sim_ai (Inl (Other RuntimeError ''Failed to load audio: a.wav: Invalid data''))
         (Inl (ClientError ''unused'')) (Inl (ClientError ''unused''))"
       and audio_path = "''a.wav''" and s = "sim_state [''a.wav'']" and svc = new_stt_service
       and language = None and name = "''base''"
       and m = "''Failed to load audio: a.wav: Invalid data''"
       and svc' = "\<lparr> stt_model = Some ''base'', stt_model_name = ''base'' \<rparr>"
       and s' = "\<lparr> world = [''a.wav''],
          log = [(INFO, ''Loading Whisper model: base''), (INFO, ''Transcribing audio: a.wav''),
                 (ERROR, ''Transcription failed: Failed to load audio: a.wav: Invalid data'')],
          calls = [WhisperLoad ''base'', WhisperTranscribe ''base'' ''a.wav'' None],
          invoked = [], stages = [] \<rparr>"]
  by (simp add: ai_defs)

section \<open>The AI workflow\<close>

text \<open>The stages a workflow started, and the kind of its result, for the four ways it ends.\<close>

lemma workflow_stages:
  assumes "process_audio_workflow A svc audio_path target_language task_id s = ((r, svc'), s')"
  shows "((\<exists>m. r = Error (''Transcription failed: '' @ m)) \<and> stages s' = stages s @ [Transcribe])
          \<or> ((\<exists>m. r = Error (''Translation failed: '' @ m)) \<and> stages s' = stages s @ [Transcribe, Translate])
          \<or> ((\<exists>m. r = Error (''Speech synthesis failed: '' @ m))
               \<and> stages s' = stages s @ [Transcribe, Translate, Synthesize])
          \<or> ((\<exists>w. r = Ok w) \<and> stages s' = stages s @ [Transcribe, Translate, Synthesize])"
proof -
  let ?s0 = "begin_stage Transcribe
                (logger INFO (''Starting AI workflow for task ''
                                @ (case task_id of None \<Rightarrow> ''None'' | Some t \<Rightarrow> t)) s)"
  let ?out = "(case task_id of
                 None \<Rightarrow> None
               | Some t \<Rightarrow> if t \<noteq> [] then Some (''./processed/'' @ t @ ''_translated_audio.mp3'') else None)"
  have st0: "stages ?s0 = stages s @ [Transcribe]"
    by (simp add: begin_stage_def)
  obtain p1 sa where t0: "transcribe_audio A (stt_service svc) audio_path None ''base'' ?s0 = (p1, sa)"
    by (rule prod.exhaust)
  obtain r1 stt1 where p1: "p1 = (r1, stt1)"
    by (rule prod.exhaust)
  have t: "transcribe_audio A (stt_service svc) audio_path None ''base'' ?s0 = ((r1, stt1), sa)"
    using t0 unfolding p1 .
  have sta: "stages sa = stages s @ [Transcribe]"
    using stages_transcribe_audio [OF t] st0 by simp
  show ?thesis
  proof (cases r1)
    case (Error m)
    from workflow_transcription_error [OF t [unfolded Error]] assms
    have r: "r = Error (''Transcription failed: '' @ m)" and s': "s' = sa"
      by simp_all
    have d: "(\<exists>m. r = Error (''Transcription failed: '' @ m)) \<and> stages s' = stages s @ [Transcribe]"
    proof (rule conjI)
      from r show "\<exists>m. r = Error (''Transcription failed: '' @ m)"
        by (rule exI [where x = m])
      from s' sta show "stages s' = stages s @ [Transcribe]" by simp
    qed
    show ?thesis
      by (rule disjI1 [OF d])
  next
    case (Ok h)
    obtain r2 sb where tl: "translate_text A (translation_client svc) (tr_text h) target_language None
               (begin_stage Translate sa) = (r2, sb)"
      by (rule prod.exhaust)
    have stb: "stages sb = stages s @ [Transcribe, Translate]"
      using stages_translate_text [OF tl] sta by (simp add: begin_stage_def)
    show ?thesis
    proof (cases r2)
      case (Error m)
      from workflow_translation_error [OF t [unfolded Ok] tl [unfolded Error]] assms
      have r: "r = Error (''Translation failed: '' @ m)" and s': "s' = sb"
        by simp_all
      have d: "(\<exists>m. r = Error (''Translation failed: '' @ m)) \<and> stages s' = stages s @ [Transcribe, Translate]"
      proof (rule conjI)
        from r show "\<exists>m. r = Error (''Translation failed: '' @ m)"
          by (rule exI [where x = m])
        from s' stb show "stages s' = stages s @ [Transcribe, Translate]" by simp
      qed
      show ?thesis
        by (rule disjI2 [OF disjI1 [OF d]])
    next
      case tok: (Ok tr)
      obtain r3 sc where sy: "synthesize_speech A (tts_service svc) (tl_translated_text tr)
                             target_language None ''google'' ?out (begin_stage Synthesize sb) = (r3, sc)"
        by (rule prod.exhaust)
      have stc: "stages sc = stages s @ [Transcribe, Translate, Synthesize]"
        using stages_synthesize_speech [OF sy] stb by (simp add: begin_stage_def)
      from workflow_synthesis [OF t [unfolded Ok] tl [unfolded tok] sy] assms
      have s': "s' = sc"
        and r: "r = (case r3 of
                Error m \<Rightarrow> Error (''Speech synthesis failed: '' @ m)
              | Ok spoken \<Rightarrow>
                  Ok \<lparr> wf_task_id = task_id,
                       wf_original_text = tr_text h,
                       wf_translated_text = tl_translated_text tr,
                       wf_source_language = tr_language h,
                       wf_target_language = target_language,
                       wf_output_audio = sy_audio_path spoken,
                       wf_segments = tr_segments h \<rparr>)"
        by simp_all
      have d: "((\<exists>m. r = Error (''Speech synthesis failed: '' @ m))
               \<and> stages s' = stages s @ [Transcribe, Translate, Synthesize])
          \<or> ((\<exists>w. r = Ok w) \<and> stages s' = stages s @ [Transcribe, Translate, Synthesize])"
      proof (cases r3)
        case (Error m)
        with r have e: "r = Error (''Speech synthesis failed: '' @ m)" by simp
        have "(\<exists>m. r = Error (''Speech synthesis failed: '' @ m))
               \<and> stages s' = stages s @ [Transcribe, Translate, Synthesize]"
        proof (rule conjI)
          from e show "\<exists>m. r = Error (''Speech synthesis failed: '' @ m)"
            by (rule exI [where x = m])
          from s' stc show "stages s' = stages s @ [Transcribe, Translate, Synthesize]" by simp
        qed
        then show ?thesis by (rule disjI1)
      next
        case (Ok spoken)
        with r have e: "\<exists>w. r = Ok w" by simp
        have "(\<exists>w. r = Ok w) \<and> stages s' = stages s @ [Transcribe, Translate, Synthesize]"
        proof (rule conjI)
          from e show "\<exists>w. r = Ok w" .
          from s' stc show "stages s' = stages s @ [Transcribe, Translate, Synthesize]" by simp
        qed
        then show ?thesis by (rule disjI2)
      qed
      show ?thesis
        by (rule disjI2 [OF disjI2 [OF d]])
    qed
  qed
qed

lemma nested_pairing: "t = ((fst (fst t), snd (fst t)), snd t)"
  by simp

text \<open>
  Claim C5. The AI workflow runs its stages strictly in the order transcribe, translate,
  synthesize, and stops at the first stage that reports an error. The stages it started
  are a prefix of that order, and its result is an error whose message names the stage
  that failed exactly when the stages end with that stage. Each stage is the service
  method itself, called in the state the stage before left: when \<^verbatim>\<open>transcribe_audio\<close>
  returns an error, the workflow returns \<^verbatim>\<open>Transcription failed: \<close> followed by that
  error, in the state the transcription left; when \<^verbatim>\<open>translate_text\<close> returns an error,
  the workflow returns \<^verbatim>\<open>Translation failed: \<close> followed by that error, in the state the
  translation left: the synthesize stage is not started and nothing is done after the
  translation; when \<^verbatim>\<open>synthesize_speech\<close>, called on the translated text, returns an
  error, the workflow returns \<^verbatim>\<open>Speech synthesis failed: \<close> followed by that error; and
  when it returns a result, the workflow returns the completed result with the audio path
  of the synthesis, in the state the synthesis left.
\<close>

theorem workflow_stops_at_first_failing_stage:
  assumes "process_audio_workflow A svc audio_path target_language task_id s = ((r, svc'), s')"
  shows "(((\<exists>m. r = Error (''Transcription failed: '' @ m)) \<and> stages s' = stages s @ [Transcribe])
          \<or> ((\<exists>m. r = Error (''Translation failed: '' @ m)) \<and> stages s' = stages s @ [Transcribe, Translate])
          \<or> ((\<exists>m. r = Error (''Speech synthesis failed: '' @ m))
               \<and> stages s' = stages s @ [Transcribe, Translate, Synthesize])
          \<or> ((\<exists>w. r = Ok w) \<and> stages s' = stages s @ [Transcribe, Translate, Synthesize]))
       \<and> (transcribe_audio A (stt_service svc) audio_path None ''base''
             (begin_stage Transcribe
                (logger INFO (''Starting AI workflow for task ''
                                @ (case task_id of None \<Rightarrow> ''None'' | Some t \<Rightarrow> t)) s))
             = ((Error m1, stt), s1)
           \<longrightarrow> r = Error (''Transcription failed: '' @ m1) \<and> s' = s1
               \<and> stages s' = stages s @ [Transcribe])
       \<and> (transcribe_audio A (stt_service svc) audio_path None ''base''
             (begin_stage Transcribe
                (logger INFO (''Starting AI workflow for task ''
                                @ (case task_id of None \<Rightarrow> ''None'' | Some t \<Rightarrow> t)) s))
             = ((Ok heard, stt), s1)
           \<and> translate_text A (translation_client svc) (tr_text heard) target_language None
               (begin_stage Translate s1) = (Error m2, s2)
           \<longrightarrow> r = Error (''Translation failed: '' @ m2) \<and> s' = s2
               \<and> stages s' = stages s @ [Transcribe, Translate])
       \<and> (transcribe_audio A (stt_service svc) audio_path None ''base''
             (begin_stage Transcribe
                (logger INFO (''Starting AI workflow for task ''
                                @ (case task_id of None \<Rightarrow> ''None'' | Some t \<Rightarrow> t)) s))
             = ((Ok heard, stt), s1)
           \<and> translate_text A (translation_client svc) (tr_text heard) target_language None
               (begin_stage Translate s1) = (Ok translated, s2)
           \<and> synthesize_speech A (tts_service svc) (tl_translated_text translated) target_language None
               ''google''
               (case task_id of
                  None \<Rightarrow> None
                | Some t \<Rightarrow> if t \<noteq> [] then Some (''./processed/'' @ t @ ''_translated_audio.mp3'') else None)
               (begin_stage Synthesize s2) = (Error m3, s3)
           \<longrightarrow> r = Error (''Speech synthesis failed: '' @ m3) \<and> s' = s3
               \<and> stages s' = stages s @ [Transcribe, Translate, Synthesize])
       \<and> (transcribe_audio A (stt_service svc) audio_path None ''base''
             (begin_stage Transcribe
                (logger INFO (''Starting AI workflow for task ''
                                @ (case task_id of None \<Rightarrow> ''None'' | Some t \<Rightarrow> t)) s))
             = ((Ok heard, stt), s1)
           \<and> translate_text A (translation_client svc) (tr_text heard) target_language None
               (begin_stage Translate s1) = (Ok translated, s2)
           \<and> synthesize_speech A (tts_service svc) (tl_translated_text translated) target_language None
               ''google''
               (case task_id of
                  None \<Rightarrow> None
                | Some t \<Rightarrow> if t \<noteq> [] then Some (''./processed/'' @ t @ ''_translated_audio.mp3'') else None)
               (begin_stage Synthesize s2) = (Ok spoken, s3)
           \<longrightarrow> r = Ok \<lparr> wf_task_id = task_id,
                        wf_original_text = tr_text heard,
                        wf_translated_text = tl_translated_text translated,
                        wf_source_language = tr_language heard,
                        wf_target_language = target_language,
                        wf_output_audio = sy_audio_path spoken,
                        wf_segments = tr_segments heard \<rparr>
               \<and> s' = s3
               \<and> stages s' = stages s @ [Transcribe, Translate, Synthesize])"
proof (intro conjI impI)
  show "((\<exists>m. r = Error (''Transcription failed: '' @ m)) \<and> stages s' = stages s @ [Transcribe])
          \<or> ((\<exists>m. r = Error (''Translation failed: '' @ m)) \<and> stages s' = stages s @ [Transcribe, Translate])
          \<or> ((\<exists>m. r = Error (''Speech synthesis failed: '' @ m))
               \<and> stages s' = stages s @ [Transcribe, Translate, Synthesize])
          \<or> ((\<exists>w. r = Ok w) \<and> stages s' = stages s @ [Transcribe, Translate, Synthesize])"
    by (rule workflow_stages [OF assms])
next
  assume a: "transcribe_audio A (stt_service svc) audio_path None ''base''
             (begin_stage Transcribe
                (logger INFO (''Starting AI workflow for task ''
                                @ (case task_id of None \<Rightarrow> ''None'' | Some t \<Rightarrow> t)) s))
             = ((Error m1, stt), s1)"
  have eq: "((r, svc'), s') = ((Error (''Transcription failed: '' @ m1), svc\<lparr>stt_service := stt\<rparr>), s1)"
    by (rule trans [OF assms [symmetric] workflow_transcription_error [OF a]])
  from eq show "r = Error (''Transcription failed: '' @ m1)" by simp
  from eq show s': "s' = s1" by simp
  from stages_transcribe_audio [OF a] show "stages s' = stages s @ [Transcribe]"
    unfolding s' by (simp add: begin_stage_def)
next
  assume a: "transcribe_audio A (stt_service svc) audio_path None ''base''
             (begin_stage Transcribe
                (logger INFO (''Starting AI workflow for task ''
                                @ (case task_id of None \<Rightarrow> ''None'' | Some t \<Rightarrow> t)) s))
             = ((Ok heard, stt), s1)
           \<and> translate_text A (translation_client svc) (tr_text heard) target_language None
               (begin_stage Translate s1) = (Error m2, s2)"
  from a have a1: "transcribe_audio A (stt_service svc) audio_path None ''base''
             (begin_stage Transcribe
                (logger INFO (''Starting AI workflow for task ''
                                @ (case task_id of None \<Rightarrow> ''None'' | Some t \<Rightarrow> t)) s))
             = ((Ok heard, stt), s1)"
    by (rule conjunct1)
  from a have a2: "translate_text A (translation_client svc) (tr_text heard) target_language None
               (begin_stage Translate s1) = (Error m2, s2)"
    by (rule conjunct2)
  have eq: "((r, svc'), s') = ((Error (''Translation failed: '' @ m2), svc\<lparr>stt_service := stt\<rparr>), s2)"
    by (rule trans [OF assms [symmetric] workflow_translation_error [OF a1 a2]])
  from eq show "r = Error (''Translation failed: '' @ m2)" by simp
  from eq show s': "s' = s2" by simp
  from stages_transcribe_audio [OF a1] stages_translate_text [OF a2]
  show "stages s' = stages s @ [Transcribe, Translate]"
    unfolding s' by (simp add: begin_stage_def)
next
  assume a: "transcribe_audio A (stt_service svc) audio_path None ''base''
             (begin_stage Transcribe
                (logger INFO (''Starting AI workflow for task ''
                                @ (case task_id of None \<Rightarrow> ''None'' | Some t \<Rightarrow> t)) s))
             = ((Ok heard, stt), s1)
           \<and> translate_text A (translation_client svc) (tr_text heard) target_language None
               (begin_stage Translate s1) = (Ok translated, s2)
           \<and> synthesize_speech A (tts_service svc) (tl_translated_text translated) target_language None
               ''google''
               (case task_id of
                  None \<Rightarrow> None
                | Some t \<Rightarrow> if t \<noteq> [] then Some (''./processed/'' @ t @ ''_translated_audio.mp3'') else None)
               (begin_stage Synthesize s2) = (Error m3, s3)"
  from a have a1: "transcribe_audio A (stt_service svc) audio_path None ''base''
             (begin_stage Transcribe
                (logger INFO (''Starting AI workflow for task ''
                                @ (case task_id of None \<Rightarrow> ''None'' | Some t \<Rightarrow> t)) s))
             = ((Ok heard, stt), s1)"
    by (rule conjunct1)
  from a have a2: "translate_text A (translation_client svc) (tr_text heard) target_language None
               (begin_stage Translate s1) = (Ok translated, s2)"
    by (rule conjunct1 [OF conjunct2])
  from a have a3: "synthesize_speech A (tts_service svc) (tl_translated_text translated) target_language None
               ''google''
               (case task_id of
                  None \<Rightarrow> None
                | Some t \<Rightarrow> if t \<noteq> [] then Some (''./processed/'' @ t @ ''_translated_audio.mp3'') else None)
               (begin_stage Synthesize s2) = (Error m3, s3)"
    by (rule conjunct2 [OF conjunct2])
  from workflow_synthesis [OF a1 a2 a3] assms
  show "r = Error (''Speech synthesis failed: '' @ m3)" by simp
  from workflow_synthesis [OF a1 a2 a3] assms
  show s': "s' = s3" by simp
  from stages_transcribe_audio [OF a1] stages_translate_text [OF a2] stages_synthesize_speech [OF a3]
  show "stages s' = stages s @ [Transcribe, Translate, Synthesize]"
    unfolding s' by (simp add: begin_stage_def)
next
  assume a: "transcribe_audio A (stt_service svc) audio_path None ''base''
             (begin_stage Transcribe
                (logger INFO (''Starting AI workflow for task ''
                                @ (case task_id of None \<Rightarrow> ''None'' | Some t \<Rightarrow> t)) s))
             = ((Ok heard, stt), s1)
           \<and> translate_text A (translation_client svc) (tr_text heard) target_language None
               (begin_stage Translate s1) = (Ok translated, s2)
           \<and> synthesize_speech A (tts_service svc) (tl_translated_text translated) target_language None
               ''google''
               (case task_id of
                  None \<Rightarrow> None
                | Some t \<Rightarrow> if t \<noteq> [] then Some (''./processed/'' @ t @ ''_translated_audio.mp3'') else None)
               (begin_stage Synthesize s2) = (Ok spoken, s3)"
  from a have a1: "transcribe_audio A (stt_service svc) audio_path None ''base''
             (begin_stage Transcribe
                (logger INFO (''Starting AI workflow for task ''
                                @ (case task_id of None \<Rightarrow> ''None'' | Some t \<Rightarrow> t)) s))
             = ((Ok heard, stt), s1)"
    by (rule conjunct1)
  from a have a2: "translate_text A (translation_client svc) (tr_text heard) target_language None
               (begin_stage Translate s1) = (Ok translated, s2)"
    by (rule conjunct1 [OF conjunct2])
  from a have a3: "synthesize_speech A (tts_service svc) (tl_translated_text translated) target_language None
               ''google''
               (case task_id of
                  None \<Rightarrow> None
                | Some t \<Rightarrow> if t \<noteq> [] then Some (''./processed/'' @ t @ ''_translated_audio.mp3'') else None)
               (begin_stage Synthesize s2) = (Ok spoken, s3)"
    by (rule conjunct2 [OF conjunct2])
  from workflow_synthesis [OF a1 a2 a3] assms
  show "r = Ok \<lparr> wf_task_id = task_id,
                        wf_original_text = tr_text heard,
                        wf_translated_text = tl_translated_text translated,
                        wf_source_language = tr_language heard,
                        wf_target_language = target_language,
                        wf_output_audio = sy_audio_path spoken,
                        wf_segments = tr_segments heard \<rparr>" by simp
  from workflow_synthesis [OF a1 a2 a3] assms
  show s': "s' = s3" by simp
  from stages_transcribe_audio [OF a1] stages_translate_text [OF a2] stages_synthesize_speech [OF a3]
  show "stages s' = stages s @ [Transcribe, Translate, Synthesize]"
    unfolding s' by (simp add: begin_stage_def)
qed

text \<open>
  Four runs of the workflow: on a missing audio file (the transcription reports the
  error, one stage); with a translation that fails (two stages, three external calls, no
  synthesis); with a speech synthesis that fails (three stages, the synthesis error
  wrapped); and with three stages that succeed.
\<close>

theorem workflow_stops_at_first_failing_stage_witness:
  "process_audio_workflow
      (sim_ai (Inr \<lparr> w_text = ''hello'', w_language = Some ''en'', w_segments = None \<rparr>)
         (Inr \<lparr> translatedText = ''namaste'', detectedSourceLanguage = Some ''en'' \<rparr>) (Inr ''audio bytes''))
      \<lparr> stt_service = new_stt_service, translation_client = True,
        tts_service = \<lparr> google_client = True, aws_client = False \<rparr> \<rparr>
      ''a.wav'' ''hi'' (Some ''t1'') (sim_state [])
    = ((Error ''Transcription failed: Audio file not found: a.wav'',
        \<lparr> stt_service = \<lparr> stt_model = None, stt_model_name = ''base'' \<rparr>,
          translation_client = True,
          tts_service = \<lparr> google_client = True, aws_client = False \<rparr> \<rparr>),
       \<lparr> world = [],
         log = [(INFO, ''Starting AI workflow for task t1''),
                (ERROR, ''Transcription failed: Audio file not found: a.wav'')],
         calls = [],
         invoked = [], stages = [Transcribe] \<rparr>)
   \<and> process_audio_workflow
      (sim_ai (Inr \<lparr> w_text = ''hello'', w_language = Some ''en'', w_segments = None \<rparr>)
         (Inl (ClientError ''quota exceeded'')) (Inr ''audio bytes''))
      \<lparr> stt_service = new_stt_service, translation_client = True,
        tts_service = \<lparr> google_client = True, aws_client = False \<rparr> \<rparr>
      ''a.wav'' ''hi'' (Some ''t1'') (sim_state [''a.wav''])
    = ((Error ''Translation failed: quota exceeded'',
        \<lparr> stt_service = \<lparr> stt_model = Some ''base'', stt_model_name = ''base'' \<rparr>,
          translation_client = True,
          tts_service = \<lparr> google_client = True, aws_client = False \<rparr> \<rparr>),
       \<lparr> world = [''a.wav''],
         log = [(INFO, ''Starting AI workflow for task t1''),
                (INFO, ''Loading Whisper model: base''),
                (INFO, ''Transcribing audio: a.wav''),
                (INFO, ''Translating text to hi''),
                (ERROR, ''Translation failed: quota exceeded'')],
         calls = [WhisperLoad ''base'',
                  WhisperTranscribe ''base'' ''a.wav'' None,
                  GoogleTranslate ''hello'' ''hi'' None],
         invoked = [], stages = [Transcribe, Translate] \<rparr>)
   \<and> process_audio_workflow
      (sim_ai (Inr \<lparr> w_text = ''hello'', w_language = Some ''en'', w_segments = None \<rparr>)
         (Inr \<lparr> translatedText = ''namaste'', detectedSourceLanguage = Some ''en'' \<rparr>) (Inl (Other RuntimeError ''tts down'')))
      \<lparr> stt_service = new_stt_service, translation_client = True,
        tts_service = \<lparr> google_client = True, aws_client = False \<rparr> \<rparr>
      ''a.wav'' ''hi'' (Some ''t1'') (sim_state [''a.wav''])
    = ((Error ''Speech synthesis failed: tts down'',
        \<lparr> stt_service = \<lparr> stt_model = Some ''base'', stt_model_name = ''base'' \<rparr>,
          translation_client = True,
          tts_service = \<lparr> google_client = True, aws_client = False \<rparr> \<rparr>),
       \<lparr> world = [''a.wav''],
         log = [(INFO, ''Starting AI workflow for task t1''),
                (INFO, ''Loading Whisper model: base''),
                (INFO, ''Transcribing audio: a.wav''),
                (INFO, ''Translating text to hi''),
                (ERROR, ''Google TTS failed: tts down''),
                (ERROR, ''Speech synthesis failed: tts down'')],
         calls = [WhisperLoad ''base'',
                  WhisperTranscribe ''base'' ''a.wav'' None,
                  GoogleTranslate ''hello'' ''hi'' None,
                  GoogleTTS ''namaste'' ''hi'' None],
         invoked = [], stages = [Transcribe, Translate, Synthesize] \<rparr>)
   \<and> process_audio_workflow
      (sim_ai (Inr \<lparr> w_text = ''hello'', w_language = Some ''en'', w_segments = None \<rparr>)
         (Inr \<lparr> translatedText = ''namaste'', detectedSourceLanguage = Some ''en'' \<rparr>) (Inr ''audio bytes''))
      \<lparr> stt_service = new_stt_service, translation_client = True,
        tts_service = \<lparr> google_client = True, aws_client = False \<rparr> \<rparr>
      ''a.wav'' ''hi'' (Some ''t1'') (sim_state [''a.wav''])
    = ((Ok \<lparr> wf_task_id = Some ''t1'', wf_original_text = ''hello'', wf_translated_text = ''namaste'',
             wf_source_language = ''en'', wf_target_language = ''hi'',
             wf_output_audio = ''./processed/t1_translated_audio.mp3'', wf_segments = [] \<rparr>,
        \<lparr> stt_service = \<lparr> stt_model = Some ''base'', stt_model_name = ''base'' \<rparr>,
          translation_client = True,
          tts_service = \<lparr> google_client = True, aws_client = False \<rparr> \<rparr>),
       \<lparr> world = [''./processed/t1_translated_audio.mp3'', ''a.wav''],
         log = [(INFO, ''Starting AI workflow for task t1''),
                (INFO, ''Loading Whisper model: base''),
                (INFO, ''Transcribing audio: a.wav''),
                (INFO, ''Translating text to hi'')],
         calls = [WhisperLoad ''base'',
                  WhisperTranscribe ''base'' ''a.wav'' None,
                  GoogleTranslate ''hello'' ''hi'' None,
                  GoogleTTS ''namaste'' ''hi'' None,
                  WriteFile ''./processed/t1_translated_audio.mp3''],
         invoked = [], stages = [Transcribe, Translate, Synthesize] \<rparr>)"
  using workflow_stops_at_first_failing_stage
    [where A = "(sim_ai (Inr \<lparr> w_text = ''hello'', w_language = Some ''en'', w_segments = None \<rparr>)
         (Inr \<lparr> translatedText = ''namaste'', detectedSourceLanguage = Some ''en'' \<rparr>) (Inr ''audio bytes''))"
       and svc = "\<lparr> stt_service = new_stt_service, translation_client = True,
        tts_service = \<lparr> google_client = True, aws_client = False \<rparr> \<rparr>"
       and audio_path = "''a.wav''"
       and target_language = "''hi''"
       and task_id = "Some ''t1''"
       and s = "sim_state []"
       and ?m1.0 = "''Audio file not found: a.wav''"
       and stt = "new_stt_service"
       and ?s1.0 = "\<lparr> world = [],
         log = [(INFO, ''Starting AI workflow for task t1''),
                (ERROR, ''Transcription failed: Audio file not found: a.wav'')],
         calls = [],
         invoked = [], stages = [Transcribe] \<rparr>",
     OF nested_pairing]
    workflow_stops_at_first_failing_stage
    [where A = "(sim_ai (Inr \<lparr> w_text = ''hello'', w_language = Some ''en'', w_segments = None \<rparr>)
         (Inl (ClientError ''quota exceeded'')) (Inr ''audio bytes''))"
       and svc = "\<lparr> stt_service = new_stt_service, translation_client = True,
        tts_service = \<lparr> google_client = True, aws_client = False \<rparr> \<rparr>"
       and audio_path = "''a.wav''"
       and target_language = "''hi''"
       and task_id = "Some ''t1''"
       and s = "sim_state [''a.wav'']"
       and heard = "\<lparr> tr_text = ''hello'', tr_language = ''en'', tr_segments = [], tr_duration = PInt 0 \<rparr>"
       and stt = "\<lparr> stt_model = Some ''base'', stt_model_name = ''base'' \<rparr>"
       and ?s1.0 = "\<lparr> world = [''a.wav''],
         log = [(INFO, ''Starting AI workflow for task t1''),
                (INFO, ''Loading Whisper model: base''),
                (INFO, ''Transcribing audio: a.wav'')],
         calls = [WhisperLoad ''base'',
                  WhisperTranscribe ''base'' ''a.wav'' None],
         invoked = [], stages = [Transcribe] \<rparr>"
       and ?m2.0 = "''quota exceeded''"
       and ?s2.0 = "\<lparr> world = [''a.wav''],
         log = [(INFO, ''Starting AI workflow for task t1''),
                (INFO, ''Loading Whisper model: base''),
                (INFO, ''Transcribing audio: a.wav''),
                (INFO, ''Translating text to hi''),
                (ERROR, ''Translation failed: quota exceeded'')],
         calls = [WhisperLoad ''base'',
                  WhisperTranscribe ''base'' ''a.wav'' None,
                  GoogleTranslate ''hello'' ''hi'' None],
         invoked = [], stages = [Transcribe, Translate] \<rparr>",
     OF nested_pairing]
    workflow_stops_at_first_failing_stage
    [where A = "(sim_ai (Inr \<lparr> w_text = ''hello'', w_language = Some ''en'', w_segments = None \<rparr>)
         (Inr \<lparr> translatedText = ''namaste'', detectedSourceLanguage = Some ''en'' \<rparr>) (Inl (Other RuntimeError ''tts down'')))"
       and svc = "\<lparr> stt_service = new_stt_service, translation_client = True,
        tts_service = \<lparr> google_client = True, aws_client = False \<rparr> \<rparr>"
       and audio_path = "''a.wav''"
       and target_language = "''hi''"
       and task_id = "Some ''t1''"
       and s = "sim_state [''a.wav'']"
       and heard = "\<lparr> tr_text = ''hello'', tr_language = ''en'', tr_segments = [], tr_duration = PInt 0 \<rparr>"
       and stt = "\<lparr> stt_model = Some ''base'', stt_model_name = ''base'' \<rparr>"
       and ?s1.0 = "\<lparr> world = [''a.wav''],
         log = [(INFO, ''Starting AI workflow for task t1''),
                (INFO, ''Loading Whisper model: base''),
                (INFO, ''Transcribing audio: a.wav'')],
         calls = [WhisperLoad ''base'',
                  WhisperTranscribe ''base'' ''a.wav'' None],
         invoked = [], stages = [Transcribe] \<rparr>"
       and translated = "\<lparr> tl_translated_text = ''namaste'', tl_source_language = Some ''en'',
            tl_target_language = ''hi'', tl_original_text = ''hello'' \<rparr>"
       and ?s2.0 = "\<lparr> world = [''a.wav''],
         log = [(INFO, ''Starting AI workflow for task t1''),
                (INFO, ''Loading Whisper model: base''),
                (INFO, ''Transcribing audio: a.wav''),
                (INFO, ''Translating text to hi'')],
         calls = [WhisperLoad ''base'',
                  WhisperTranscribe ''base'' ''a.wav'' None,
                  GoogleTranslate ''hello'' ''hi'' None],
         invoked = [], stages = [Transcribe, Translate] \<rparr>"
       and ?m3.0 = "''tts down''"
       and ?s3.0 = "\<lparr> world = [''a.wav''],
         log = [(INFO, ''Starting AI workflow for task t1''),
                (INFO, ''Loading Whisper model: base''),
                (INFO, ''Transcribing audio: a.wav''),
                (INFO, ''Translating text to hi''),
                (ERROR, ''Google TTS failed: tts down''),
                (ERROR, ''Speech synthesis failed: tts down'')],
         calls = [WhisperLoad ''base'',
                  WhisperTranscribe ''base'' ''a.wav'' None,
                  GoogleTranslate ''hello'' ''hi'' None,
                  GoogleTTS ''namaste'' ''hi'' None],
         invoked = [], stages = [Transcribe, Translate, Synthesize] \<rparr>",
     OF nested_pairing]
    workflow_stops_at_first_failing_stage
    [where A = "(sim_ai (Inr \<lparr> w_text = ''hello'', w_language = Some ''en'', w_segments = None \<rparr>)
         (Inr \<lparr> translatedText = ''namaste'', detectedSourceLanguage = Some ''en'' \<rparr>) (Inr ''audio bytes''))"
       and svc = "\<lparr> stt_service = new_stt_service, translation_client = True,
        tts_service = \<lparr> google_client = True, aws_client = False \<rparr> \<rparr>"
       and audio_path = "''a.wav''"
       and target_language = "''hi''"
       and task_id = "Some ''t1''"
       and s = "sim_state [''a.wav'']"
       and heard = "\<lparr> tr_text = ''hello'', tr_language = ''en'', tr_segments = [], tr_duration = PInt 0 \<rparr>"
       and stt = "\<lparr> stt_model = Some ''base'', stt_model_name = ''base'' \<rparr>"
       and ?s1.0 = "\<lparr> world = [''a.wav''],
         log = [(INFO, ''Starting AI workflow for task t1''),
                (INFO, ''Loading Whisper model: base''),
                (INFO, ''Transcribing audio: a.wav'')],
         calls = [WhisperLoad ''base'',
                  WhisperTranscribe ''base'' ''a.wav'' None],
         invoked = [], stages = [Transcribe] \<rparr>"
       and translated = "\<lparr> tl_translated_text = ''namaste'', tl_source_language = Some ''en'',
            tl_target_language = ''hi'', tl_original_text = ''hello'' \<rparr>"
       and ?s2.0 = "\<lparr> world = [''a.wav''],
         log = [(INFO, ''Starting AI workflow for task t1''),
                (INFO, ''Loading Whisper model: base''),
                (INFO, ''Transcribing audio: a.wav''),
                (INFO, ''Translating text to hi'')],
         calls = [WhisperLoad ''base'',
                  WhisperTranscribe ''base'' ''a.wav'' None,
                  GoogleTranslate ''hello'' ''hi'' None],
         invoked = [], stages = [Transcribe, Translate] \<rparr>"
       and spoken = "\<lparr> sy_audio_path = ''./processed/t1_translated_audio.mp3'', sy_provider = ''google'',
            sy_language = ''hi'', sy_voice = None, sy_text = ''namaste'' \<rparr>"
       and ?s3.0 = "\<lparr> world = [''./processed/t1_translated_audio.mp3'', ''a.wav''],
         log = [(INFO, ''Starting AI workflow for task t1''),
                (INFO, ''Loading Whisper model: base''),
                (INFO, ''Transcribing audio: a.wav''),
                (INFO, ''Translating text to hi'')],
         calls = [WhisperLoad ''base'',
                  WhisperTranscribe ''base'' ''a.wav'' None,
                  GoogleTranslate ''hello'' ''hi'' None,
                  GoogleTTS ''namaste'' ''hi'' None,
                  WriteFile ''./processed/t1_translated_audio.mp3''],
         invoked = [], stages = [Transcribe, Translate, Synthesize] \<rparr>",
     OF nested_pairing]
  by (simp add: ai_defs)

section \<open>The storage methods return records\<close>

lemma error_record_is_error [simp]: "is_error_record (error_record m)"
  by (simp add: error_record_def is_error_record_def)

lemma r2_handlers_returns:
  assumes "\<And>d s1. m s = (Inr d, s1) \<Longrightarrow> is_success_record d \<or> is_error_record d"
  shows "returns_record (r2_handlers client_log prefix other_log m) s"
proof -
  obtain r s1 where m: "m s = (r, s1)"
    by (rule prod.exhaust)
  show ?thesis
    using assms [of _ s1] m by (cases r) (auto simp: returns_record_def r2_handlers_def)
qed

lemma local_handler_returns:
  assumes "\<And>d s1. m s = (Inr d, s1) \<Longrightarrow> is_success_record d \<or> is_error_record d"
  shows "returns_record (local_handler what m) s"
proof -
  obtain r s1 where m: "m s = (r, s1)"
    by (rule prod.exhaust)
  show ?thesis
    using assms [of _ s1] m by (cases r) (auto simp: returns_record_def local_handler_def)
qed

lemma r2_handlers_reports: "reports (r2_message prefix) m (r2_handlers client_log prefix other_log m) s"
  by (simp add: reports_def r2_handlers_def split: prod.splits sum.splits)

lemma local_handler_reports: "reports exn_str m (local_handler what m) s"
  by (simp add: reports_def local_handler_def split: prod.splits sum.splits)

lemmas record_simps = is_success_record_def is_error_record_def error_record_def

lemma r2_upload_file_try_record:
  "r2_upload_file_try S svc local_path remote_key metadata s = (Inr d, s1)
     \<Longrightarrow> is_success_record d \<or> is_error_record d"
  by (auto simp: r2_upload_file_try_def and_then_def return_def Let_def record_simps
      split: if_splits prod.splits sum.splits)

lemma r2_generate_signed_url_try_record:
  "r2_generate_signed_url_try S svc remote_key expiration s = (Inr d, s1)
     \<Longrightarrow> is_success_record d \<or> is_error_record d"
  by (auto simp: r2_generate_signed_url_try_def and_then_def return_def record_simps
      split: if_splits prod.splits sum.splits)

lemma r2_delete_file_try_record:
  "r2_delete_file_try S svc remote_key s = (Inr d, s1) \<Longrightarrow> is_success_record d \<or> is_error_record d"
  by (auto simp: r2_delete_file_try_def and_then_def return_def record_simps
      split: if_splits prod.splits sum.splits)

lemma r2_list_files_try_record:
  "r2_list_files_try S svc prefix s = (Inr d, s1) \<Longrightarrow> is_success_record d \<or> is_error_record d"
  by (auto simp: r2_list_files_try_def and_then_def return_def Let_def record_simps
      split: if_splits prod.splits sum.splits)

lemma local_upload_file_try_record:
  "local_upload_file_try S svc local_path remote_key metadata s = (Inr d, s1)
     \<Longrightarrow> is_success_record d \<or> is_error_record d"
  by (auto simp: local_upload_file_try_def and_then_def return_def Let_def record_simps
      split: if_splits prod.splits sum.splits)

lemma local_generate_signed_url_try_record:
  "local_generate_signed_url_try S svc remote_key expiration s = (Inr d, s1)
     \<Longrightarrow> is_success_record d \<or> is_error_record d"
  by (auto simp: local_generate_signed_url_try_def Let_def record_simps split: if_splits)

lemma local_delete_file_try_record:
  "local_delete_file_try S svc remote_key s = (Inr d, s1) \<Longrightarrow> is_success_record d \<or> is_error_record d"
  by (auto simp: local_delete_file_try_def and_then_def return_def Let_def record_simps
      split: if_splits prod.splits sum.splits)

lemma local_list_files_try_record:
  "local_list_files_try S svc prefix s = (Inr d, s1) \<Longrightarrow> is_success_record d \<or> is_error_record d"
  by (auto simp: local_list_files_try_def and_then_def return_def record_simps
      split: prod.splits sum.splits)

lemma r2_methods_return:
  "returns_record (r2_upload_file S svc local_path remote_key metadata) s"
  "returns_record (r2_generate_signed_url S svc remote_key expiration) s"
  "returns_record (r2_delete_file S svc remote_key) s"
  "returns_record (r2_list_files S svc prefix) s"
  unfolding r2_upload_file_def r2_generate_signed_url_def r2_delete_file_def r2_list_files_def
  by (rule r2_handlers_returns, erule r2_upload_file_try_record,
      rule r2_handlers_returns, erule r2_generate_signed_url_try_record,
      rule r2_handlers_returns, erule r2_delete_file_try_record,
      rule r2_handlers_returns, erule r2_list_files_try_record)

lemma local_methods_return:
  "returns_record (local_upload_file S svc local_path remote_key metadata) s"
  "returns_record (local_generate_signed_url S svc remote_key expiration) s"
  "returns_record (local_delete_file S svc remote_key) s"
  "returns_record (local_list_files S svc prefix) s"
  unfolding local_upload_file_def local_generate_signed_url_def local_delete_file_def local_list_files_def
  by (rule local_handler_returns, erule local_upload_file_try_record,
      rule local_handler_returns, erule local_generate_signed_url_try_record,
      rule local_handler_returns, erule local_delete_file_try_record,
      rule local_handler_returns, erule local_list_files_try_record)

lemma manager_methods_return:
  "returns_record (manager_upload_file S mgr local_path remote_key metadata) s"
  "returns_record (manager_generate_signed_url S mgr remote_key expiration) s"
  "returns_record (manager_delete_file S mgr remote_key) s"
  "returns_record (manager_list_files S mgr prefix) s"
  by (cases "primary_service mgr";
      simp add: manager_upload_file_def manager_generate_signed_url_def manager_delete_file_def
        manager_list_files_def r2_methods_return local_methods_return)+

lemmas storage_defs =
  new_storage_manager_def r2_initialize_client_def initialize_failed_def is_available_def
  get_storage_type_def is_set_def or_none_def all_credentials_def
  manager_upload_file_def manager_generate_signed_url_def manager_delete_file_def manager_list_files_def
  r2_upload_file_def r2_generate_signed_url_def r2_delete_file_def r2_list_files_def
  r2_upload_file_try_def r2_generate_signed_url_try_def r2_delete_file_try_def r2_list_files_try_def
  local_upload_file_def local_generate_signed_url_def local_delete_file_def local_list_files_def
  local_upload_file_try_def local_generate_signed_url_try_def local_delete_file_try_def
  local_list_files_try_def r2_handlers_def local_handler_def r2_message_def bucket_value_def
  error_record_def dirname_def strip_chars_def path_join_def startswith_def
  sim_storage_def answers_def full_credentials_def no_bucket_name_def no_such_file_def
  posix_relpath_def normpath_def path_root_def
  and_then_def return_def external_def logger_def sim_state_def Let_def

text \<open>
  Claim C7. Every storage operation (upload, signed URL, delete, list), of the R2
  service, of the local service and of the storage manager, returns for every input and
  in every state: it never raises, and what it returns is a success record (\<^verbatim>\<open>success\<close> is
  \<^verbatim>\<open>True\<close>, no key \<^verbatim>\<open>error\<close>) or an error record (the single key \<^verbatim>\<open>error\<close> with a message).
  A failure is returned as the error value: whatever the \<^verbatim>\<open>try\<close> block of a method returns
  is returned as it is, and an exception it raises is returned as the error record whose
  message is \<^verbatim>\<open>str(e)\<close>, for a ClientError of the R2 service with the operation's prefix,
  with no external call after the one that raised.
\<close>

theorem storage_operations_return_records:
  "returns_record (r2_upload_file S r2 local_path remote_key metadata) s
   \<and> returns_record (r2_generate_signed_url S r2 remote_key expiration) s
   \<and> returns_record (r2_delete_file S r2 remote_key) s
   \<and> returns_record (r2_list_files S r2 prefix) s
   \<and> returns_record (local_upload_file S loc local_path remote_key metadata) s
   \<and> returns_record (local_generate_signed_url S loc remote_key expiration) s
   \<and> returns_record (local_delete_file S loc remote_key) s
   \<and> returns_record (local_list_files S loc prefix) s
   \<and> returns_record (manager_upload_file S mgr local_path remote_key metadata) s
   \<and> returns_record (manager_generate_signed_url S mgr remote_key expiration) s
   \<and> returns_record (manager_delete_file S mgr remote_key) s
   \<and> returns_record (manager_list_files S mgr prefix) s
   \<and> reports (r2_message ''Upload failed'') (r2_upload_file_try S r2 local_path remote_key metadata)
        (r2_upload_file S r2 local_path remote_key metadata) s
   \<and> reports (r2_message ''Signed URL generation failed'') (r2_generate_signed_url_try S r2 remote_key expiration)
        (r2_generate_signed_url S r2 remote_key expiration) s
   \<and> reports (r2_message ''Delete failed'') (r2_delete_file_try S r2 remote_key)
        (r2_delete_file S r2 remote_key) s
   \<and> reports (r2_message ''List failed'') (r2_list_files_try S r2 prefix) (r2_list_files S r2 prefix) s
   \<and> reports exn_str (local_upload_file_try S loc local_path remote_key metadata)
        (local_upload_file S loc local_path remote_key metadata) s
   \<and> reports exn_str (local_generate_signed_url_try S loc remote_key expiration)
        (local_generate_signed_url S loc remote_key expiration) s
   \<and> reports exn_str (local_delete_file_try S loc remote_key) (local_delete_file S loc remote_key) s
   \<and> reports exn_str (local_list_files_try S loc prefix) (local_list_files S loc prefix) s"
  unfolding r2_upload_file_def [of S r2] r2_generate_signed_url_def [of S r2] r2_delete_file_def [of S r2]
    r2_list_files_def [of S r2] local_upload_file_def [of S loc] local_generate_signed_url_def [of S loc]
    local_delete_file_def [of S loc] local_list_files_def [of S loc]
  by (intro conjI r2_handlers_reports local_handler_reports
        r2_methods_return [unfolded r2_upload_file_def r2_generate_signed_url_def r2_delete_file_def
          r2_list_files_def]
        local_methods_return [unfolded local_upload_file_def local_generate_signed_url_def
          local_delete_file_def local_list_files_def]
        manager_methods_return)

text \<open>
  Runs on the simulated machine: an upload to R2 that the service refuses and one it
  accepts, an upload to the local storage on a full disk and one that succeeds, and a
  listing of the local storage.
\<close>

theorem storage_operations_return_records_witness:
  "r2_upload_file (sim_storage (answers full_credentials (Inr ()) (Inl (ClientError ''AccessDenied'')) (Inr ())))
      \<lparr> r2_client = True, bucket_name = Some ''media'' \<rparr> ''clip.mp4'' ''k/clip.mp4'' None
      (sim_state [''clip.mp4'', ''./storage/old.mp4''])
     = (Inr [(''error'', PStr ''Upload failed: AccessDenied'')],
        \<lparr> world = [''clip.mp4'', ''./storage/old.mp4''],
          log = [(INFO, ''Uploading clip.mp4 to R2 as k/clip.mp4''),
                 (ERROR, ''R2 upload failed: AccessDenied'')],
          calls = [Library ''upload_fileobj'' [''clip.mp4'', ''media'', ''k/clip.mp4'']],
          invoked = [], stages = [] \<rparr>)
   \<and> fst (r2_upload_file (sim_storage (answers full_credentials (Inr ()) (Inr ()) (Inr ())))
      \<lparr> r2_client = True, bucket_name = Some ''media'' \<rparr> ''clip.mp4'' ''k/clip.mp4'' None
      (sim_state [''clip.mp4'', ''./storage/old.mp4'']))
     = Inr [(''success'', PBool True), (''remote_key'', PStr ''k/clip.mp4''),
            (''bucket'', PStr ''media''), (''size'', PInt 10), (''content_type'', PStr ''video/mp4''),
            (''url'', PStr ''https://media.r2.dev/k/clip.mp4'')]
   \<and> local_upload_file
      (sim_storage (answers full_credentials (Inr ()) (Inl (ClientError ''AccessDenied''))
                      (Inl (Other OSError ''[Errno 28] No space left on device''))))
      \<lparr> storage_dir = ''./storage'' \<rparr> ''clip.mp4'' ''k/clip.mp4'' None
      (sim_state [''clip.mp4'', ''./storage/old.mp4''])
     = (Inr [(''error'', PStr ''[Errno 28] No space left on device'')],
        \<lparr> world = [''clip.mp4'', ''./storage/old.mp4''],
          log = [(ERROR, ''Local storage upload failed: [Errno 28] No space left on device'')],
          calls = [Library ''makedirs'' [''./storage/k'']], invoked = [], stages = [] \<rparr>)
   \<and> local_upload_file (sim_storage (answers full_credentials (Inr ()) (Inr ()) (Inr ())))
      \<lparr> storage_dir = ''./storage'' \<rparr> ''clip.mp4'' ''k/clip.mp4'' None
      (sim_state [''clip.mp4'', ''./storage/old.mp4''])
     = (Inr [(''success'', PBool True), (''remote_key'', PStr ''k/clip.mp4''),
             (''local_path'', PStr ''./storage/k/clip.mp4''), (''size'', PInt 10),
             (''url'', PStr ''/storage/k/clip.mp4'')],
        \<lparr> world = [''./storage/k/clip.mp4'', ''clip.mp4'', ''./storage/old.mp4''], log = [],
          calls = [Library ''makedirs'' [''./storage/k''],
                   Library ''copy2'' [''clip.mp4'', ''./storage/k/clip.mp4''],
                   Library ''getsize'' [''./storage/k/clip.mp4'']],
          invoked = [], stages = [] \<rparr>)
   \<and> fst (local_list_files (sim_storage (answers full_credentials (Inr ()) (Inr ()) (Inr ())))
      \<lparr> storage_dir = ''./storage'' \<rparr> '''' (sim_state [''clip.mp4'', ''./storage/old.mp4'']))
     = Inr [(''success'', PBool True),
            (''files'', PList [PDict [(''key'', PStr ''old.mp4''), (''size'', PInt 10),
                                      (''last_modified'', PStr ''2030-01-01T00:00:00''),
                                      (''local_path'', PStr ''./storage/old.mp4'')]]),
            (''count'', PInt 1)]"
  using storage_operations_return_records
    [where S = "sim_storage (answers full_credentials (Inr ()) (Inl (ClientError ''AccessDenied''))
                      (Inl (Other OSError ''[Errno 28] No space left on device'')))"
       and ?r2.0 = "\<lparr> r2_client = True, bucket_name = Some ''media'' \<rparr>"
       and loc = "\<lparr> storage_dir = ''./storage'' \<rparr>"
       and local_path = "''clip.mp4''" and remote_key = "''k/clip.mp4''" and metadata = None
       and s = "sim_state [''clip.mp4'', ''./storage/old.mp4'']"]
    storage_operations_return_records
    [where S = "sim_storage (answers full_credentials (Inr ()) (Inr ()) (Inr ()))"
       and ?r2.0 = "\<lparr> r2_client = True, bucket_name = Some ''media'' \<rparr>"
       and loc = "\<lparr> storage_dir = ''./storage'' \<rparr>"
       and local_path = "''clip.mp4''" and remote_key = "''k/clip.mp4''" and metadata = None
       and prefix = "''''"
       and s = "sim_state [''clip.mp4'', ''./storage/old.mp4'']"]
  by (simp add: storage_defs replace.simps)

section \<open>The choice of the storage backend\<close>

text \<open>The client of the R2 service is set exactly when the four credentials are present
  and \<^verbatim>\<open>boto3.client\<close> returns; the connection test has no part in it.\<close>

lemma r2_client_set:
  "r2_client (fst (r2_initialize_client S s))
     \<longleftrightarrow> all_credentials S (world s)
         \<and> \<not> isl (fst (boto3_client S
                           (''https://'' @ or_none (environ S ''CLOUDFLARE_ACCOUNT_ID'' (world s))
                              @ ''.r2.cloudflarestorage.com'')
                           (or_none (environ S ''CLOUDFLARE_R2_ACCESS_KEY_ID'' (world s)))
                           (or_none (environ S ''CLOUDFLARE_R2_SECRET_ACCESS_KEY'' (world s)))
                           (world s)))"
  by (auto simp: r2_initialize_client_def all_credentials_def external_def Let_def
      split: prod.splits sum.splits)

lemma new_storage_manager_services:
  assumes "new_storage_manager S s = (Inr mgr, s')"
  shows "r2_service mgr = fst (r2_initialize_client S s)"
    and "primary_service mgr = (if r2_client (r2_service mgr) then Remote else Local)"
    and "local_service mgr = \<lparr> storage_dir = ''./storage'' \<rparr>"
  using assms
  by (auto simp: new_storage_manager_def is_available_def split: prod.splits sum.splits)

lemma storage_type_of_client:
  "get_storage_type mgr = (if r2_client (r2_service mgr) then ''cloudflare_r2'' else ''local'')"
  by (simp add: get_storage_type_def is_available_def)

text \<open>
  Claim C6 says that the local backend is chosen when a credential is absent or the
  connectivity probe fails. The code chooses by \<^verbatim>\<open>self.client\<close> alone, which
  \<^verbatim>\<open>_initialize_client\<close> assigns as soon as \<^verbatim>\<open>boto3.client\<close> returns, before \<^verbatim>\<open>head_bucket\<close> is
  called; the \<^verbatim>\<open>except\<close> clauses only log. So, for every manager that is built: when one
  of the four credentials is absent (unset or empty), or \<^verbatim>\<open>boto3.client\<close> raises,
  \<^verbatim>\<open>get_storage_type\<close> is \<^verbatim>\<open>local\<close> and every operation is the local service's; when the
  four credentials are present and the client is built, \<^verbatim>\<open>get_storage_type\<close> is
  \<^verbatim>\<open>cloudflare_r2\<close> and every operation is the R2 service's, when the probe succeeds and
  also when the probe fails.
\<close>

theorem backend_follows_the_client:
  assumes "new_storage_manager S s = (Inr mgr, s')"
  shows "(\<not> all_credentials S (world s) \<longrightarrow>
            get_storage_type mgr = ''local'' \<and> primary_service mgr = Local)
       \<and> (all_credentials S (world s)
            \<and> fst (boto3_client S
                      (''https://'' @ or_none (environ S ''CLOUDFLARE_ACCOUNT_ID'' (world s))
                         @ ''.r2.cloudflarestorage.com'')
                      (or_none (environ S ''CLOUDFLARE_R2_ACCESS_KEY_ID'' (world s)))
                      (or_none (environ S ''CLOUDFLARE_R2_SECRET_ACCESS_KEY'' (world s)))
                      (world s)) = Inl e \<longrightarrow>
            get_storage_type mgr = ''local'' \<and> primary_service mgr = Local)
       \<and> (all_credentials S (world s)
            \<and> boto3_client S
                 (''https://'' @ or_none (environ S ''CLOUDFLARE_ACCOUNT_ID'' (world s))
                    @ ''.r2.cloudflarestorage.com'')
                 (or_none (environ S ''CLOUDFLARE_R2_ACCESS_KEY_ID'' (world s)))
                 (or_none (environ S ''CLOUDFLARE_R2_SECRET_ACCESS_KEY'' (world s)))
                 (world s) = (Inr (), w1)
            \<and> fst (head_bucket S (environ S ''CLOUDFLARE_R2_BUCKET_NAME'' (world s)) w1) = Inr () \<longrightarrow>
            get_storage_type mgr = ''cloudflare_r2'' \<and> primary_service mgr = Remote)
       \<and> (all_credentials S (world s)
            \<and> boto3_client S
                 (''https://'' @ or_none (environ S ''CLOUDFLARE_ACCOUNT_ID'' (world s))
                    @ ''.r2.cloudflarestorage.com'')
                 (or_none (environ S ''CLOUDFLARE_R2_ACCESS_KEY_ID'' (world s)))
                 (or_none (environ S ''CLOUDFLARE_R2_SECRET_ACCESS_KEY'' (world s)))
                 (world s) = (Inr (), w1)
            \<and> fst (head_bucket S (environ S ''CLOUDFLARE_R2_BUCKET_NAME'' (world s)) w1) = Inl probe_error \<longrightarrow>
            get_storage_type mgr = ''cloudflare_r2'' \<and> primary_service mgr = Remote)
       \<and> (primary_service mgr = Local \<longrightarrow>
            manager_upload_file S mgr = local_upload_file S (local_service mgr)
            \<and> manager_generate_signed_url S mgr = local_generate_signed_url S (local_service mgr)
            \<and> manager_delete_file S mgr = local_delete_file S (local_service mgr)
            \<and> manager_list_files S mgr = local_list_files S (local_service mgr))
       \<and> (primary_service mgr = Remote \<longrightarrow>
            manager_upload_file S mgr = r2_upload_file S (r2_service mgr)
            \<and> manager_generate_signed_url S mgr = r2_generate_signed_url S (r2_service mgr)
            \<and> manager_delete_file S mgr = r2_delete_file S (r2_service mgr)
            \<and> manager_list_files S mgr = r2_list_files S (r2_service mgr))"
proof -
  note svc = new_storage_manager_services [OF assms]
  have client: "r2_client (r2_service mgr)
     \<longleftrightarrow> all_credentials S (world s)
         \<and> \<not> isl (fst (boto3_client S
                           (''https://'' @ or_none (environ S ''CLOUDFLARE_ACCOUNT_ID'' (world s))
                              @ ''.r2.cloudflarestorage.com'')
                           (or_none (environ S ''CLOUDFLARE_R2_ACCESS_KEY_ID'' (world s)))
                           (or_none (environ S ''CLOUDFLARE_R2_SECRET_ACCESS_KEY'' (world s)))
                           (world s)))"
    unfolding svc(1) by (rule r2_client_set)
  show ?thesis
  proof (intro conjI impI)
    assume "\<not> all_credentials S (world s)"
    with client have c: "\<not> r2_client (r2_service mgr)" by simp
    from c show "get_storage_type mgr = ''local''" by (simp add: storage_type_of_client)
    from c svc(2) show "primary_service mgr = Local" by simp
  next
    assume a: "all_credentials S (world s)
            \<and> fst (boto3_client S
                      (''https://'' @ or_none (environ S ''CLOUDFLARE_ACCOUNT_ID'' (world s))
                         @ ''.r2.cloudflarestorage.com'')
                      (or_none (environ S ''CLOUDFLARE_R2_ACCESS_KEY_ID'' (world s)))
                      (or_none (environ S ''CLOUDFLARE_R2_SECRET_ACCESS_KEY'' (world s)))
                      (world s)) = Inl e"
    with client have c: "\<not> r2_client (r2_service mgr)" by simp
    from c show "get_storage_type mgr = ''local''" by (simp add: storage_type_of_client)
    from c svc(2) show "primary_service mgr = Local" by simp
  next
    assume a: "all_credentials S (world s)
            \<and> boto3_client S
                 (''https://'' @ or_none (environ S ''CLOUDFLARE_ACCOUNT_ID'' (world s))
                    @ ''.r2.cloudflarestorage.com'')
                 (or_none (environ S ''CLOUDFLARE_R2_ACCESS_KEY_ID'' (world s)))
                 (or_none (environ S ''CLOUDFLARE_R2_SECRET_ACCESS_KEY'' (world s)))
                 (world s) = (Inr (), w1)
            \<and> fst (head_bucket S (environ S ''CLOUDFLARE_R2_BUCKET_NAME'' (world s)) w1) = Inr ()"
    with client have c: "r2_client (r2_service mgr)" by simp
    from c show "get_storage_type mgr = ''cloudflare_r2''" by (simp add: storage_type_of_client)
    from c svc(2) show "primary_service mgr = Remote" by simp
  next
    assume a: "all_credentials S (world s)
            \<and> boto3_client S
                 (''https://'' @ or_none (environ S ''CLOUDFLARE_ACCOUNT_ID'' (world s))
                    @ ''.r2.cloudflarestorage.com'')
                 (or_none (environ S ''CLOUDFLARE_R2_ACCESS_KEY_ID'' (world s)))
                 (or_none (environ S ''CLOUDFLARE_R2_SECRET_ACCESS_KEY'' (world s)))
                 (world s) = (Inr (), w1)
            \<and> fst (head_bucket S (environ S ''CLOUDFLARE_R2_BUCKET_NAME'' (world s)) w1) = Inl probe_error"
    with client have c: "r2_client (r2_service mgr)" by simp
    from c show "get_storage_type mgr = ''cloudflare_r2''" by (simp add: storage_type_of_client)
    from c svc(2) show "primary_service mgr = Remote" by simp
  next
    assume l: "primary_service mgr = Local"
    show "manager_upload_file S mgr = local_upload_file S (local_service mgr)"
      by (intro ext) (simp add: manager_upload_file_def l)
    show "manager_generate_signed_url S mgr = local_generate_signed_url S (local_service mgr)"
      by (intro ext) (simp add: manager_generate_signed_url_def l)
    show "manager_delete_file S mgr = local_delete_file S (local_service mgr)"
      by (intro ext) (simp add: manager_delete_file_def l)
    show "manager_list_files S mgr = local_list_files S (local_service mgr)"
      by (intro ext) (simp add: manager_list_files_def l)
  next
    assume r: "primary_service mgr = Remote"
    show "manager_upload_file S mgr = r2_upload_file S (r2_service mgr)"
      by (intro ext) (simp add: manager_upload_file_def r)
    show "manager_generate_signed_url S mgr = r2_generate_signed_url S (r2_service mgr)"
      by (intro ext) (simp add: manager_generate_signed_url_def r)
    show "manager_delete_file S mgr = r2_delete_file S (r2_service mgr)"
      by (intro ext) (simp add: manager_delete_file_def r)
    show "manager_list_files S mgr = r2_list_files S (r2_service mgr)"
      by (intro ext) (simp add: manager_list_files_def r)
  qed
qed

text \<open>
  Three machines: one without the bucket name, one with the four credentials whose
  connection test succeeds, and one with the four credentials whose connection test
  fails. On the third the manager reports \<^verbatim>\<open>cloudflare_r2\<close> and a delete goes to the bucket.
\<close>

theorem backend_follows_the_client_witness:
  "new_storage_manager (sim_storage (answers no_bucket_name (Inr ()) (Inr ()) (Inr ()))) (sim_state [''clip.mp4''])
     = (Inr \<lparr> r2_service = \<lparr> r2_client = False, bucket_name = None \<rparr>,
              local_service = \<lparr> storage_dir = ''./storage'' \<rparr>, primary_service = Local \<rparr>,
        \<lparr> world = [''clip.mp4''],
          log = [(WARNING, ''Cloudflare R2 credentials not found, using local storage''),
                 (INFO, ''Using local storage'')],
          calls = [Library ''makedirs'' [''./storage'']], invoked = [], stages = [] \<rparr>)
   \<and> get_storage_type \<lparr> r2_service = \<lparr> r2_client = False, bucket_name = None \<rparr>,
              local_service = \<lparr> storage_dir = ''./storage'' \<rparr>, primary_service = Local \<rparr> = ''local''
   \<and> new_storage_manager (sim_storage (answers full_credentials (Inr ()) (Inr ()) (Inr ()))) (sim_state [''clip.mp4''])
     = (Inr \<lparr> r2_service = \<lparr> r2_client = True, bucket_name = Some ''media'' \<rparr>,
              local_service = \<lparr> storage_dir = ''./storage'' \<rparr>, primary_service = Remote \<rparr>,
        \<lparr> world = [''clip.mp4''],
          log = [(INFO, ''Cloudflare R2 client initialized successfully''),
                 (INFO, ''Using Cloudflare R2 storage'')],
          calls = [Library ''boto3.client'' [''https://acct.r2.cloudflarestorage.com'', ''key'', ''secret''],
                   Library ''head_bucket'' [''media''],
                   Library ''makedirs'' [''./storage'']],
          invoked = [], stages = [] \<rparr>)
   \<and> new_storage_manager
        (sim_storage (answers full_credentials (Inl (ClientError ''Forbidden'')) (Inr ()) (Inr ())))
        (sim_state [''clip.mp4''])
     = (Inr \<lparr> r2_service = \<lparr> r2_client = True, bucket_name = Some ''media'' \<rparr>,
              local_service = \<lparr> storage_dir = ''./storage'' \<rparr>, primary_service = Remote \<rparr>,
        \<lparr> world = [''clip.mp4''],
          log = [(ERROR, ''Failed to initialize R2 client: Forbidden''),
                 (INFO, ''Using Cloudflare R2 storage'')],
          calls = [Library ''boto3.client'' [''https://acct.r2.cloudflarestorage.com'', ''key'', ''secret''],
                   Library ''head_bucket'' [''media''],
                   Library ''makedirs'' [''./storage'']],
          invoked = [], stages = [] \<rparr>)
   \<and> get_storage_type \<lparr> r2_service = \<lparr> r2_client = True, bucket_name = Some ''media'' \<rparr>,
              local_service = \<lparr> storage_dir = ''./storage'' \<rparr>, primary_service = Remote \<rparr>
     = ''cloudflare_r2''
   \<and> manager_delete_file
        (sim_storage (answers full_credentials (Inl (ClientError ''Forbidden'')) (Inr ()) (Inr ())))
        \<lparr> r2_service = \<lparr> r2_client = True, bucket_name = Some ''media'' \<rparr>,
          local_service = \<lparr> storage_dir = ''./storage'' \<rparr>, primary_service = Remote \<rparr>
        ''k/clip.mp4'' (sim_state [''clip.mp4''])
     = (Inr [(''success'', PBool True), (''deleted_key'', PStr ''k/clip.mp4'')],
        \<lparr> world = [''clip.mp4''], log = [(INFO, ''Deleting k/clip.mp4 from R2'')],
          calls = [Library ''delete_object'' [''media'', ''k/clip.mp4'']],
          invoked = [], stages = [] \<rparr>)"
proof -
  have local_run: "new_storage_manager (sim_storage (answers no_bucket_name (Inr ()) (Inr ()) (Inr ())))
        (sim_state [''clip.mp4''])
     = (Inr \<lparr> r2_service = \<lparr> r2_client = False, bucket_name = None \<rparr>,
              local_service = \<lparr> storage_dir = ''./storage'' \<rparr>, primary_service = Local \<rparr>,
        \<lparr> world = [''clip.mp4''],
          log = [(WARNING, ''Cloudflare R2 credentials not found, using local storage''),
                 (INFO, ''Using local storage'')],
          calls = [Library ''makedirs'' [''./storage'']], invoked = [], stages = [] \<rparr>)"
    by (simp add: storage_defs)
  have remote_run: "new_storage_manager (sim_storage (answers full_credentials (Inr ()) (Inr ()) (Inr ())))
        (sim_state [''clip.mp4''])
     = (Inr \<lparr> r2_service = \<lparr> r2_client = True, bucket_name = Some ''media'' \<rparr>,
              local_service = \<lparr> storage_dir = ''./storage'' \<rparr>, primary_service = Remote \<rparr>,
        \<lparr> world = [''clip.mp4''],
          log = [(INFO, ''Cloudflare R2 client initialized successfully''),
                 (INFO, ''Using Cloudflare R2 storage'')],
          calls = [Library ''boto3.client'' [''https://acct.r2.cloudflarestorage.com'', ''key'', ''secret''],
                   Library ''head_bucket'' [''media''],
                   Library ''makedirs'' [''./storage'']],
          invoked = [], stages = [] \<rparr>)"
    by (simp add: storage_defs)
  have failed_probe_run: "new_storage_manager
        (sim_storage (answers full_credentials (Inl (ClientError ''Forbidden'')) (Inr ()) (Inr ())))
        (sim_state [''clip.mp4''])
     = (Inr \<lparr> r2_service = \<lparr> r2_client = True, bucket_name = Some ''media'' \<rparr>,
              local_service = \<lparr> storage_dir = ''./storage'' \<rparr>, primary_service = Remote \<rparr>,
        \<lparr> world = [''clip.mp4''],
          log = [(ERROR, ''Failed to initialize R2 client: Forbidden''),
                 (INFO, ''Using Cloudflare R2 storage'')],
          calls = [Library ''boto3.client'' [''https://acct.r2.cloudflarestorage.com'', ''key'', ''secret''],
                   Library ''head_bucket'' [''media''],
                   Library ''makedirs'' [''./storage'']],
          invoked = [], stages = [] \<rparr>)"
    by (simp add: storage_defs)
  from backend_follows_the_client [OF local_run]
       backend_follows_the_client [OF remote_run, where ?w1.0 = "[''clip.mp4'']"]
       backend_follows_the_client [OF failed_probe_run, where ?w1.0 = "[''clip.mp4'']"
         and probe_error = "ClientError ''Forbidden''"]
       local_run remote_run failed_probe_run
  show ?thesis
    by (simp add: storage_defs)
qed

end
